(* ===== verification/Prelude.thy ===== *)
theory Prelude
  imports Complex_Main
begin

text \<open>
  Shared vocabulary of the development. Python exceptions are values of
  \<open>py_error\<close>; a computation that may raise returns \<open>py_error + 'a\<close>
  (\<open>Inl\<close> the exception), and \<open>r_bind\<close> propagates the first exception as
  the interpreter does. A Python \<open>dict\<close> keeps its keys in insertion order and
  overwrites the value of a key that is already present without moving it; it is
  modelled as an association list with distinct keys (\<open>pydict\<close>), with
  \<open>dict_contains\<close> for \<open>k in d\<close>, \<open>dict_set\<close> for \<open>d[k] = v\<close>,
  \<open>dict_get\<close> for \<open>d[k]\<close> (KeyError when absent) and \<open>length\<close> for
  \<open>len(d)\<close>. The lemmas here are the ones every component uses: they are
  collected in \<open>pydict_simps\<close> and \<open>result_simps\<close>.
\<close>

named_theorems pydict_simps "characteristic equations of the Python dict model"
named_theorems result_simps "characteristic equations of the exception model"

section \<open>Exceptions as values\<close>

datatype py_error =
    KeyError
  | IndexError
  | TypeError
  | ValueError
  | AttributeError
  | OverflowError
  | RuntimeError
  | UnboundLocalError
  | ModuleNotFoundError

type_synonym 'a py_result = "py_error + 'a"

definition r_bind :: "'a py_result \<Rightarrow> ('a \<Rightarrow> 'b py_result) \<Rightarrow> 'b py_result" where
  "r_bind r f = (case r of Inl e \<Rightarrow> Inl e | Inr a \<Rightarrow> f a)"

text \<open>\<open>[f(x) for x in xs]\<close> where \<open>f\<close> may raise: the first exception wins.\<close>

fun r_mapM :: "('a \<Rightarrow> 'b py_result) \<Rightarrow> 'a list \<Rightarrow> 'b list py_result" where
  "r_mapM f [] = Inr []"
| "r_mapM f (x # xs) = r_bind (f x) (\<lambda>y. r_bind (r_mapM f xs) (\<lambda>ys. Inr (y # ys)))"

text \<open>\<open>xs[i]\<close> for a non-negative index: IndexError past the end.\<close>

definition py_nth :: "'a list \<Rightarrow> nat \<Rightarrow> 'a py_result" where
  "py_nth xs i = (if i < length xs then Inr (xs ! i) else Inl IndexError)"

section \<open>Python dictionaries\<close>

type_synonym ('k, 'v) pydict = "('k \<times> 'v) list"

definition dict_contains :: "('k, 'v) pydict \<Rightarrow> 'k \<Rightarrow> bool" where
  "dict_contains d k \<longleftrightarrow> k \<in> set (map fst d)"

definition dict_set :: "('k, 'v) pydict \<Rightarrow> 'k \<Rightarrow> 'v \<Rightarrow> ('k, 'v) pydict" where
  "dict_set d k v =
     (if dict_contains d k then map (\<lambda>(k', v'). if k' = k then (k', v) else (k', v')) d
      else d @ [(k, v)])"

definition dict_get :: "('k, 'v) pydict \<Rightarrow> 'k \<Rightarrow> 'v py_result" where
  "dict_get d k = (case map_of d k of None \<Rightarrow> Inl KeyError | Some v \<Rightarrow> Inr v)"

section \<open>Enumerating keys\<close>

text \<open>Enumerating keys: \<open>if w not in d: d[w] = len(d)\<close>, the body of the inner loop
  of \<open>createWordDictionary\<close> in the one-hot script.\<close>

definition add_word :: "('k, nat) pydict \<Rightarrow> 'k \<Rightarrow> ('k, nat) pydict" where
  "add_word d w = (if dict_contains d w then d else dict_set d w (length d))"

text \<open>The words of a list in order of first occurrence, each once.\<close>

definition first_occurrences :: "'a list \<Rightarrow> 'a list" where
  "first_occurrences xs = fold (\<lambda>x acc. if x \<in> set acc then acc else acc @ [x]) xs []"

definition occ_step :: "'a \<Rightarrow> 'a list \<Rightarrow> 'a list" where
  "occ_step x acc = (if x \<in> set acc then acc else acc @ [x])"

section \<open>Lemmas on exceptions\<close>

lemma r_bind_Inl [simp, result_simps]: "r_bind (Inl e) f = Inl e"
  by (simp add: r_bind_def)

lemma r_bind_Inr [simp, result_simps]: "r_bind (Inr a) f = f a"
  by (simp add: r_bind_def)

lemma r_bind_eq_Inr [result_simps]:
  "r_bind r f = Inr b \<longleftrightarrow> (\<exists>a. r = Inr a \<and> f a = Inr b)"
  by (cases r) auto

lemma py_nth_Inr [simp, result_simps]: "i < length xs \<Longrightarrow> py_nth xs i = Inr (xs ! i)"
  by (simp add: py_nth_def)

lemma py_nth_Inl [simp, result_simps]: "\<not> i < length xs \<Longrightarrow> py_nth xs i = Inl IndexError"
  by (simp add: py_nth_def)

lemma r_bind_assoc [result_simps]: "r_bind (r_bind r f) g = r_bind r (\<lambda>a. r_bind (f a) g)"
  by (cases r) simp_all

lemma r_bind_Inr_right [simp, result_simps]: "r_bind r Inr = r"
  by (cases r) simp_all

lemma r_mapM_Inr_iff [result_simps]:
  "r_mapM f xs = Inr ys \<longleftrightarrow> list_all2 (\<lambda>x y. f x = Inr y) xs ys"
proof (induction xs arbitrary: ys)
  case Nil
  then show ?case by auto
next
  case (Cons x xs)
  then show ?case
    by (cases ys) (auto simp: r_bind_eq_Inr)
qed

lemma r_mapM_length: "r_mapM f xs = Inr ys \<Longrightarrow> length ys = length xs"
  by (auto simp: r_mapM_Inr_iff dest: list_all2_lengthD)

lemma r_mapM_nth:
  "r_mapM f xs = Inr ys \<Longrightarrow> i < length xs \<Longrightarrow> f (xs ! i) = Inr (ys ! i)"
  by (auto simp: r_mapM_Inr_iff list_all2_conv_all_nth)

lemma r_mapM_succeeds:
  "(\<forall>x \<in> set xs. \<exists>y. f x = Inr y) \<Longrightarrow> \<exists>ys. r_mapM f xs = Inr ys"
  by (induction xs) auto

lemma r_mapM_map:
  "(\<forall>x \<in> set xs. f x = Inr (g x)) \<Longrightarrow> r_mapM f xs = Inr (map g xs)"
  by (induction xs) auto

lemma r_mapM_Inl:
  "x \<in> set xs \<Longrightarrow> f x = Inl e \<Longrightarrow> \<exists>e'. r_mapM f xs = Inl e'"
proof (induction xs)
  case Nil
  then show ?case by simp
next
  case (Cons y ys)
  then show ?case
    by (cases "f y"; cases "r_mapM f ys") auto
qed

lemma r_mapM_Inl_iff:
  assumes "\<And>x e'. f x = Inl e' \<Longrightarrow> e' = E"
  shows "r_mapM f xs = Inl e \<longleftrightarrow> e = E \<and> (\<exists>x \<in> set xs. \<exists>e'. f x = Inl e')"
proof (induction xs)
  case Nil
  then show ?case by simp
next
  case (Cons y ys)
  show ?case
  proof (cases "f y")
    case (Inl e1)
    then have "e1 = E" by (rule assms)
    with Inl show ?thesis by auto
  next
    case (Inr b)
    with Cons.IH show ?thesis by (cases "r_mapM f ys") auto
  qed
qed

section \<open>Lemmas on dictionaries\<close>

lemma dict_contains_map_of [pydict_simps]: "dict_contains d k \<longleftrightarrow> map_of d k \<noteq> None"
  by (simp add: dict_contains_def map_of_eq_None_iff)

lemma map_fst_dict_set [simp, pydict_simps]:
  "map fst (dict_set d k v) = (if dict_contains d k then map fst d else map fst d @ [k])"
  by (induction d) (auto simp: dict_set_def dict_contains_def)

lemma length_dict_set [simp, pydict_simps]:
  "length (dict_set d k v) = (if dict_contains d k then length d else Suc (length d))"
  by (simp add: dict_set_def)

lemma map_of_update_in_place:
  "map_of (map (\<lambda>(k', v'). if k' = k then (k', v) else (k', v')) d) x =
     (if x = k then map_option (\<lambda>_. v) (map_of d k) else map_of d x)"
  by (induction d) auto

lemma map_of_dict_set [simp, pydict_simps]: "map_of (dict_set d k v) = (map_of d)(k \<mapsto> v)"
proof (cases "dict_contains d k")
  case True
  then obtain w where "map_of d k = Some w" by (auto simp: dict_contains_map_of)
  with True show ?thesis
    by (simp add: dict_set_def fun_eq_iff map_of_update_in_place)
next
  case False
  then have "map_of d k = None" by (simp add: dict_contains_map_of)
  with False show ?thesis
    by (simp add: dict_set_def map_add_def fun_eq_iff split: option.splits)
qed

lemma distinct_dict_set [pydict_simps]:
  "distinct (map fst d) \<Longrightarrow> distinct (map fst (dict_set d k v))"
  by (simp add: dict_contains_def)

lemma dict_set_fresh [pydict_simps]: "\<not> dict_contains d k \<Longrightarrow> dict_set d k v = d @ [(k, v)]"
  by (simp add: dict_set_def)

lemma dict_get_Inr [pydict_simps]: "dict_get d k = Inr v \<longleftrightarrow> map_of d k = Some v"
  by (simp add: dict_get_def split: option.splits)

lemma dict_get_Inl [pydict_simps]: "dict_get d k = Inl e \<longleftrightarrow> e = KeyError \<and> \<not> dict_contains d k"
  by (auto simp: dict_get_def dict_contains_map_of split: option.splits)

lemma values_dict_set:
  "snd ` set (dict_set d k v) \<subseteq> insert v (snd ` set d)"
  by (auto simp: dict_set_def split: if_splits)

lemma dict_set_in_place:
  assumes "dict_contains d k"
  shows "set (dict_set d k v) = {e \<in> set d. fst e \<noteq> k} \<union> {(k, v)} \<and> length (dict_set d k v) = length d"
proof -
  have m: "dict_set d k v = map (\<lambda>e. if fst e = k then (k, v) else e) d"
    using assms by (auto simp: dict_set_def case_prod_beta)
  obtain b where b: "(k, b) \<in> set d" using assms by (auto simp: dict_contains_def)
  have "set (dict_set d k v) = {e \<in> set d. fst e \<noteq> k} \<union> {(k, v)}"
  proof
    show "set (dict_set d k v) \<subseteq> {e \<in> set d. fst e \<noteq> k} \<union> {(k, v)}" by (auto simp: m)
    show "{e \<in> set d. fst e \<noteq> k} \<union> {(k, v)} \<subseteq> set (dict_set d k v)"
      using b by (auto simp: m image_iff intro: bexI [of _ "(k, b)"])
  qed
  then show ?thesis by (simp add: m)
qed

section \<open>Lists\<close>

lemma map_of_zip_upt_nth:
  "distinct ks \<Longrightarrow> i < length ks \<Longrightarrow> map_of (zip ks [0..<length ks]) (ks ! i) = Some i"
proof -
  assume d: "distinct ks" and i: "i < length ks"
  have "map_of (zip ks [0..<length ks]) (ks ! i) = Some ([0..<length ks] ! i)"
    using d i by (intro map_of_zip_nth) simp_all
  with i show ?thesis by simp
qed

lemma map_of_zip_upt_in:
  "distinct ks \<Longrightarrow> map_of (zip ks [0..<length ks]) k = Some i \<Longrightarrow> i < length ks \<and> ks ! i = k"
proof -
  assume d: "distinct ks" and m: "map_of (zip ks [0..<length ks]) k = Some i"
  from m have "(k, i) \<in> set (zip ks [0..<length ks])" by (rule map_of_SomeD)
  then obtain j where "j < length ks" "ks ! j = k" "[0..<length ks] ! j = i"
    by (auto simp: set_zip)
  then show ?thesis by simp
qed

section \<open>Lemmas on enumerations\<close>

lemma first_occurrences_fold: "first_occurrences xs = fold occ_step xs []"
  by (simp add: first_occurrences_def occ_step_def [abs_def])

lemma fold_occ_step_distinct: "distinct acc \<Longrightarrow> distinct (fold occ_step xs acc)"
  by (induction xs arbitrary: acc) (auto simp: occ_step_def)

lemma set_fold_occ_step: "set (fold occ_step xs acc) = set acc \<union> set xs"
  by (induction xs arbitrary: acc) (auto simp: occ_step_def)

lemma distinct_first_occurrences: "distinct (first_occurrences xs)"
  by (simp add: first_occurrences_fold fold_occ_step_distinct)

lemma set_first_occurrences [simp]: "set (first_occurrences xs) = set xs"
  by (simp add: first_occurrences_fold set_fold_occ_step)

lemma map_fst_zip_upt [simp]: "map fst (zip ks [0..<length ks]) = ks"
  by (simp add: map_fst_zip)

lemma add_word_zip:
  "add_word (zip ks [0..<length ks]) w =
     zip (occ_step w ks) [0..<length (occ_step w ks)]"

proof (cases "w \<in> set ks")
  case True
  then show ?thesis by (simp add: add_word_def dict_contains_def occ_step_def)

next
  case False
  then have "add_word (zip ks [0..<length ks]) w = zip ks [0..<length ks] @ [(w, length ks)]"
    by (simp add: add_word_def dict_contains_def dict_set_fresh)
  with False show ?thesis by (simp add: occ_step_def)

qed

lemma fold_add_word_zip:
  "fold (\<lambda>w d. add_word d w) ws (zip ks [0..<length ks]) =
     (let ks' = fold occ_step ws ks in zip ks' [0..<length ks'])"
  by (induction ws arbitrary: ks) (simp_all add: add_word_zip)

lemma dict_get_zip_upt:
  "distinct ks \<Longrightarrow> dict_get (zip ks [0..<length ks]) w = Inr i \<longleftrightarrow> i < length ks \<and> ks ! i = w"

proof -
  assume d: "distinct ks"
  show ?thesis
  proof
    assume "dict_get (zip ks [0..<length ks]) w = Inr i"
    then have "map_of (zip ks [0..<length ks]) w = Some i" by (simp only: dict_get_Inr)
    then show "i < length ks \<and> ks ! i = w" by (rule map_of_zip_upt_in [OF d])
  next
    assume "i < length ks \<and> ks ! i = w"
    with map_of_zip_upt_nth [OF d, of i] show "dict_get (zip ks [0..<length ks]) w = Inr i"
      by (simp only: dict_get_Inr)
  qed

qed

end
