(* ===== verification/PyStr.thy ===== *)
theory PyStr
  imports Prelude
begin

text \<open>
  The Python string operations the scripts call, on strings of Isabelle
  \<open>char\<close>s read as the code points U+0000..U+00FF (Latin-1), with the
  character classes CPython uses there:
  \<^item> \<open>py_isspace\<close>: \<open>Py_UNICODE_ISSPACE\<close>, used by \<open>str.split()\<close>
    and by the regular-expression class \<open>\s\<close>;
  \<^item> \<open>py_isword\<close>: \<open>\w\<close> of \<open>re\<close> on \<open>str\<close> patterns, that is
    \<open>str.isalnum()\<close> or the underscore;
  \<^item> \<open>py_lower\<close>: \<open>str.lower()\<close> on one character.
  \<open>str.split()\<close> without arguments and \<open>re.findall(r"[\w']+", s)\<close> both
  return the maximal runs of characters of one class, left to right; they are
  \<open>py_runs\<close> of that class. \<open>re.sub(r'[^\w\s]', '', w)\<close> deletes every
  character that is neither a word character nor white space.
\<close>

section \<open>Character classes\<close>

definition py_isspace :: "char \<Rightarrow> bool" where
  "py_isspace c \<longleftrightarrow>
     (let n = of_char c :: nat in (9 \<le> n \<and> n \<le> 13) \<or> (28 \<le> n \<and> n \<le> 32) \<or> n = 133 \<or> n = 160)"

definition py_isalnum :: "char \<Rightarrow> bool" where
  "py_isalnum c \<longleftrightarrow>
     (let n = of_char c :: nat in
        (48 \<le> n \<and> n \<le> 57) \<or> (65 \<le> n \<and> n \<le> 90) \<or> (97 \<le> n \<and> n \<le> 122)
      \<or> n = 170 \<or> n = 178 \<or> n = 179 \<or> n = 181 \<or> n = 185 \<or> n = 186
      \<or> (188 \<le> n \<and> n \<le> 190) \<or> (192 \<le> n \<and> n \<le> 214) \<or> (216 \<le> n \<and> n \<le> 246)
      \<or> 248 \<le> n)"

definition py_isword :: "char \<Rightarrow> bool" where
  "py_isword c \<longleftrightarrow> py_isalnum c \<or> c = CHR ''_''"

text \<open>Upper-case letters of Latin-1: A..Z and U+00C0..U+00DE without U+00D7.\<close>

definition py_isupper :: "char \<Rightarrow> bool" where
  "py_isupper c \<longleftrightarrow>
     (let n = of_char c :: nat in
        (65 \<le> n \<and> n \<le> 90) \<or> (192 \<le> n \<and> n \<le> 214) \<or> (216 \<le> n \<and> n \<le> 222))"

text \<open>Lowering adds 32 to the code point of an upper-case letter.\<close>

definition py_lower :: "char \<Rightarrow> char" where
  "py_lower c = (if py_isupper c then char_of (of_char c + (32::nat)) else c)"

definition py_str_lower :: "string \<Rightarrow> string" where
  "py_str_lower s = map py_lower s"

section \<open>Splitting into runs\<close>

text \<open>\<open>py_runs P cur s\<close>: the maximal runs of characters satisfying \<open>P\<close>
  in \<open>cur @ s\<close>, where \<open>cur\<close> is the run being read.\<close>

fun py_runs :: "(char \<Rightarrow> bool) \<Rightarrow> string \<Rightarrow> string \<Rightarrow> string list" where
  "py_runs P cur [] = (if cur = [] then [] else [cur])"
| "py_runs P cur (c # cs) =
     (if P c then py_runs P (cur @ [c]) cs
      else if cur = [] then py_runs P [] cs
      else cur # py_runs P [] cs)"

definition py_split :: "string \<Rightarrow> string list" where
  "py_split s = py_runs (\<lambda>c. \<not> py_isspace c) [] s"

definition re_findall_words :: "string \<Rightarrow> string list" where
  "re_findall_words s = py_runs (\<lambda>c. py_isword c \<or> c = CHR 0x27) [] s"

definition re_sub_punct :: "string \<Rightarrow> string" where
  "re_sub_punct w = filter (\<lambda>c. py_isword c \<or> py_isspace c) w"

section \<open>Lemmas\<close>

lemma py_isupper_lower: "py_isupper c \<Longrightarrow> of_char (py_lower c) = of_char c + (32::nat)"
  by (auto simp: py_lower_def py_isupper_def Let_def)

lemma py_lower_not_upper [simp]: "\<not> py_isupper c \<Longrightarrow> py_lower c = c"
  by (simp add: py_lower_def)

lemma py_lower_idem [simp]: "py_lower (py_lower c) = py_lower c"
proof (cases "py_isupper c")
  case True
  then have "of_char (py_lower c) = of_char c + (32::nat)" and "of_char c < (256::nat)"
    by (auto simp: py_isupper_lower)
  with True have "\<not> py_isupper (py_lower c)"
    by (auto simp: py_isupper_def Let_def)
  then show ?thesis by simp
qed simp

lemma py_str_lower_idem [simp]: "py_str_lower (py_str_lower s) = py_str_lower s"
  by (simp add: py_str_lower_def)

lemma py_runs_nonempty:
  "t \<in> set (py_runs P cur s) \<Longrightarrow> t \<noteq> []"
  by (induction P cur s rule: py_runs.induct) (auto split: if_splits)

lemma py_runs_class:
  "list_all P cur \<Longrightarrow> list_all (list_all P) (py_runs P cur s)"
  by (induction P cur s rule: py_runs.induct) simp_all

lemma concat_py_runs: "concat (py_runs P cur s) = cur @ filter P s"
  by (induction P cur s rule: py_runs.induct) auto

lemma py_runs_all: "\<forall>c \<in> set s. P c \<Longrightarrow> py_runs P cur s = (if cur @ s = [] then [] else [cur @ s])"
  by (induction P cur s rule: py_runs.induct) auto

lemma py_runs_sep:
  "\<not> P c \<Longrightarrow> py_runs P cur (s @ c # t) = py_runs P cur s @ py_runs P [] t"
  by (induction P cur s rule: py_runs.induct) auto

text \<open>Splitting a string back-to-back with its separators: the tokens of
  \<open>str.split()\<close>, joined, are the string without its white space.\<close>

lemma concat_py_split: "concat (py_split s) = filter (\<lambda>c. \<not> py_isspace c) s"
  by (simp add: py_split_def concat_py_runs)

lemma py_split_token: "t \<in> set (py_split s) \<Longrightarrow> t \<noteq> [] \<and> (\<forall>c \<in> set t. \<not> py_isspace c)"
  unfolding py_split_def
  using py_runs_nonempty py_runs_class [of "\<lambda>c. \<not> py_isspace c" "[]" s]
  by (simp add: list_all_iff)

lemma re_findall_token:
  "t \<in> set (re_findall_words s) \<Longrightarrow> t \<noteq> [] \<and> (\<forall>c \<in> set t. py_isword c \<or> c = CHR 0x27)"
  unfolding re_findall_words_def
  using py_runs_nonempty py_runs_class [of "\<lambda>c. py_isword c \<or> c = CHR 0x27" "[]" s]
  by (simp add: list_all_iff)

lemmas pystr_class_defs = py_isspace_def py_isalnum_def py_isword_def py_isupper_def

text \<open>The facts that evaluate the string operations on literals by \<open>simp\<close>.\<close>

lemmas pystr_eval = pystr_class_defs py_lower_def char_of_def bit_simps
  py_split_def re_findall_words_def re_sub_punct_def py_str_lower_def

end
