(* ===== verification/OneHot.thy ===== *)
theory OneHot
  imports PyStr
begin

text \<open>
  Model of \<open>src/algebraicReasoning_oneHot.py\<close>: the fixed data, the word
  dictionary \<open>createWordDictionary\<close>, the index lookup \<open>prepare_question\<close>,
  and the \<open>LSTMmath\<close> module with its hidden state, driven by the training loop
  and the evaluation loop of the script. The numeric layers that PyTorch provides
  (the LSTM cell, the linear layer with log-softmax, the SGD update, the arg-max)
  are parameters of the model. The embedding starts as \<open>torch.eye(vocab_size)\<close>
  but its weight is trained with the others: the model feeds the one-hot row of a word
  to the cell, which holds the embedding weight in its parameters and so computes the
  trained lookup (a product of the weight with the one-hot row). The lemmas show
  that the dictionary enumerates the distinct words in order of first occurrence,
  that every training question is encoded and decoded back, that the forward pass
  fails exactly on unknown indices and empty questions, that a training step does not
  depend on the hidden state left by the previous one while evaluation does.
\<close>

section \<open>Data\<close>

text \<open>\<open>trainingData\<close> (lines 17-21). The two adjacent string literals of the
  sixth question are joined without a space, as Python joins them.\<close>

definition trainingData_oneHot :: "(string \<times> int) list" where
  "trainingData_oneHot =
    [(''Add 3 and 5'', 8), (''Multiply 9 and 2'', 18), (''Divide 9 by 3'', 3),
     (''John had 3 mangoes then Mary gave him 4 more. How much does he have now?'', 7),
     (''Sum 50 and 5'', 55),
     (''Adam went to the store with 10 dollars then bought an apple for 6 dollars.How much does he know have?'', 4),
     (''Subtract 16 from 30'', 14), (''Multiply 2 and 30'', 60),
     (''Add 25 and 39'', 64), (''5 + 4 + 25'', 34)]"

definition testData_oneHot :: "(string \<times> int) list" where
  "testData_oneHot =
    [(''If Alex had 50 dollars in his account before he deposited 30 dollars. How much does he now have?'', 80),
     (''Add 9 and 3'', 12), (''Subtract 20 from 64'', 34), (''Divide 360 by 4'', 90),
     (''Multiply 12 and 3'', 36), (''What is 2 by 2 by 2?'', 8)]"

text \<open>\<open>questionTrainingData\<close> (lines 27-31) and \<open>questionTestData\<close>
  (lines 33-35): the same questions labelled with their operation. The script defines
  them and never uses them.\<close>

definition questionTrainingData_oneHot :: "(string \<times> string) list" where
  "questionTrainingData_oneHot =
    [(''Add 3 and 5'', ''ADD''), (''Multiply 9 and 2'', ''MULTIPLY''), (''Divide 9 by 3'', ''DIVIDE''),
     (''John had 3 mangoes then Mary gave him 4 more. How much does he have now?'', ''ADD''),
     (''Sum 50 and 5'', ''ADD''),
     (''Adam went to the store with 10 dollars then bought an apple for 6 dollars.How much does he know have?'', ''SUBTRACT''),
     (''Subtract 16 from 30'', ''SUBTRACT''), (''Multiply 2 and 30'', ''MULTIPLY''),
     (''Add 25 and 39'', ''ADD''), (''5 + 4 + 25'', ''ADD'')]"

definition questionTestData_oneHot :: "(string \<times> string) list" where
  "questionTestData_oneHot =
    [(''If Alex had 50 dollars in his account before he deposited 30 dollars. How much does he now have?'', ''ADD''),
     (''Add 9 and 3'', ''ADD''), (''Subtract 20 from 64'', ''SUBTRACT''), (''Divide 360 by 4'', ''DIVIDE''),
     (''Multiply 12 and 3'', ''MULTIPLY''), (''What is 2 by 2 by 2?'', ''MULTIPLY'')]"

section \<open>The word dictionary\<close>

definition createWordDictionary :: "(string \<times> 'a) list \<Rightarrow> (string, nat) pydict" where
  "createWordDictionary data =
     fold (\<lambda>(question, answer) d. fold (\<lambda>w d. add_word d w) (py_split question) d) data []"

text \<open>\<open>tag_to_ix = {i: i for i in range(101)}\<close> (line 63).\<close>

definition tag_to_ix :: "(int, int) pydict" where
  "tag_to_ix = map (\<lambda>i. (int i, int i)) [0..<101]"

text \<open>\<open>word_to_ix = createWordDictionary(trainingData)\<close> (line 66).\<close>

definition word_to_ix_oneHot :: "(string, nat) pydict" where
  "word_to_ix_oneHot = createWordDictionary trainingData_oneHot"

text \<open>\<open>prepare_question\<close> (lines 68-78): \<open>[to_ix[w] for w in seq]\<close>.\<close>

definition prepare_question :: "string list \<Rightarrow> (string, nat) pydict \<Rightarrow> nat list py_result" where
  "prepare_question seq to_ix = r_mapM (dict_get to_ix) seq"

section \<open>The LSTMmath module\<close>

text \<open>The state of \<open>nn.LSTM\<close> is the pair \<open>(h, c)\<close> of real vectors.
  The numeric layers are parameters: a cell \<open>'p lstm_cell\<close> computes the next
  state from the weights \<open>'p\<close>, one input vector and the current state (the output
  of the LSTM at a step is the first component of the new state); the head
  \<open>'p \<Rightarrow> real list \<Rightarrow> 's\<close> is \<open>log_softmax(hidden2tag(.))\<close>; the update
  \<open>'p lstm_update\<close> is \<open>loss.backward(); optimizer.step()\<close> for the loss of one
  sentence: the new weights from the weights, the hidden state the forward pass
  started from, the sentence and the target, the inputs of the graph the loss is
  computed on; \<open>'s \<Rightarrow> int\<close> is the index returned by \<open>torch.max(tag_scores, 1)\<close>.\<close>

type_synonym lstm_state = "real list \<times> real list"

type_synonym 'p lstm_cell = "'p \<Rightarrow> real list \<Rightarrow> lstm_state \<Rightarrow> lstm_state"

type_synonym 'p lstm_update = "'p \<Rightarrow> lstm_state \<Rightarrow> nat list \<Rightarrow> int \<Rightarrow> 'p"

record 'p LSTMmath =
  hidden_dim :: nat
  num_embeddings :: nat
  tagset_size :: nat
  weights :: 'p
  hidden :: lstm_state

text \<open>\<open>init_hidden\<close> (lines 103-109): zeros of the hidden dimension.\<close>

definition init_hidden :: "'p LSTMmath \<Rightarrow> lstm_state" where
  "init_hidden m = (replicate (hidden_dim m) 0, replicate (hidden_dim m) 0)"

text \<open>\<open>LSTMmath.__init__\<close> (lines 88-101). The embedding is
  \<open>nn.Embedding(vocab_size, vocab_size)\<close>: the argument \<open>embedding_dim\<close> is not
  used. A vocabulary size of \<open>None\<close> makes \<open>nn.Embedding\<close> raise a TypeError.\<close>

definition LSTMmath_init ::
  "nat \<Rightarrow> nat \<Rightarrow> nat option \<Rightarrow> nat \<Rightarrow> 'p \<Rightarrow> 'p LSTMmath py_result" where
  "LSTMmath_init embedding_dim hidden_dim' vocab_size tagset_size' w0 =
     (case vocab_size of
        None \<Rightarrow> Inl TypeError
      | Some v \<Rightarrow> Inr \<lparr>hidden_dim = hidden_dim', num_embeddings = v, tagset_size = tagset_size',
                    weights = w0,
                    hidden = (replicate hidden_dim' 0, replicate hidden_dim' 0)\<rparr>)"

text \<open>Row \<open>i\<close> of \<open>torch.eye(n)\<close>, the one-hot vector of index \<open>i\<close>; the lookup
  of \<open>nn.Embedding\<close> raises IndexError on an index out of range.\<close>

definition embed_onehot :: "nat \<Rightarrow> nat \<Rightarrow> real list py_result" where
  "embed_onehot n i = (if i < n then Inr (map (\<lambda>j. if j = i then 1 else 0) [0..<n]) else Inl IndexError)"

text \<open>\<open>self.lstm(embeds, self.hidden)\<close>: the outputs at every step and the final state.\<close>

fun lstm_scan :: "'p lstm_cell \<Rightarrow> 'p \<Rightarrow> lstm_state \<Rightarrow> real list list \<Rightarrow> real list list \<times> lstm_state" where
  "lstm_scan cell p s [] = ([], s)"
| "lstm_scan cell p s (x # xs) =
     (let s' = cell p x s; (outs, s'') = lstm_scan cell p s' xs in (fst s' # outs, s''))"

text \<open>\<open>forward\<close> (lines 111-122): the tag scores of the last output, and the module
  with \<open>self.hidden\<close> replaced by the final state of the LSTM. An empty question
  makes \<open>embeds.view(0, 1, -1)\<close> raise a RuntimeError.\<close>

definition forward ::
  "'p lstm_cell \<Rightarrow> ('p \<Rightarrow> real list \<Rightarrow> 's) \<Rightarrow> 'p LSTMmath \<Rightarrow> nat list \<Rightarrow> ('s \<times> 'p LSTMmath) py_result" where
  "forward cell head m question =
     r_bind (r_mapM (embed_onehot (num_embeddings m)) question) (\<lambda>embeds.
       if embeds = [] then Inl RuntimeError
       else (let (lstm_out, h') = lstm_scan cell (weights m) (hidden m) embeds
             in Inr (head (weights m) (last lstm_out), m\<lparr>hidden := h'\<rparr>)))"

text \<open>One iteration of the training loop (lines 138-163): reset the hidden state,
  encode the sentence, run the forward pass, check the target against the classes of
  \<open>nn.NLLLoss\<close> (its \<open>ignore_index\<close> -100 is let through), update the weights.\<close>

definition train_step ::
  "'p lstm_cell \<Rightarrow> ('p \<Rightarrow> real list \<Rightarrow> 's) \<Rightarrow> 'p lstm_update \<Rightarrow>
   (string, nat) pydict \<Rightarrow> 'p LSTMmath \<Rightarrow> string \<times> int \<Rightarrow> 'p LSTMmath py_result" where
  "train_step cell head sgd word_to_ix m x =
     (case x of (sentence, tags) \<Rightarrow>
       (let m1 = m\<lparr>hidden := init_hidden m\<rparr> in
        r_bind (prepare_question (py_split sentence) word_to_ix) (\<lambda>sentence_in.
        r_bind (forward cell head m1 sentence_in) (\<lambda>(tag_scores, m2).
          if tags \<noteq> -100 \<and> (tags < 0 \<or> int (tagset_size m) \<le> tags) then Inl IndexError
          else Inr (m2\<lparr>weights := sgd (weights m1) (hidden m1) sentence_in tags\<rparr>)))))"

fun train_epoch ::
  "'p lstm_cell \<Rightarrow> ('p \<Rightarrow> real list \<Rightarrow> 's) \<Rightarrow> 'p lstm_update \<Rightarrow>
   (string, nat) pydict \<Rightarrow> 'p LSTMmath \<Rightarrow> (string \<times> int) list \<Rightarrow> 'p LSTMmath py_result" where
  "train_epoch cell head sgd word_to_ix m [] = Inr m"
| "train_epoch cell head sgd word_to_ix m (x # xs) =
     r_bind (train_step cell head sgd word_to_ix m x) (\<lambda>m'. train_epoch cell head sgd word_to_ix m' xs)"

text \<open>\<open>for epoch in range(n)\<close> around the epoch (line 135).\<close>

fun train_loop ::
  "'p lstm_cell \<Rightarrow> ('p \<Rightarrow> real list \<Rightarrow> 's) \<Rightarrow> 'p lstm_update \<Rightarrow>
   (string, nat) pydict \<Rightarrow> nat \<Rightarrow> 'p LSTMmath \<Rightarrow> (string \<times> int) list \<Rightarrow> 'p LSTMmath py_result" where
  "train_loop cell head sgd word_to_ix 0 m data = Inr m"
| "train_loop cell head sgd word_to_ix (Suc n) m data =
     r_bind (train_epoch cell head sgd word_to_ix m data) (\<lambda>m'. train_loop cell head sgd word_to_ix n m' data)"

text \<open>The evaluation loops (lines 166-183): encode, run the forward pass on the module
  as it is (its hidden state is not reset), and count the questions whose arg-max
  index equals the answer.\<close>

fun eval_loop ::
  "'p lstm_cell \<Rightarrow> ('p \<Rightarrow> real list \<Rightarrow> 's) \<Rightarrow> ('s \<Rightarrow> int) \<Rightarrow> (string, nat) pydict \<Rightarrow>
   nat \<Rightarrow> 'p LSTMmath \<Rightarrow> (string \<times> int) list \<Rightarrow> (nat \<times> 'p LSTMmath) py_result" where
  "eval_loop cell head pred to_ix acc m [] = Inr (acc, m)"
| "eval_loop cell head pred to_ix acc m ((q, a) # rest) =
     r_bind (prepare_question (py_split q) to_ix) (\<lambda>inputs.
     r_bind (forward cell head m inputs) (\<lambda>(tag_scores, m').
       eval_loop cell head pred to_ix (acc + (if pred tag_scores = a then 1 else 0)) m' rest))"

text \<open>The script (lines 6-187): import \<open>generateQuestionsInt\<close> (line 6), a module that
  is not part of the repository and is used only by commented-out lines; whether the
  import succeeds depends on the environment (\<open>qa\<close>). Then build the dictionaries
  and the two modules, train one epoch, evaluate on the training and on the test set.
  The test set is encoded with its own dictionary \<open>testDataDict\<close> (line 178).\<close>

definition EMBEDDING_DIM :: nat where "EMBEDDING_DIM = 6"

definition HIDDEN_DIM :: nat where "HIDDEN_DIM = 6"

definition script_oneHot ::
  "'p lstm_cell \<Rightarrow> ('p \<Rightarrow> real list \<Rightarrow> 's) \<Rightarrow> 'p lstm_update \<Rightarrow> ('s \<Rightarrow> int) \<Rightarrow>
   bool \<Rightarrow> 'p \<Rightarrow> 'p \<Rightarrow> (nat \<times> nat) py_result" where
  "script_oneHot cell head sgd pred qa w1 w2 =
     (if \<not> qa then Inl ModuleNotFoundError else
      let word_to_ix = word_to_ix_oneHot in
      r_bind (LSTMmath_init EMBEDDING_DIM HIDDEN_DIM (Some (length word_to_ix)) (length tag_to_ix) w1)
        (\<lambda>model1.
      r_bind (LSTMmath_init EMBEDDING_DIM HIDDEN_DIM None 4 w2) (\<lambda>model2.
      r_bind (train_loop cell head sgd word_to_ix 1 model1 trainingData_oneHot) (\<lambda>model1.
      r_bind (eval_loop cell head pred word_to_ix 0 model1 trainingData_oneHot) (\<lambda>(sumTr, model1).
      r_bind (eval_loop cell head pred (createWordDictionary testData_oneHot) 0 model1 testData_oneHot)
        (\<lambda>(sumTe, model1). Inr (sumTr, sumTe)))))))"

subsection \<open>Abstract specification: enumeration of the distinct words\<close>

definition question_words :: "(string \<times> 'a) list \<Rightarrow> string list" where
  "question_words data = concat (map (\<lambda>(q, a). py_split q) data)"

definition enumerate_words :: "(string \<times> 'a) list \<Rightarrow> (string, nat) pydict" where
  "enumerate_words data =
     (let ks = first_occurrences (question_words data) in zip ks [0..<length ks])"

text \<open>The embeddings of one question, as the training and evaluation loops compute them.\<close>

definition encode_question :: "(string, nat) pydict \<Rightarrow> nat \<Rightarrow> string \<Rightarrow> real list list py_result" where
  "encode_question to_ix n q =
     r_bind (prepare_question (py_split q) to_ix) (r_mapM (embed_onehot n))"

section \<open>Lemmas on the dictionary\<close>

lemma fold_questions:
  "fold (\<lambda>(question, answer) d. fold G (py_split question) d) data d0 =
     fold G (question_words data) d0"
  by (induction data arbitrary: d0) (auto simp: question_words_def)

lemma createWordDictionary_fold:
  "createWordDictionary data =
     (let ks = fold occ_step (question_words data) [] in zip ks [0..<length ks])"

proof -
  have "createWordDictionary data = fold (\<lambda>w d. add_word d w) (question_words data) []"
    by (simp add: createWordDictionary_def fold_questions)
  also have "\<dots> = fold (\<lambda>w d. add_word d w) (question_words data) (zip ([] :: string list) [0..<length ([] :: string list)])"
    by simp
  also have "\<dots> = (let ks = fold occ_step (question_words data) [] in zip ks [0..<length ks])"
    by (simp only: fold_add_word_zip)
  finally show ?thesis .

qed

lemma createWordDictionary_keys:
  "map fst (createWordDictionary data) = first_occurrences (question_words data)"
  by (simp add: createWordDictionary_fold first_occurrences_fold Let_def)

lemma createWordDictionary_values:
  "map snd (createWordDictionary data) = [0..<length (createWordDictionary data)]"
  by (simp add: createWordDictionary_fold first_occurrences_fold Let_def map_snd_zip)

lemma createWordDictionary_distinct: "distinct (map fst (createWordDictionary data))"
  by (simp add: createWordDictionary_keys distinct_first_occurrences)

lemma question_words_member:
  "q \<in> fst ` set data \<Longrightarrow> set (py_split q) \<subseteq> set (question_words data)"
  by (auto simp: question_words_def)

lemma createWordDictionary_get:
  "dict_get (createWordDictionary data) w = Inr i \<longleftrightarrow>
     i < length (first_occurrences (question_words data)) \<and> first_occurrences (question_words data) ! i = w"
  by (simp add: createWordDictionary_fold first_occurrences_fold [symmetric] Let_def
      dict_get_zip_upt distinct_first_occurrences)

lemma createWordDictionary_length:
  "length (createWordDictionary data) = length (first_occurrences (question_words data))"
  by (simp add: createWordDictionary_fold first_occurrences_fold Let_def)

lemma prepare_question_Inl:
  "prepare_question seq to_ix = Inl e \<longleftrightarrow> e = KeyError \<and> (\<exists>w \<in> set seq. \<not> dict_contains to_ix w)"

proof (induction seq)
  case Nil
  then show ?case by (simp add: prepare_question_def)

next
  case (Cons w ws)
  then show ?case
    by (cases "dict_get to_ix w") (auto simp: prepare_question_def dict_get_Inl dict_get_Inr
        r_bind_def dict_contains_map_of split: sum.splits)

qed

subsection \<open>Properties of the dictionary\<close>

text \<open>C6: \<open>createWordDictionary\<close> implements its abstract
  specification: the dictionary pairs the distinct words of the questions, in order of
  first occurrence, with 0, 1, 2, ...\<close>

theorem createWordDictionary_refines: "createWordDictionary data = enumerate_words data"
  by (simp add: createWordDictionary_fold enumerate_words_def first_occurrences_fold)

text \<open>C12: looking a word up in the dictionary yields \<open>i\<close> exactly
  when \<open>i\<close> is below the size of the vocabulary and the \<open>i\<close>-th distinct word is
  that word: indices are dense and no two words share one.\<close>

theorem createWordDictionary_index_bijection:
  "dict_get (createWordDictionary data) w = Inr i \<longleftrightarrow>
     i < length (createWordDictionary data) \<and> map fst (createWordDictionary data) ! i = w"
  by (simp add: createWordDictionary_get createWordDictionary_length createWordDictionary_keys)

text \<open>C8: every question of the data the dictionary was built from
  is encoded without a KeyError, into indices below the vocabulary size (the rows of
  the one-hot embedding), and decoding the indices through the key list gives the
  words of the question back.\<close>

theorem prepare_question_roundtrip:
  assumes "q \<in> fst ` set data"
  shows "\<exists>idxs. prepare_question (py_split q) (createWordDictionary data) = Inr idxs
           \<and> (\<forall>i \<in> set idxs. i < length (createWordDictionary data))
           \<and> map (\<lambda>i. map fst (createWordDictionary data) ! i) idxs = py_split q"

proof -
  let ?d = "createWordDictionary data" and ?ws = "py_split q"
  have known: "\<forall>w \<in> set ?ws. \<exists>i. dict_get ?d w = Inr i"
  proof
    fix w assume "w \<in> set ?ws"
    with assms have "w \<in> set (map fst ?d)"
      using question_words_member by (auto simp: createWordDictionary_keys)
    then show "\<exists>i. dict_get ?d w = Inr i"
      by (cases "dict_get ?d w") (auto simp: dict_get_Inl dict_contains_def)
  qed
  then obtain idxs where enc: "prepare_question ?ws ?d = Inr idxs"
    unfolding prepare_question_def using r_mapM_succeeds by blast
  have each: "idxs ! j < length ?d \<and> map fst ?d ! (idxs ! j) = ?ws ! j" if "j < length ?ws" for j
    using r_mapM_nth [OF enc [unfolded prepare_question_def] that]
    by (simp add: createWordDictionary_index_bijection)
  have len: "length idxs = length ?ws"
    using enc by (simp add: prepare_question_def r_mapM_length)
  have "\<forall>i \<in> set idxs. i < length ?d"
    using each len by (auto simp: in_set_conv_nth)
  moreover have "map (\<lambda>i. map fst ?d ! i) idxs = ?ws"
  proof (rule nth_equalityI)
    show "length (map (\<lambda>i. map fst ?d ! i) idxs) = length ?ws" using len by simp
  next
    fix j assume "j < length (map (\<lambda>i. map fst ?d ! i) idxs)"
    then have "j < length ?ws" using len by simp
    then show "map (\<lambda>i. map fst ?d ! i) idxs ! j = ?ws ! j"
      using each [of j] len by simp
  qed
  ultimately show ?thesis using enc by blast

qed

lemma prepare_question_roundtrip_witness:
  "''Add 3 and 5'' \<in> fst ` set trainingData_oneHot \<and>
   (\<exists>idxs. prepare_question (py_split ''Add 3 and 5'') (createWordDictionary trainingData_oneHot) = Inr idxs
       \<and> (\<forall>i \<in> set idxs. i < length (createWordDictionary trainingData_oneHot))
       \<and> map (\<lambda>i. map fst (createWordDictionary trainingData_oneHot) ! i) idxs = py_split ''Add 3 and 5'')"

proof -
  have h: "''Add 3 and 5'' \<in> fst ` set trainingData_oneHot" by (simp add: trainingData_oneHot_def)
  show ?thesis using h prepare_question_roundtrip [OF h] by blast

qed

text \<open>C18: \<open>prepare_question\<close> raises exactly when some word of the
  sequence is not a key of the dictionary, and the exception is a KeyError.\<close>

theorem prepare_question_KeyError:
  "prepare_question seq to_ix = Inl e \<longleftrightarrow> e = KeyError \<and> (\<exists>w \<in> set seq. \<not> dict_contains to_ix w)"
  by (rule prepare_question_Inl)

text \<open>The first test question cannot be encoded with the training dictionary: its first
  word is not a key. This is why the script builds a second dictionary for the test set.\<close>

lemma prepare_question_KeyError_witness:
  "''If'' \<in> set (py_split ''If Alex had 50 dollars'') \<and>
   \<not> dict_contains (createWordDictionary trainingData_oneHot) ''If'' \<and>
   prepare_question (py_split ''If Alex had 50 dollars'') (createWordDictionary trainingData_oneHot) = Inl KeyError"

proof -
  have w: "''If'' \<in> set (py_split ''If Alex had 50 dollars'')" by (simp add: pystr_eval)
  have n: "\<not> dict_contains (createWordDictionary trainingData_oneHot) ''If''" by code_simp
  from w n have "\<exists>w \<in> set (py_split ''If Alex had 50 dollars'').
      \<not> dict_contains (createWordDictionary trainingData_oneHot) w" by blast
  with w n show ?thesis
    using prepare_question_KeyError [of "py_split ''If Alex had 50 dollars''"
        "createWordDictionary trainingData_oneHot" KeyError] by blast

qed

section \<open>Lemmas on the module\<close>

lemma lstm_scan_append:
  "lstm_scan cell p s (xs @ ys) =
     (let (o1, s1) = lstm_scan cell p s xs; (o2, s2) = lstm_scan cell p s1 ys in (o1 @ o2, s2))"
  by (induction xs arbitrary: s) (auto simp: Let_def split: prod.splits)

lemma lstm_scan_state_append:
  "snd (lstm_scan cell p s (xs @ ys)) = snd (lstm_scan cell p (snd (lstm_scan cell p s xs)) ys)"
  by (simp add: lstm_scan_append Let_def split: prod.splits)

lemma length_lstm_scan [simp]: "length (fst (lstm_scan cell p s xs)) = length xs"
  by (induction xs arbitrary: s) (simp_all add: Let_def case_prod_beta)

lemma embed_onehot_Inl: "embed_onehot n i = Inl e \<Longrightarrow> e = IndexError"
  by (simp add: embed_onehot_def split: if_splits)

lemma forward_Inr:
  "forward cell head m q = Inr (sc, m') \<longleftrightarrow>
     (\<exists>es. r_mapM (embed_onehot (num_embeddings m)) q = Inr es \<and> es \<noteq> [] \<and>
        sc = head (weights m) (last (fst (lstm_scan cell (weights m) (hidden m) es))) \<and>
        m' = m\<lparr>hidden := snd (lstm_scan cell (weights m) (hidden m) es)\<rparr>)"

proof (cases "r_mapM (embed_onehot (num_embeddings m)) q")
  case (Inl e)
  then show ?thesis by (simp add: forward_def)

next
  case (Inr es)
  obtain outs s where scan: "lstm_scan cell (weights m) (hidden m) es = (outs, s)"
    by (cases "lstm_scan cell (weights m) (hidden m) es")
  from Inr scan show ?thesis
    by (simp add: forward_def) blast

qed

lemma forward_frame:
  "forward cell head m q = Inr (sc, m') \<Longrightarrow>
     weights m' = weights m \<and> num_embeddings m' = num_embeddings m \<and>
     tagset_size m' = tagset_size m \<and> hidden_dim m' = hidden_dim m"
  by (auto simp: forward_Inr)

lemma r_mapM_embed_onehot_Inl:
  "r_mapM (embed_onehot n) q = Inl e' \<longleftrightarrow> e' = IndexError \<and> (\<exists>i \<in> set q. n \<le> i)"

proof -
  have "\<And>x e'. embed_onehot n x = Inl e' \<Longrightarrow> e' = IndexError" by (rule embed_onehot_Inl)
  then have "r_mapM (embed_onehot n) q = Inl e' \<longleftrightarrow>
      e' = IndexError \<and> (\<exists>x \<in> set q. \<exists>e'. embed_onehot n x = Inl e')"
    by (rule r_mapM_Inl_iff)
  then show ?thesis by (auto simp: embed_onehot_def not_less)

qed

lemma embed_question_Inl:
  "r_mapM (embed_onehot (num_embeddings m)) q = Inl e' \<Longrightarrow>
     q \<noteq> [] \<and> e' = IndexError \<and> (\<exists>i \<in> set q. num_embeddings m \<le> i)"
  using r_mapM_embed_onehot_Inl [of "num_embeddings m" q e'] by auto

lemma forward_embed_Inl:
  "r_mapM (embed_onehot (num_embeddings m)) q = Inl e' \<Longrightarrow> forward cell head m q = Inl e'"
  by (simp add: forward_def)

lemmas lstmmath_simps = forward_Inr r_bind_eq_Inr encode_question_def prepare_question_def

subsection \<open>Properties of the module\<close>

text \<open>C17: the forward pass fails exactly in two ways: with an IndexError
  when a word index is not a row of the one-hot embedding, and otherwise with a
  RuntimeError when the question is empty.\<close>

theorem forward_error_cases:
  "forward cell head m q = Inl e \<longleftrightarrow>
     (e = IndexError \<and> (\<exists>i \<in> set q. num_embeddings m \<le> i)) \<or> (e = RuntimeError \<and> q = [])"

proof (cases "r_mapM (embed_onehot (num_embeddings m)) q")
  case (Inl e')
  then have "q \<noteq> []" "e' = IndexError" "\<exists>i \<in> set q. num_embeddings m \<le> i"
    by (auto dest: embed_question_Inl)
  moreover from Inl have "forward cell head m q = Inl e'" by (rule forward_embed_Inl)
  ultimately show ?thesis by auto

next
  case (Inr es)
  then have ok: "\<not> (\<exists>i \<in> set q. num_embeddings m \<le> i)"
    using r_mapM_embed_onehot_Inl [of "num_embeddings m" q] by auto
  from Inr have "length es = length q" by (rule r_mapM_length)
  then have e: "es = [] \<longleftrightarrow> q = []" by auto
  show ?thesis
  proof (cases "q = []")
    case True
    with Inr e have "forward cell head m q = Inl RuntimeError" by (simp add: forward_def)
    with True show ?thesis by auto
  next
    case False
    with Inr e have "\<exists>r. forward cell head m q = Inr r"
      by (simp add: forward_def Let_def case_prod_beta)
    with False ok show ?thesis by auto
  qed

qed

lemma forward_error_cases_witness:
  "(5::nat) \<in> set [5] \<and> num_embeddings (\<lparr>hidden_dim = 1, num_embeddings = 1, tagset_size = 1,
      weights = (), hidden = ([0], [0])\<rparr> :: unit LSTMmath) \<le> 5 \<and>
   forward (\<lambda>p x s. s) (\<lambda>p out. out)
     \<lparr>hidden_dim = 1, num_embeddings = 1, tagset_size = 1, weights = (), hidden = ([0], [0])\<rparr> [5]
   = Inl IndexError"
  using forward_error_cases [of "\<lambda>p x s. s" "\<lambda>p out. out"
      "\<lparr>hidden_dim = 1, num_embeddings = 1, tagset_size = 1, weights = (), hidden = ([0], [0])\<rparr> :: unit LSTMmath"
      "[5]" IndexError]
  by simp

text \<open>C11: a training step resets the hidden state before the forward pass
  (line 147), so its result does not depend on the hidden state the module had: the
  forward pass, the loss and the update start from the zero state, and the state left
  by the previous sentence cannot leak into the next update.\<close>

theorem train_step_hidden_independent:
  "train_step cell head sgd word_to_ix (m\<lparr>hidden := h\<rparr>) x = train_step cell head sgd word_to_ix m x"
  by (simp add: train_step_def init_hidden_def)

text \<open>C5: the evaluation loop does not reset the hidden state: after
  evaluating a list of questions, the module is the one it started from with the
  hidden state of a single LSTM run over all the questions' embeddings one after the
  other, as if the data set were one long sentence.\<close>

theorem eval_loop_threads_hidden:
  "eval_loop cell head pred to_ix acc m data = Inr (k, m') \<Longrightarrow>
     \<exists>es. r_mapM (\<lambda>(q, a). encode_question to_ix (num_embeddings m) q) data = Inr es \<and>
          m' = m\<lparr>hidden := snd (lstm_scan cell (weights m) (hidden m) (concat es))\<rparr>"

proof (induction cell head pred to_ix acc m data arbitrary: k m' rule: eval_loop.induct)
  case (1 cell head pred to_ix acc m)
  then show ?case by simp

next
  case (2 cell head pred to_ix acc m q a rest)
  from "2.prems" obtain inputs sc m1 where
    inp: "prepare_question (py_split q) to_ix = Inr inputs" and
    fw: "forward cell head m inputs = Inr (sc, m1)" and
    rest: "eval_loop cell head pred to_ix (acc + (if pred sc = a then 1 else 0)) m1 rest = Inr (k, m')"
    by (auto simp: r_bind_eq_Inr)
  from fw obtain es1 where
    e1: "r_mapM (embed_onehot (num_embeddings m)) inputs = Inr es1" and
    m1: "m1 = m\<lparr>hidden := snd (lstm_scan cell (weights m) (hidden m) es1)\<rparr>"
    by (auto simp: forward_Inr)
  from "2.IH" [OF rest] obtain es where
    e: "r_mapM (\<lambda>(q, a). encode_question to_ix (num_embeddings m1) q) rest = Inr es" and
    m': "m' = m1\<lparr>hidden := snd (lstm_scan cell (weights m1) (hidden m1) (concat es))\<rparr>"
    by blast
  have "encode_question to_ix (num_embeddings m) q = Inr es1"
    using inp e1 by (simp add: encode_question_def)
  with e m1 have "r_mapM (\<lambda>(q, a). encode_question to_ix (num_embeddings m) q) ((q, a) # rest) =
      Inr (es1 # es)" by simp
  moreover from m' m1 have "m' = m\<lparr>hidden := snd (lstm_scan cell (weights m) (hidden m) (concat (es1 # es)))\<rparr>"
    by (simp add: lstm_scan_state_append)
  ultimately show ?case by blast

qed

text \<open>A run of the evaluation loop with a cell that counts the words it reads: the
  module ends with the count of all words of both questions in its hidden state.\<close>

lemma eval_loop_threads_hidden_witness:
  "eval_loop (\<lambda>p x (h, c). (map (\<lambda>v. v + 1) h, c)) (\<lambda>p out. out) (\<lambda>sc. 0) [(''a'', 0)] 0
     \<lparr>hidden_dim = 1, num_embeddings = 1, tagset_size = 1, weights = (), hidden = ([0], [0])\<rparr>
     [(''a a'', 0), (''a'', 0)] =
     Inr (2, \<lparr>hidden_dim = 1, num_embeddings = 1, tagset_size = 1, weights = (), hidden = ([3], [0])\<rparr>) \<and>
   (\<exists>es. r_mapM (\<lambda>(q, a). encode_question [(''a'', 0)] 1 q) [(''a a'', 0), (''a'', 0)] = Inr es \<and>
     \<lparr>hidden_dim = 1, num_embeddings = 1, tagset_size = 1, weights = (), hidden = ([3], [0])\<rparr> =
     (\<lparr>hidden_dim = 1, num_embeddings = 1, tagset_size = 1, weights = (), hidden = ([0], [0])\<rparr>
       :: unit LSTMmath)\<lparr>hidden := snd (lstm_scan (\<lambda>p x (h, c). (map (\<lambda>v. v + 1) h, c)) ()
          ([0], [0]) (concat es))\<rparr>)"

proof -
  have run: "eval_loop (\<lambda>p x (h, c). (map (\<lambda>v. v + 1) h, c)) (\<lambda>p out. out) (\<lambda>sc. 0) [(''a'', 0)] 0
     \<lparr>hidden_dim = 1, num_embeddings = 1, tagset_size = 1, weights = (), hidden = ([0], [0])\<rparr>
     [(''a a'', 0), (''a'', 0)] =
     Inr (2, \<lparr>hidden_dim = 1, num_embeddings = 1, tagset_size = 1, weights = (), hidden = ([3], [0])\<rparr>)"
    by (simp add: pystr_eval prepare_question_def dict_get_def forward_def embed_onehot_def)
  show ?thesis using run eval_loop_threads_hidden [OF run] by simp

qed

end
