(* ===== verification/PyFloat.thy ===== *)
theory PyFloat
  imports PyStr
begin

text \<open>
  Python's \<open>float\<close> type and the conversion \<open>float(x)\<close>, which
  \<open>is_number\<close> of the multiRNN script calls on answer choices. A finite float is
  kept as its exact rational value (\<open>PyFin\<close>), beside the infinities and NaN.
  \<open>round_double\<close> rounds a rational to the nearest IEEE binary64 value, ties to
  even, with subnormals and overflow to infinity, which is what CPython's
  conversions from \<open>int\<close> and from decimal strings compute. \<open>float(n)\<close> of an
  \<open>int\<close> raises OverflowError where the rounded value is infinite;
  \<open>float(s)\<close> of a string accepts, after stripping white space, an optional sign
  and either \<open>inf\<close>, \<open>infinity\<close>, \<open>nan\<close> in any case or a decimal literal
  whose digit groups may be separated by single underscores, and raises ValueError
  otherwise; \<open>float\<close> of any other value raises TypeError.
\<close>

datatype pyfloat = PyFin rat | PyInf | PyNInf | PyNaN

text \<open>The values the scripts put into answer lists: ints, floats, strings, lists.\<close>

datatype pyval = PyInt int | PyFloat pyfloat | PyStr string | PyList "pyval list"

section \<open>Rounding to binary64\<close>

function nbits :: "int \<Rightarrow> int" where
  "nbits n = (if n \<le> 0 then 0 else nbits (n div 2) + 1)"
  by pat_completeness auto
termination
  by (relation "measure (\<lambda>n. nat n)") auto

declare nbits.simps [simp del]

declare nbits.simps [simp del]

definition pow2 :: "int \<Rightarrow> rat" where
  "pow2 e = (if 0 \<le> e then 2 ^ nat e else inverse (2 ^ nat (- e)))"

text \<open>\<open>\<lfloor>log2 q\<rfloor>\<close> of a positive rational, from the bit lengths of its
  numerator and denominator.\<close>

definition floor_log2 :: "rat \<Rightarrow> int" where
  "floor_log2 q =
     (case quotient_of q of (a, b) \<Rightarrow>
        (let e = nbits a - nbits b in if pow2 e \<le> q then e else e - 1))"

definition round_half_even :: "rat \<Rightarrow> int" where
  "round_half_even x =
     (let f = \<lfloor>x\<rfloor>; r = x - of_int f in
      if r < 1/2 then f else if 1/2 < r then f + 1 else if even f then f else f + 1)"

text \<open>A positive rational rounded to 53 significant bits (fewer below the normal
  range, whose last bit has weight \<open>2^-1074\<close>); infinity from \<open>2^1024\<close> on.
  \<open>round_double_pos_ref\<close> says so directly; \<open>round_double_pos\<close>, the
  definition the conversions use, decides the overflow from the exponent and the bit
  length of the rounded mantissa instead of comparing with \<open>2^1024\<close>, so that it
  evaluates quickly; the two are proved equal.\<close>

definition round_double_pos_ref :: "rat \<Rightarrow> pyfloat" where
  "round_double_pos_ref q =
     (let u = max (floor_log2 q - 52) (-1074);
          v = of_int (round_half_even (q / pow2 u)) * pow2 u
      in if pow2 1024 \<le> v then PyInf else PyFin v)"

definition round_double_pos :: "rat \<Rightarrow> pyfloat" where
  "round_double_pos q =
     (let u = max (floor_log2 q - 52) (-1074);
          m = round_half_even (q / pow2 u)
      in if 0 < m \<and> 1024 < u + nbits m then PyInf else PyFin (of_int m * pow2 u))"

fun float_neg :: "pyfloat \<Rightarrow> pyfloat" where
  "float_neg (PyFin v) = PyFin (- v)"
| "float_neg PyInf = PyNInf"
| "float_neg PyNInf = PyInf"
| "float_neg PyNaN = PyNaN"

definition round_double :: "rat \<Rightarrow> pyfloat" where
  "round_double q =
     (if q = 0 then PyFin 0 else if 0 < q then round_double_pos q else float_neg (round_double_pos (- q)))"

section \<open>float() of an int\<close>

definition float_of_int :: "int \<Rightarrow> pyfloat py_result" where
  "float_of_int n =
     (case round_double (of_int n) of
        PyFin v \<Rightarrow> Inr (PyFin v)
      | _ \<Rightarrow> Inl OverflowError)"

section \<open>float() of a string\<close>

definition py_isdigit :: "char \<Rightarrow> bool" where
  "py_isdigit c \<longleftrightarrow> (let n = of_char c :: nat in 48 \<le> n \<and> n \<le> 57)"

definition digit_val :: "char \<Rightarrow> int" where
  "digit_val c = of_char c - 48"

definition digits_value :: "string \<Rightarrow> int" where
  "digits_value ds = foldl (\<lambda>acc d. 10 * acc + digit_val d) 0 ds"

text \<open>A digit group of the grammar, \<open>digit (["_"] digit)*\<close>: the longest prefix of
  digits and underscores, valid when it starts and ends with a digit and has no two
  underscores in a row.\<close>

fun no_double_underscore :: "string \<Rightarrow> bool" where
  "no_double_underscore (a # b # cs) =
     (\<not> (a = CHR ''_'' \<and> b = CHR ''_'') \<and> no_double_underscore (b # cs))"
| "no_double_underscore _ = True"

definition digitpart_ok :: "string \<Rightarrow> bool" where
  "digitpart_ok p \<longleftrightarrow>
     p \<noteq> [] \<and> py_isdigit (hd p) \<and> py_isdigit (last p) \<and> no_double_underscore p"

definition split_digitpart :: "string \<Rightarrow> string \<times> string" where
  "split_digitpart s =
     (takeWhile (\<lambda>c. py_isdigit c \<or> c = CHR ''_'') s, dropWhile (\<lambda>c. py_isdigit c \<or> c = CHR ''_'') s)"

text \<open>The mantissa and exponent as a pair of digit strings (the mantissa without its
  point, with the number of fraction digits) and a signed exponent.\<close>

definition parse_exponent :: "string \<Rightarrow> int option" where
  "parse_exponent s =
     (case s of
        [] \<Rightarrow> Some 0
      | c # r \<Rightarrow>
          if c = CHR ''e'' \<or> c = CHR ''E'' then
            (let (sg, r') = (case r of
                               d # r'' \<Rightarrow> if d = CHR ''-'' then (-1, r'')
                                         else if d = CHR ''+'' then (1, r'') else (1, r)
                             | [] \<Rightarrow> (1, r));
                 (p, rest) = split_digitpart r'
             in if digitpart_ok p \<and> rest = []
                then Some (sg * digits_value (filter py_isdigit p)) else None)
          else None)"

definition parse_decimal :: "string \<Rightarrow> rat option" where
  "parse_decimal s =
     (let (ip, r1) = split_digitpart s in
      if ip \<noteq> [] \<and> \<not> digitpart_ok ip then None
      else
        (let (fp, r2) =
               (case r1 of
                  c # r \<Rightarrow> if c = CHR ''.'' then split_digitpart r else ([], r1)
                | [] \<Rightarrow> ([], r1));
             has_point = (r1 \<noteq> [] \<and> hd r1 = CHR ''.'')
         in if fp \<noteq> [] \<and> \<not> digitpart_ok fp then None
            else if ip = [] \<and> fp = [] then None
            else
              (case parse_exponent r2 of
                 None \<Rightarrow> None
               | Some ex \<Rightarrow>
                   (let ids = filter py_isdigit ip; fds = filter py_isdigit fp;
                        m = of_int (digits_value (ids @ fds)) / 10 ^ length fds
                    in Some (if 0 \<le> ex then m * 10 ^ nat ex else m / 10 ^ nat (- ex))))))"

definition py_strip :: "string \<Rightarrow> string" where
  "py_strip s = rev (dropWhile py_isspace (rev (dropWhile py_isspace s)))"

definition float_of_str :: "string \<Rightarrow> pyfloat py_result" where
  "float_of_str s =
     (let t = py_strip s;
          (neg, body) = (case t of
                           c # r \<Rightarrow> if c = CHR ''-'' then (True, r)
                                    else if c = CHR ''+'' then (False, r) else (False, t)
                         | [] \<Rightarrow> (False, t));
          low = py_str_lower body
      in if low = ''inf'' \<or> low = ''infinity'' then Inr (if neg then PyNInf else PyInf)
         else if low = ''nan'' then Inr PyNaN
         else (case parse_decimal body of
                 None \<Rightarrow> Inl ValueError
               | Some q \<Rightarrow> Inr (round_double (if neg then - q else q))))"

section \<open>float() of any value\<close>

fun py_float :: "pyval \<Rightarrow> pyfloat py_result" where
  "py_float (PyInt n) = float_of_int n"
| "py_float (PyFloat x) = Inr x"
| "py_float (PyStr s) = float_of_str s"
| "py_float (PyList xs) = Inl TypeError"

text \<open>A float literal \<open>m \<times> 10^-k\<close> of the source, as Python reads it.\<close>

definition float_lit :: "int \<Rightarrow> nat \<Rightarrow> pyval" where
  "float_lit m k = PyFloat (round_double (of_int m / 10 ^ k))"

section \<open>Lemmas on the rounding\<close>

lemma nbits_nonpos [simp]: "n \<le> 0 \<Longrightarrow> nbits n = 0"
  by (simp add: nbits.simps)

lemma nbits_gt0 [simp]: "0 < n \<Longrightarrow> nbits n = nbits (n div 2) + 1"
  by (subst nbits.simps) simp

lemma nbits_nonneg [simp]: "0 \<le> nbits n"
  by (induction n rule: nbits.induct) (subst nbits.simps, simp)

lemma nbits_pos: "0 < n \<Longrightarrow> 2 ^ (nat (nbits n) - 1) \<le> n \<and> n < 2 ^ nat (nbits n)"
proof (induction n rule: nbits.induct)
  case (1 n)
  show ?case
  proof (cases "n div 2 = 0")
    case True
    with "1.prems" have "n = 1" by auto
    then show ?thesis by simp
  next
    case False
    with "1.prems" have pos: "0 < n div 2" by auto
    with "1.IH" "1.prems" have ih: "2 ^ (nat (nbits (n div 2)) - 1) \<le> n div 2 \<and> n div 2 < 2 ^ nat (nbits (n div 2))"
      by simp
    have nb: "nbits n = nbits (n div 2) + 1" using "1.prems" by simp
    have "0 < nbits (n div 2)" using nbits_gt0 [OF pos] nbits_nonneg [of "n div 2 div 2"] by linarith
    then obtain k where k: "nat (nbits (n div 2)) = Suc k" by (metis gr0_implies_Suc zero_less_nat_eq)
    then have nk: "nat (nbits n) = Suc (Suc k)" using nb by simp
    from ih k have "2 ^ k \<le> n div 2" "n div 2 < 2 ^ Suc k" by simp_all
    then have "2 ^ Suc k \<le> n" "n < 2 ^ Suc (Suc k)" by simp_all
    then show ?thesis using nk by simp
  qed
qed

lemma nbits_le_iff: "0 < m \<Longrightarrow> (2 ^ k \<le> m) \<longleftrightarrow> int k < nbits m"
proof -
  assume m: "0 < m"
  from nbits_pos [OF m] have lo: "2 ^ (nat (nbits m) - 1) \<le> m" and hi: "m < 2 ^ nat (nbits m)" by auto
  have nn: "0 < nbits m" using m by (simp add: nbits_gt0)
  show ?thesis
  proof
    assume "2 ^ k \<le> m"
    with hi have "(2::int) ^ k < 2 ^ nat (nbits m)" by linarith
    then have "k < nat (nbits m)" by (simp add: power_strict_increasing_iff)
    then show "int k < nbits m" by linarith
  next
    assume "int k < nbits m"
    then have "k \<le> nat (nbits m) - 1" by linarith
    then have "(2::int) ^ k \<le> 2 ^ (nat (nbits m) - 1)" by (simp add: power_increasing)
    with lo show "2 ^ k \<le> m" by linarith
  qed
qed

lemma pow2_powi: "pow2 e = (2::rat) powi e"
  by (simp add: pow2_def power_int_def power_one_over inverse_eq_divide)

lemma overflow_test:
  assumes m: "0 < m"
  shows "pow2 1024 \<le> of_int m * pow2 u \<longleftrightarrow> 1024 < u + nbits m"
proof (cases "1024 \<le> u")
  case True
  have "pow2 1024 \<le> pow2 u" unfolding pow2_powi by (rule power_int_increasing) (use True in auto)
  also have "pow2 u \<le> of_int m * pow2 u" using m by (simp add: pow2_powi)
  moreover have "1024 < u + nbits m" using True nbits_gt0 [OF m] nbits_nonneg [of "m div 2"] by linarith
  ultimately show ?thesis by (simp only: order.trans)
next
  case False
  define k where "k = nat (1024 - u)"
  have ku: "1024 = int k + u" using False by (simp add: k_def)
  have "pow2 (int k + u) = 2 ^ k * pow2 u"
    unfolding pow2_powi by (simp add: power_int_add)
  then have split: "pow2 1024 = 2 ^ k * pow2 u" by (simp only: ku)
  have "pow2 1024 \<le> of_int m * pow2 u \<longleftrightarrow> (2::rat) ^ k \<le> of_int m"
    unfolding split by (simp add: pow2_powi)
  also have "\<dots> \<longleftrightarrow> 2 ^ k \<le> m" by (metis of_int_le_iff of_int_numeral of_int_power)
  also have "\<dots> \<longleftrightarrow> int k < nbits m" using m by (rule nbits_le_iff)
  finally show ?thesis using False by (simp add: k_def) linarith
qed

lemma pow2_pos [simp]: "0 < pow2 e"
  by (simp add: pow2_def)

lemma pow2_nonzero [simp]: "pow2 e \<noteq> 0"
  using pow2_pos [of e] by linarith

lemma round_half_even_int [simp]: "round_half_even (of_int j) = j"
  by (simp add: round_half_even_def)

lemma floor_log2_int: "0 < n \<Longrightarrow> floor_log2 (of_int n) = nbits n - 1"
proof -
  assume n: "0 < n"
  have "nbits 1 = 1" by simp
  moreover have "pow2 (nbits n - 1) \<le> of_int n"
  proof -
    have "pow2 (nbits n - 1) = 2 ^ (nat (nbits n) - 1)"
      using n by (simp add: pow2_def nat_diff_distrib)
    also have "\<dots> \<le> of_int n"
      using nbits_pos [OF n] by (metis of_int_le_iff of_int_numeral of_int_power)
    finally show ?thesis .
  qed
  ultimately show ?thesis by (simp add: floor_log2_def quotient_of_int)
qed

text \<open>A value on the grid of the exponent its magnitude gives, below \<open>2^1024\<close>, is
  its own rounding.\<close>

lemma round_double_pos_grid:
  assumes u: "u = max (floor_log2 q - 52) (-1074)" and q: "q = of_int j * pow2 u"
    and lt: "q < pow2 1024"
  shows "round_double_pos q = PyFin q"
proof -
  have d: "round_half_even (q / pow2 u) = j" using q by simp
  have t: "\<not> (0 < j \<and> 1024 < u + nbits j)"
    using overflow_test [of j u] q lt by auto
  have "round_double_pos q = (if 0 < j \<and> 1024 < u + nbits j then PyInf else PyFin (of_int j * pow2 u))"
    unfolding round_double_pos_def Let_def u [symmetric] d ..
  then show ?thesis by (simp only: t if_False q [symmetric])
qed

lemma round_double_pos_int:
  assumes n: "0 < n" and le: "n \<le> 2 ^ 53"
  shows "round_double_pos (of_int n) = PyFin (of_int n)"
proof -
  define b where "b = nbits n"
  have b1: "1 \<le> b" using n nbits_nonneg [of "n div 2"] by (simp add: b_def)
  define u where "u = max (floor_log2 (of_int n) - 52) (-1074)"
  have ub: "u = b - 53" using b1 by (simp add: u_def floor_log2_int [OF n] b_def)
  have "of_int n \<le> pow2 53" using le by (simp add: pow2_def)
  also have "pow2 53 < pow2 1024" unfolding pow2_powi by (rule power_int_strict_increasing) simp_all
  finally have lt: "of_int n < pow2 1024" .
  obtain j where q: "of_int n = of_int j * pow2 u"
  proof (cases "b \<le> 53")
    case True
    define k where "k = nat (53 - b)"
    have "pow2 u = inverse (2 ^ k)" using True by (simp add: pow2_def ub k_def)
    then have "of_int (n * 2 ^ k) * pow2 u = (of_int n :: rat)" by simp
    then show ?thesis using that by metis
  next
    case False
    from nbits_pos [OF n] have "2 ^ (nat b - 1) \<le> n" by (simp add: b_def)
    with le have "(2::int) ^ (nat b - 1) \<le> 2 ^ 53" by linarith
    then have "nat b - 1 \<le> 53" using power_le_imp_le_exp [of "2::int" "nat b - 1" 53] by simp
    with False have b54: "b = 54" by linarith
    with \<open>2 ^ (nat b - 1) \<le> n\<close> le have "n = 2 ^ 53" by simp
    moreover have "pow2 u = 2" using b54 by (simp add: ub pow2_def)
    ultimately have "of_int n = of_int (2 ^ 52) * pow2 u" by simp
    then show ?thesis using that by metis
  qed
  show ?thesis by (rule round_double_pos_grid [OF u_def q lt])
qed

text \<open>The rounding the conversions use equals the reference rounding.\<close>

lemma round_double_pos_equiv: "round_double_pos q = round_double_pos_ref q"
proof -
  define u where "u = max (floor_log2 q - 52) (-1074)"
  define m where "m = round_half_even (q / pow2 u)"
  have "round_double_pos q = (if 0 < m \<and> 1024 < u + nbits m then PyInf else PyFin (of_int m * pow2 u))"
    unfolding round_double_pos_def Let_def u_def m_def ..
  moreover have "round_double_pos_ref q = (if pow2 1024 \<le> of_int m * pow2 u then PyInf else PyFin (of_int m * pow2 u))"
    unfolding round_double_pos_ref_def Let_def u_def m_def ..
  moreover have "(0 < m \<and> 1024 < u + nbits m) \<longleftrightarrow> pow2 1024 \<le> of_int m * pow2 u"
  proof (cases "0 < m")
    case True
    then show ?thesis using overflow_test [OF True] by simp
  next
    case False
    then have "of_int m * pow2 u \<le> 0" by (simp add: mult_nonpos_nonneg less_imp_le)
    then show ?thesis using False pow2_pos [of 1024] by linarith
  qed
  ultimately show ?thesis by simp
qed

text \<open>\<open>float(n)\<close> is exact for \<open>|n| \<le> 2^53\<close>.\<close>

lemma round_double_int_exact:
  assumes le: "\<bar>n\<bar> \<le> 2 ^ 53"
  shows "round_double (of_int n) = PyFin (of_int n)"
proof (cases "0 < n")
  case True
  then show ?thesis using le round_double_pos_int [OF True] by (simp add: round_double_def)
next
  case False
  show ?thesis
  proof (cases "n = 0")
    case True
    then show ?thesis by (simp add: round_double_def)
  next
    case nz: False
    with False have pos: "0 < - n" by simp
    have "round_double_pos (of_int (- n)) = PyFin (of_int (- n))"
      using le by (intro round_double_pos_int [OF pos]) simp
    then show ?thesis using False nz by (simp add: round_double_def)
  qed
qed

lemma float_of_int_exact: "\<bar>n\<bar> \<le> 2 ^ 53 \<Longrightarrow> float_of_int n = Inr (PyFin (of_int n))"
  by (simp add: float_of_int_def round_double_int_exact)

lemmas pyfloat_eval = float_of_str_def py_strip_def parse_decimal_def parse_exponent_def
  split_digitpart_def digitpart_ok_def py_isdigit_def digits_value_def digit_val_def
  round_double_def round_double_pos_def floor_log2_def nbits_gt0 round_half_even_def pow2_def
  float_of_int_def float_lit_def pystr_eval

end
