(* ===== verification/MultiRNN.thy ===== *)
theory MultiRNN
  imports PyFloat
begin

text \<open>
  Model of the text side of \<open>src/mathQA_multiRNN.py\<close>: the data, \<open>is_number\<close>,
  the question and answer dictionaries and \<open>prepare_data\<close>. The dictionaries of
  this script are keyed by strings and by floats (\<open>word_to_ix[float(choice)]\<close>), so
  their keys are \<open>pykey\<close>s. A Python dict finds a key by \<open>==\<close>, and \<open>==\<close>
  between an \<open>int\<close> and a \<open>float\<close> compares the exact values: \<open>key_of\<close> maps
  an int to the float key of the same value, so that \<open>8 in d\<close> finds the key
  \<open>8.0\<close>. (All NaN keys are one key here; CPython compares NaN keys by identity.
  No value of the scripts is a NaN.) Lists are not hashable: \<open>key_of\<close> has no key
  for them, and the code never asks for one.
\<close>

datatype pykey = KNum pyfloat | KStr string

fun key_of :: "pyval \<Rightarrow> pykey option" where
  "key_of (PyInt n) = Some (KNum (PyFin (of_int n)))"
| "key_of (PyFloat x) = Some (KNum x)"
| "key_of (PyStr s) = Some (KStr s)"
| "key_of (PyList xs) = None"

section \<open>Data\<close>

text \<open>\<open>trainingData\<close> (lines 21-24) and \<open>testData\<close> (lines 28-30): question,
  choices, index of the correct choice.\<close>

definition trainingData_multiRNN :: "(string \<times> pyval list \<times> nat) list" where
  "trainingData_multiRNN =
    [(''Add 3 and 5'', [PyInt 8, float_lit 23 1, PyInt 9, PyInt 14], 0),
     (''Multiply 9 and 2'', [PyInt 2, PyInt 9, PyInt 18, PyInt 1], 2),
     (''Divide 9 by 3'', [PyInt 9, PyInt 3, float_lit 203 1, PyInt 6], 1),
     (''John had 3 mangoes then Mary gave him 4 more. How much does he have now?'',
      [PyStr ''John now has 3 mangoes'', PyStr ''John now has 7 mangoes'',
       PyStr ''John now has 3 mangoes'', PyStr ''John now has 94 mangoes''], 1),
     (''Sum 50 and 5'', [PyInt 0, PyInt 10, PyInt 505, PyInt 55], 3),
     (''Adam went to the store with 10 dollars then bought an apple for 6 dollars. How much does he know have?'',
      [PyStr ''He is left with 4 dollars'', PyStr ''He is left with 100 dollars'',
       PyStr ''He is left with 6 dollars'', PyStr ''He is left with 12 dollars''], 0),
     (''Subtract 16 from 30'', [PyInt (-14), PyInt 14, PyInt 46, PyInt 480], 1),
     (''Multiply 2 and 30'', [PyInt 32, PyInt 28, PyInt 30, PyInt 60], 3),
     (''Add 25 and 39'', [PyInt 64, PyInt (-14), PyInt 6, PyInt 45], 0)]"

definition testData_multiRNN :: "(string \<times> pyval list \<times> nat) list" where
  "testData_multiRNN =
    [(''If Alex had 50 dollars in his account before he deposited 30 dollars. How much does he now have?'',
      [PyStr ''He now has a total of 80 dollars'', PyStr ''His account has 30 dollars'',
       PyStr ''His account balance is currently 5 dollars'', PyStr ''530 dollars''], 0),
     (''Add 9 and 3'', [PyInt 12, PyInt 60, PyInt 27, float_lit (-99) 1], 0),
     (''Subtract 20 from 64'', [float_lit 1966 2, PyInt 34, PyStr ''The result is 15'', float_lit 955 2], 1),
     (''Divide 360 by 4'', [PyStr ''It is 90'', float_lit 59 1, PyInt 16, PyInt 364], 0),
     (''Multiply 12 and 3'', [float_lit 123 1, float_lit 312 2, float_lit 23 1, PyInt 36], 3),
     (''What is 2 by 2 by 2?'',
      [PyStr ''The result is 6'', PyStr ''The result is 4'', PyStr ''The result is 8'',
       PyStr ''The result is 222''], 2)]"

text \<open>\<open>NUM_ANSWERS = len(trainingData[0][1])\<close> (line 32).\<close>

definition NUM_ANSWERS :: nat where
  "NUM_ANSWERS = length (fst (snd (hd trainingData_multiRNN)))"

definition MAX_LENGTH :: nat where "MAX_LENGTH = 25"

section \<open>is_number\<close>

text \<open>\<open>is_number(s)\<close> (lines 36-46): whether \<open>float(s)\<close> returns; the bare
  \<open>except\<close> catches every exception \<open>float\<close> raises.\<close>

definition is_number :: "pyval \<Rightarrow> bool" where
  "is_number s = (case py_float s of Inl e \<Rightarrow> False | Inr x \<Rightarrow> True)"

section \<open>The dictionaries\<close>

text \<open>The inner loop body of \<open>createQuestionDictionary\<close> (lines 59-60): the test
  looks up the word as it is, the insertion uses the word in lower case.\<close>

definition q_add_word :: "(pykey, nat) pydict \<Rightarrow> string \<Rightarrow> (pykey, nat) pydict" where
  "q_add_word d word =
     (if dict_contains d (KStr word) then d else dict_set d (KStr (py_str_lower word)) (length d))"

definition createQuestionDictionary :: "(string \<times> pyval list \<times> nat) list \<Rightarrow> (pykey, nat) pydict" where
  "createQuestionDictionary data =
     fold (\<lambda>(question, answers, ans_index) d.
             fold (\<lambda>w d. q_add_word d w) (re_findall_words question) d) data []"

text \<open>The loop body of \<open>createAnswerDictionary\<close> over the choices (lines 73-79): a
  number not yet a key is inserted under \<open>float(choice)\<close>; otherwise a string
  choice contributes its words as in the question dictionary.\<close>

definition a_add_choice :: "(pykey, nat) pydict \<Rightarrow> pyval \<Rightarrow> (pykey, nat) pydict" where
  "a_add_choice d choice =
     (let elif = (case choice of
                    PyStr s \<Rightarrow> fold (\<lambda>w d. q_add_word d w) (re_findall_words s) d
                  | _ \<Rightarrow> d)
      in case (py_float choice, key_of choice) of
           (Inr x, Some k) \<Rightarrow> if \<not> dict_contains d k then dict_set d (KNum x) (length d) else elif
         | _ \<Rightarrow> elif)"

definition createAnswerDictionary :: "(string \<times> pyval list \<times> nat) list \<Rightarrow> (pykey, nat) pydict" where
  "createAnswerDictionary data =
     fold (\<lambda>(question, answers, ans_index) d. fold (\<lambda>c d. a_add_choice d c) answers d) data []"

text \<open>The words \<open>re.findall(r"[\w']+", question)\<close> of all questions, in order.\<close>

definition question_findall_words :: "(string \<times> pyval list \<times> nat) list \<Rightarrow> string list" where
  "question_findall_words data = concat (map (\<lambda>(q, answers, i). re_findall_words q) data)"

section \<open>prepare_data\<close>

text \<open>\<open>prepare_data(seq, to_ix)\<close> (lines 89-101): a number is looked up as it is;
  anything else is iterated, and each element, stripped of punctuation and lowered,
  is looked up. \<open>re.sub\<close> raises TypeError on an element that is not a string,
  and iterating an int or a float raises TypeError.\<close>

definition lookup_word :: "(pykey, nat) pydict \<Rightarrow> pyval \<Rightarrow> nat py_result" where
  "lookup_word to_ix w =
     (case w of PyStr s \<Rightarrow> dict_get to_ix (KStr (py_str_lower (re_sub_punct s))) | _ \<Rightarrow> Inl TypeError)"

definition prepare_data :: "pyval \<Rightarrow> (pykey, nat) pydict \<Rightarrow> nat list py_result" where
  "prepare_data seq to_ix =
     (if is_number seq then
        (case key_of seq of Some k \<Rightarrow> r_mapM (dict_get to_ix) [k] | None \<Rightarrow> Inl TypeError)
      else (case seq of
              PyList ws \<Rightarrow> r_mapM (lookup_word to_ix) ws
            | PyStr s \<Rightarrow> r_mapM (\<lambda>c. lookup_word to_ix (PyStr [c])) s
            | _ \<Rightarrow> Inl TypeError))"

text \<open>\<open>question.split()\<close> and \<open>answer.split()\<close> as the Python list of strings
  that \<open>prepare_data\<close> receives.\<close>

definition split_words :: "string \<Rightarrow> pyval" where
  "split_words s = PyList (map PyStr (py_split s))"

section \<open>Lemmas on the question dictionary\<close>

lemma fold_question_words:
  "fold (\<lambda>(question, answers, ans_index) d. fold G (re_findall_words question) d) data d0 =
     fold G (question_findall_words data) d0"
  by (induction data arbitrary: d0) (auto simp: question_findall_words_def)

lemma createQuestionDictionary_fold:
  "createQuestionDictionary data = fold (\<lambda>w d. q_add_word d w) (question_findall_words data) []"
  by (simp add: createQuestionDictionary_def fold_question_words)

lemma q_add_word_lower: "py_str_lower w = w \<Longrightarrow> q_add_word d w = add_word d (KStr w)"
  by (simp add: q_add_word_def add_word_def)

lemma fold_q_add_word_lower:
  "\<forall>w \<in> set ws. py_str_lower w = w \<Longrightarrow>
     fold (\<lambda>w d. q_add_word d w) ws d = fold (\<lambda>k d. add_word d k) (map KStr ws) d"
  by (induction ws arbitrary: d) (simp_all add: q_add_word_lower)

lemma q_add_word_keys:
  "set (map fst (q_add_word d w)) =
     set (map fst d) \<union> (if dict_contains d (KStr w) then {} else {KStr (py_str_lower w)})"
proof (cases "dict_contains d (KStr w)")
  case True
  then show ?thesis by (simp add: q_add_word_def)
next
  case False
  have "set (map fst (dict_set d (KStr (py_str_lower w)) (length d))) =
      set (map fst d) \<union> {KStr (py_str_lower w)}"
    by (simp only: map_fst_dict_set) (auto simp: dict_contains_def)
  with False show ?thesis by (simp add: q_add_word_def)
qed

lemma fold_q_add_word_keys:
  "set (map fst d) \<subseteq> set (map fst (fold (\<lambda>w d. q_add_word d w) ws d)) \<and>
   (\<forall>w \<in> set ws. KStr w \<in> set (map fst (fold (\<lambda>w d. q_add_word d w) ws d)) \<or>
                 KStr (py_str_lower w) \<in> set (map fst (fold (\<lambda>w d. q_add_word d w) ws d)))"
proof (induction ws arbitrary: d)
  case Nil
  then show ?case by simp
next
  case (Cons w ws)
  have "set (map fst d) \<subseteq> set (map fst (q_add_word d w))"
    by (simp only: q_add_word_keys) blast
  moreover have "KStr w \<in> set (map fst (q_add_word d w)) \<or> KStr (py_str_lower w) \<in> set (map fst (q_add_word d w))"
    by (simp only: q_add_word_keys) (auto simp: dict_contains_def)
  ultimately show ?case using Cons.IH [of "q_add_word d w"] by auto
qed

lemma fold_q_add_word_keys_subset:
  "set (map fst (fold (\<lambda>w d. q_add_word d w) ws d)) \<subseteq> set (map fst d) \<union> KStr ` py_str_lower ` set ws"
proof (induction ws arbitrary: d)
  case Nil
  then show ?case by simp
next
  case (Cons w ws)
  have "set (map fst (q_add_word d w)) \<subseteq> set (map fst d) \<union> {KStr (py_str_lower w)}"
    by (simp only: q_add_word_keys) auto
  with Cons.IH [of "q_add_word d w"] show ?case by auto
qed

lemma createQuestionDictionary_keys:
  "set (map fst (createQuestionDictionary data)) \<subseteq> KStr ` py_str_lower ` set (question_findall_words data)"
  using fold_q_add_word_keys_subset [of "question_findall_words data" "[]"]
  by (simp add: createQuestionDictionary_fold)

lemma re_findall_words_lower_nonempty:
  "w \<in> set (question_findall_words data) \<Longrightarrow> py_str_lower w \<noteq> []"
  by (auto simp: question_findall_words_def re_findall_words_def py_str_lower_def dest: py_runs_nonempty)

lemma r_mapM_lookup_word:
  "r_mapM (lookup_word d) (map PyStr ws) = r_mapM (\<lambda>s. dict_get d (KStr (py_str_lower (re_sub_punct s)))) ws"
  by (induction ws) (simp_all add: lookup_word_def)

lemma is_number_split_words [simp]: "\<not> is_number (split_words q)"
  by (simp add: is_number_def split_words_def)

lemma prepare_data_split_words_raw:
  "prepare_data (split_words q) d = r_mapM (lookup_word d) (map PyStr (py_split q))"
  by (simp add: prepare_data_def) (simp add: split_words_def)

lemma prepare_data_split_words:
  "prepare_data (split_words q) d =
     r_mapM (\<lambda>s. dict_get d (KStr (py_str_lower (re_sub_punct s)))) (py_split q)"
  unfolding prepare_data_split_words_raw by (rule r_mapM_lookup_word)

text \<open>The four dictionaries of the script's data, as values. They are computed by
  evaluation once, through the \<open>foldl\<close> form of the builders (which evaluates
  without copying the growing dictionary), and the properties of the script's data
  are proved from these values.\<close>

lemma createQuestionDictionary_foldl:
  "createQuestionDictionary data =
     foldl (\<lambda>d (question, answers, ans_index). foldl q_add_word d (re_findall_words question)) [] data"
  by (simp add: createQuestionDictionary_def foldl_conv_fold case_prod_unfold)

lemma createAnswerDictionary_foldl:
  "createAnswerDictionary data = foldl (\<lambda>d (question, answers, ans_index). foldl a_add_choice d answers) [] data"
  by (simp add: createAnswerDictionary_def foldl_conv_fold case_prod_unfold)

lemma trainingData_question_dict:
  "createQuestionDictionary trainingData_multiRNN =
     [(KStr ''add'', 44), (KStr ''3'', 1), (KStr ''and'', 2), (KStr ''5'', 3), (KStr ''multiply'', 44), (KStr ''9'', 5), (KStr ''2'', 6), (KStr ''divide'', 7), (KStr ''by'', 8), (KStr ''john'', 9), (KStr ''had'', 10), (KStr ''mangoes'', 11), (KStr ''then'', 12), (KStr ''mary'', 13), (KStr ''gave'', 14), (KStr ''him'', 15), (KStr ''4'', 16), (KStr ''more'', 17), (KStr ''how'', 39), (KStr ''much'', 19), (KStr ''does'', 20), (KStr ''he'', 21), (KStr ''have'', 22), (KStr ''now'', 23), (KStr ''sum'', 24), (KStr ''50'', 25), (KStr ''adam'', 26), (KStr ''went'', 27), (KStr ''to'', 28), (KStr ''the'', 29), (KStr ''store'', 30), (KStr ''with'', 31), (KStr ''10'', 32), (KStr ''dollars'', 33), (KStr ''bought'', 34), (KStr ''an'', 35), (KStr ''apple'', 36), (KStr ''for'', 37), (KStr ''6'', 38), (KStr ''know'', 39), (KStr ''subtract'', 40), (KStr ''16'', 41), (KStr ''from'', 42), (KStr ''30'', 43), (KStr ''25'', 44), (KStr ''39'', 45)]"
  by (simp only: createQuestionDictionary_foldl) code_simp

lemma testData_question_dict:
  "createQuestionDictionary testData_multiRNN =
     [(KStr ''if'', 0), (KStr ''alex'', 1), (KStr ''had'', 2), (KStr ''50'', 3), (KStr ''dollars'', 4), (KStr ''in'', 5), (KStr ''his'', 6), (KStr ''account'', 7), (KStr ''before'', 8), (KStr ''he'', 9), (KStr ''deposited'', 10), (KStr ''30'', 11), (KStr ''how'', 12), (KStr ''much'', 13), (KStr ''does'', 14), (KStr ''now'', 15), (KStr ''have'', 16), (KStr ''add'', 17), (KStr ''9'', 18), (KStr ''and'', 19), (KStr ''3'', 20), (KStr ''subtract'', 21), (KStr ''20'', 22), (KStr ''from'', 23), (KStr ''64'', 24), (KStr ''divide'', 25), (KStr ''360'', 26), (KStr ''by'', 27), (KStr ''4'', 28), (KStr ''multiply'', 29), (KStr ''12'', 30), (KStr ''what'', 31), (KStr ''is'', 32), (KStr ''2'', 33)]"
  by (simp only: createQuestionDictionary_foldl) code_simp

lemma trainingData_answer_dict:
  "createAnswerDictionary trainingData_multiRNN =
     [(KNum (PyFin (8)), 0), (KNum (PyFin (2589569785738035 / 1125899906842624)), 1), (KNum (PyFin (9)), 2), (KNum (PyFin (14)), 3), (KNum (PyFin (2)), 4), (KNum (PyFin (18)), 5), (KNum (PyFin (1)), 6), (KNum (PyFin (3)), 7), (KNum (PyFin (5713942027226317 / 281474976710656)), 8), (KNum (PyFin (6)), 9), (KStr ''john'', 16), (KStr ''now'', 11), (KStr ''has'', 12), (KStr ''3'', 13), (KStr ''mangoes'', 14), (KStr ''7'', 15), (KStr ''94'', 16), (KNum (PyFin (0)), 17), (KNum (PyFin (10)), 18), (KNum (PyFin (505)), 19), (KNum (PyFin (55)), 20), (KStr ''he'', 29), (KStr ''is'', 22), (KStr ''left'', 23), (KStr ''with'', 24), (KStr ''4'', 25), (KStr ''dollars'', 26), (KStr ''100'', 27), (KStr ''6'', 28), (KStr ''12'', 29), (KNum (PyFin (- (14))), 30), (KNum (PyFin (46)), 31), (KNum (PyFin (480)), 32), (KNum (PyFin (32)), 33), (KNum (PyFin (28)), 34), (KNum (PyFin (30)), 35), (KNum (PyFin (60)), 36), (KNum (PyFin (64)), 37), (KNum (PyFin (45)), 38)]"
  by (simp only: createAnswerDictionary_foldl) code_simp

lemma testData_answer_dict:
  "createAnswerDictionary testData_multiRNN =
     [(KStr ''he'', 0), (KStr ''now'', 1), (KStr ''has'', 2), (KStr ''a'', 3), (KStr ''total'', 4), (KStr ''of'', 5), (KStr ''80'', 6), (KStr ''dollars'', 7), (KStr ''his'', 11), (KStr ''account'', 9), (KStr ''30'', 10), (KStr ''balance'', 11), (KStr ''is'', 12), (KStr ''currently'', 13), (KStr ''5'', 14), (KStr ''530'', 15), (KNum (PyFin (12)), 16), (KNum (PyFin (60)), 17), (KNum (PyFin (27)), 18), (KNum (PyFin (- (5573204538870989 / 562949953421312))), 19), (KNum (PyFin (5533798042131497 / 281474976710656)), 20), (KNum (PyFin (34)), 21), (KStr ''the'', 38), (KStr ''result'', 23), (KStr ''15'', 24), (KNum (PyFin (2688086027586765 / 281474976710656)), 25), (KStr ''it'', 26), (KStr ''90'', 27), (KNum (PyFin (3321404725185741 / 562949953421312)), 28), (KNum (PyFin (16)), 29), (KNum (PyFin (364)), 30), (KNum (PyFin (3462142213541069 / 281474976710656)), 31), (KNum (PyFin (3512807709348987 / 1125899906842624)), 32), (KNum (PyFin (2589569785738035 / 1125899906842624)), 33), (KNum (PyFin (36)), 34), (KStr ''6'', 35), (KStr ''4'', 36), (KStr ''8'', 37), (KStr ''222'', 38)]"
  by (simp only: createAnswerDictionary_foldl) code_simp

text \<open>C13: When every word of the questions is already in lower case, createQuestionDictionary is the enumeration of the distinct words in order of first occurrence: the i-th new word gets index i.\<close>

theorem createQuestionDictionary_refines:
  assumes "list_all (\<lambda>w. py_str_lower w = w) (question_findall_words data)"
  shows "createQuestionDictionary data =
           (let ks = first_occurrences (map KStr (question_findall_words data)) in zip ks [0..<length ks])"
proof -
  have "createQuestionDictionary data =
          fold (\<lambda>k d. add_word d k) (map KStr (question_findall_words data)) (zip [] [0..<length []])"
    using assms by (simp add: createQuestionDictionary_fold fold_q_add_word_lower list_all_iff)
  then show ?thesis
    using fold_add_word_zip [of "map KStr (question_findall_words data)" "[]"]
    by (simp add: first_occurrences_fold)
qed

theorem createQuestionDictionary_refines_witness:
  "list_all (\<lambda>w. py_str_lower w = w) (question_findall_words [(''add 3 and 5'', [], 0), (''add 9 and 3'', [], 0)]) \<and>
   createQuestionDictionary [(''add 3 and 5'', [], 0), (''add 9 and 3'', [], 0)] =
     [(KStr ''add'', 0), (KStr ''3'', 1), (KStr ''and'', 2), (KStr ''5'', 3), (KStr ''9'', 4)]"
proof -
  have "list_all (\<lambda>w. py_str_lower w = w) (question_findall_words [(''add 3 and 5'', [], 0), (''add 9 and 3'', [], 0)])"
    by code_simp
  moreover have "(let ks = first_occurrences (map KStr (question_findall_words [(''add 3 and 5'', [], 0), (''add 9 and 3'', [], 0)]))
      in zip ks [0..<length ks]) = [(KStr ''add'', 0), (KStr ''3'', 1), (KStr ''and'', 2), (KStr ''5'', 3), (KStr ''9'', 4)]"
    by code_simp
  ultimately show ?thesis using createQuestionDictionary_refines by simp
qed

text \<open>C19: prepare_data raises KeyError on every question with a token made only of punctuation, such as the question 5 + 4 + 25 that line 26 says was removed from the data: the token is stripped to the empty string, which is never a key of the question dictionary.\<close>

theorem prepare_data_punct_KeyError:
  assumes "t \<in> set (py_split q)" and "re_sub_punct t = []"
  shows "prepare_data (split_words q) (createQuestionDictionary data) = Inl KeyError"
proof -
  let ?d = "createQuestionDictionary data"
  let ?f = "\<lambda>s. dict_get ?d (KStr (py_str_lower (re_sub_punct s)))"
  have "\<not> dict_contains ?d (KStr [])"
  proof
    assume "dict_contains ?d (KStr [])"
    then obtain w where "w \<in> set (question_findall_words data)" "py_str_lower w = []"
      using createQuestionDictionary_keys [of data] by (auto simp: dict_contains_def)
    then show False using re_findall_words_lower_nonempty by blast
  qed
  then have "?f t = Inl KeyError" using assms(2) by (simp add: dict_get_Inl py_str_lower_def)
  moreover have "\<And>x e'. ?f x = Inl e' \<Longrightarrow> e' = KeyError" by (simp add: dict_get_Inl)
  ultimately have "r_mapM ?f (py_split q) = Inl KeyError"
    using assms(1) r_mapM_Inl_iff [of ?f KeyError "py_split q" KeyError] by blast
  then show ?thesis by (simp add: prepare_data_split_words)
qed

theorem prepare_data_punct_KeyError_witness:
  "''+'' \<in> set (py_split ''5 + 4 + 25'') \<and> re_sub_punct ''+'' = [] \<and>
   prepare_data (split_words ''5 + 4 + 25'')
     (createQuestionDictionary (trainingData_multiRNN @ [(''5 + 4 + 25'', [PyInt 3, PyInt 20, PyInt 34, PyInt 5], 2)]))
   = Inl KeyError"
proof -
  have "''+'' \<in> set (py_split ''5 + 4 + 25'')" by code_simp
  moreover have "re_sub_punct ''+'' = []" by code_simp
  ultimately show ?thesis using prepare_data_punct_KeyError by blast
qed

text \<open>C20: An answer choice that is a numeric string (such as 15) is entered in the answer dictionary under the float key float(choice), but prepare_data then looks it up under the string itself: its lookup raises KeyError.\<close>

theorem prepare_data_numeric_str_KeyError:
  assumes "is_number (PyStr s)" and "\<not> dict_contains d (KStr s)"
  shows "prepare_data (PyStr s) (a_add_choice d (PyStr s)) = Inl KeyError"
proof -
  obtain x where x: "py_float (PyStr s) = Inr x"
    using assms(1) by (auto simp: is_number_def split: sum.splits)
  then have d': "a_add_choice d (PyStr s) = dict_set d (KNum x) (length d)"
    using assms(2) by (simp add: a_add_choice_def)
  have "\<not> dict_contains (dict_set d (KNum x) (length d)) (KStr s)"
    using assms(2) by (simp add: dict_contains_def)
  then have "dict_get (a_add_choice d (PyStr s)) (KStr s) = Inl KeyError"
    using d' by (simp add: dict_get_Inl)
  then show ?thesis using assms(1) by (simp add: prepare_data_def)
qed

theorem prepare_data_numeric_str_KeyError_witness:
  "is_number (PyStr ''15'') \<and> \<not> dict_contains [] (KStr ''15'') \<and>
   prepare_data (PyStr ''15'') (a_add_choice [] (PyStr ''15'')) = Inl KeyError"
proof -
  have "is_number (PyStr ''15'')" by code_simp
  then show ?thesis using prepare_data_numeric_str_KeyError [of "''15''" "[]"] by (simp add: dict_contains_def)
qed

text \<open>C16: An int answer choice n with |n| at most 2^53 is entered under the float key float(n) and found again by prepare_data, under the index the dictionary had free; beyond 2^53 float(n) rounds and the lookup fails.\<close>

theorem prepare_data_int_choice:
  assumes "\<bar>n\<bar> \<le> 2 ^ 53" and "\<not> dict_contains d (KNum (PyFin (of_int n)))"
  shows "prepare_data (PyInt n) (a_add_choice d (PyInt n)) = Inr [length d]"
proof -
  have f: "py_float (PyInt n) = Inr (PyFin (of_int n))" using float_of_int_exact [OF assms(1)] by simp
  then have d': "a_add_choice d (PyInt n) = dict_set d (KNum (PyFin (of_int n))) (length d)"
    using assms(2) by (simp add: a_add_choice_def)
  then show ?thesis using f by (simp add: prepare_data_def is_number_def dict_get_def)
qed

theorem prepare_data_int_choice_witness:
  "\<bar>505::int\<bar> \<le> 2 ^ 53 \<and> \<not> dict_contains [] (KNum (PyFin (of_int 505))) \<and>
   prepare_data (PyInt 505) (a_add_choice [] (PyInt 505)) = Inr [0]"
  using prepare_data_int_choice [of 505 "[]"] by (simp add: dict_contains_def)

lemma prepare_data_int_choice_rounded:
  "prepare_data (PyInt (2 ^ 53 + 1)) (a_add_choice [] (PyInt (2 ^ 53 + 1))) = Inl KeyError"
  by code_simp

text \<open>C4: The membership test of createQuestionDictionary looks a word up before lowering it (lines 59-60). On a dictionary that numbers its n keys 0..n-1, a capitalised word whose lower-case form is already a key therefore moves that key to index n, and the next new word gets index n as well: two different words share an index, and the old index of the first is used by no key. This is how add, multiply and 25 come to share index 44 in the script's training dictionary.\<close>

theorem q_add_word_collision:
  assumes "map snd d = [0..<length d]" and "distinct (map fst d)"
    and "\<not> dict_contains d (KStr w)" and "map_of d (KStr (py_str_lower w)) = Some p"
    and "\<not> dict_contains d (KStr v)" and "py_str_lower v = v" and "v \<noteq> py_str_lower w"
  shows "map_of (q_add_word (q_add_word d w) v) (KStr (py_str_lower w)) = Some (length d) \<and>
         map_of (q_add_word (q_add_word d w) v) (KStr v) = Some (length d) \<and>
         p \<notin> snd ` set (q_add_word (q_add_word d w) v)"
proof -
  let ?k = "KStr (py_str_lower w)" and ?d1 = "dict_set d (KStr (py_str_lower w)) (length d)"
  have kin: "dict_contains d ?k" using assms(4) by (simp add: dict_contains_map_of)
  have d1: "q_add_word d w = ?d1" using assms(3) by (simp add: q_add_word_def)
  have s1: "set ?d1 = {e \<in> set d. fst e \<noteq> ?k} \<union> {(?k, length d)}" and l1: "length ?d1 = length d"
    using dict_set_in_place [OF kin] by blast+
  have v1: "\<not> dict_contains ?d1 (KStr v)" using assms(5) kin by (simp add: dict_contains_def)
  have d2: "q_add_word (q_add_word d w) v = ?d1 @ [(KStr v, length d)]"
    using d1 v1 l1 assms(6) by (simp add: q_add_word_def dict_set_fresh)
  have m1: "map_of ?d1 ?k = Some (length d)" by simp
  have "p \<notin> snd ` {e \<in> set d. fst e \<noteq> ?k}"
  proof
    assume "p \<in> snd ` {e \<in> set d. fst e \<noteq> ?k}"
    then obtain e where e: "e \<in> set d" "fst e \<noteq> ?k" "snd e = p" by blast
    have "(?k, p) \<in> set d" using assms(4) by (rule map_of_SomeD)
    moreover have "inj_on snd (set d)" using assms(1) distinct_map [of snd d] by simp
    ultimately show False using e by (metis fst_conv inj_on_def snd_conv)
  qed
  moreover have "p < length d"
    using map_of_SomeD [OF assms(4)] assms(1) by (metis atLeastLessThan_iff image_eqI set_map set_upt snd_conv)
  ultimately have "p \<notin> snd ` set ?d1" using s1 by auto
  moreover have "map_of d (KStr v) = None" using assms(5) by (simp add: dict_contains_map_of)
  ultimately show ?thesis using d2 m1 assms(7) \<open>p < length d\<close> by (auto simp: map_of_append map_add_def)
qed

theorem q_add_word_collision_witness:
  "map snd [(KStr ''add'', 0::nat)] = [0..<length [(KStr ''add'', 0::nat)]] \<and> distinct (map fst [(KStr ''add'', 0::nat)]) \<and>
   \<not> dict_contains [(KStr ''add'', 0::nat)] (KStr ''Add'') \<and>
   map_of [(KStr ''add'', 0::nat)] (KStr (py_str_lower ''Add'')) = Some 0 \<and>
   \<not> dict_contains [(KStr ''add'', 0::nat)] (KStr ''multiply'') \<and> py_str_lower ''multiply'' = ''multiply'' \<and>
   ''multiply'' \<noteq> py_str_lower ''Add'' \<and>
   map_of (q_add_word (q_add_word [(KStr ''add'', 0)] ''Add'') ''multiply'') (KStr (py_str_lower ''Add'')) = Some 1 \<and>
   map_of (q_add_word (q_add_word [(KStr ''add'', 0)] ''Add'') ''multiply'') (KStr ''multiply'') = Some 1 \<and>
   0 \<notin> snd ` set (q_add_word (q_add_word [(KStr ''add'', 0)] ''Add'') ''multiply'')"
proof -
  have l: "py_str_lower ''Add'' = ''add''" "py_str_lower ''multiply'' = ''multiply''" by code_simp+
  have h: "map snd [(KStr ''add'', 0::nat)] = [0..<length [(KStr ''add'', 0::nat)]] \<and> distinct (map fst [(KStr ''add'', 0::nat)]) \<and>
   \<not> dict_contains [(KStr ''add'', 0::nat)] (KStr ''Add'') \<and>
   map_of [(KStr ''add'', 0::nat)] (KStr (py_str_lower ''Add'')) = Some 0 \<and>
   \<not> dict_contains [(KStr ''add'', 0::nat)] (KStr ''multiply'') \<and> py_str_lower ''multiply'' = ''multiply'' \<and>
   ''multiply'' \<noteq> py_str_lower ''Add''"
    using l by (simp add: dict_contains_def)
  then show ?thesis using q_add_word_collision [of "[(KStr ''add'', 0)]" "''Add''" 0 "''multiply''"] by simp
qed

end
