(* ===== verification/MultiRNN_Model.thy ===== *)
theory MultiRNN_Model
  imports MultiRNN
begin

text \<open>
  Model of the network side of \<open>src/mathQA_multiRNN.py\<close>: the modules
  \<open>QuestionRNN\<close> and \<open>AnswerRNN\<close> as records of their parameters, their
  \<open>forward\<close> methods, \<open>process_question\<close>, \<open>process_answer\<close>,
  \<open>is_accurate\<close>, \<open>create_models\<close>, \<open>train_one_AnswerRNN\<close>, \<open>train\<close>,
  \<open>test\<close> and the top level of the script. Vectors are lists of reals. The GRU layer
  (\<open>nn.GRU\<close>, input and hidden state to output and hidden state) and the linear
  layer \<open>output2tag\<close> are fields of the records, left abstract; the embedding is its
  weight matrix, one row per index, so that an index past the rows raises IndexError
  as \<open>nn.Embedding\<close> does. The log-softmax over two scores is written out. The
  gradient step of a training example (\<open>zero_grad\<close>, the NLL loss, \<open>backward\<close>
  and the two \<open>SGD.step\<close> calls) is a parameter \<open>sgd\<close> of the training
  definitions: it maps the two modules and the example to the updated modules.
  \<open>use_cuda\<close> is a field of the module globals: when it holds, \<open>initHidden\<close>
  puts the hidden state on the GPU while the modules stay on the CPU, and the first
  GRU call raises RuntimeError.
\<close>

type_synonym vec = "real list"

text \<open>\<open>nn.GRU(hidden_size, hidden_size)\<close> applied to an input and a hidden state.\<close>

type_synonym gru_cell = "vec \<Rightarrow> vec \<Rightarrow> vec \<times> vec"

type_synonym problem = "string \<times> pyval list \<times> nat"

section \<open>The modules\<close>

text \<open>\<open>class QuestionRNN\<close> (lines 147-169).\<close>

record QuestionRNN =
  q_n_layers :: nat
  q_hidden_size :: nat
  q_embedding :: "vec list"
  q_gru :: gru_cell

text \<open>\<open>class AnswerRNN\<close> (lines 171-198); \<open>output2tag\<close> is
  \<open>nn.Linear(HIDDEN_DIM, 2)\<close>.\<close>

record AnswerRNN =
  a_n_layers :: nat
  a_hidden_size :: nat
  output2tag :: "vec \<Rightarrow> real \<times> real"
  a_embedding :: "vec list"
  a_gru :: gru_cell

definition HIDDEN_DIM_multiRNN :: nat where "HIDDEN_DIM_multiRNN = 256"

text \<open>\<open>self.embedding(input)\<close>: the row of the index, IndexError past the rows.\<close>

definition embedding_lookup :: "vec list \<Rightarrow> nat \<Rightarrow> vec py_result" where
  "embedding_lookup w i = py_nth w i"

text \<open>The loop \<open>for i in range(self.n_layers)\<close> of \<open>QuestionRNN.forward\<close>
  (lines 160-161) and of \<open>AnswerRNN.forward\<close> (lines 186-188), which applies
  \<open>F.relu\<close> before the GRU.\<close>

fun gru_layers :: "gru_cell \<Rightarrow> nat \<Rightarrow> vec \<Rightarrow> vec \<Rightarrow> vec \<times> vec" where
  "gru_layers g 0 out h = (out, h)"
| "gru_layers g (Suc n) out h = (case g out h of (out', h') \<Rightarrow> gru_layers g n out' h')"

definition relu :: "vec \<Rightarrow> vec" where
  "relu v = map (\<lambda>x. max x 0) v"

fun relu_gru_layers :: "gru_cell \<Rightarrow> nat \<Rightarrow> vec \<Rightarrow> vec \<Rightarrow> vec \<times> vec" where
  "relu_gru_layers g 0 out h = (out, h)"
| "relu_gru_layers g (Suc n) out h = (case g (relu out) h of (out', h') \<Rightarrow> relu_gru_layers g n out' h')"

text \<open>\<open>nn.LogSoftmax()\<close> over the two scores of a row.\<close>

definition log_softmax2 :: "real \<times> real \<Rightarrow> real \<times> real" where
  "log_softmax2 z = (case z of (z0, z1) \<Rightarrow> let l = ln (exp z0 + exp z1) in (z0 - l, z1 - l))"

text \<open>The forward passes (lines 156-162 and 182-190). \<open>gpu\<close> says whether the
  hidden state is a CUDA tensor. The modules and the index tensors of \<open>prepare_data\<close>
  stay on the CPU (nothing calls \<open>.cuda()\<close> on them), and \<open>nn.GRU\<close> raises
  RuntimeError when its input and its hidden state are on different devices: with a
  CUDA hidden state the first GRU layer raises, after the embedding lookup.\<close>

definition QuestionRNN_forward :: "QuestionRNN \<Rightarrow> bool \<Rightarrow> nat \<Rightarrow> vec \<Rightarrow> (vec \<times> vec) py_result" where
  "QuestionRNN_forward m gpu i h =
     r_bind (embedding_lookup (q_embedding m) i) (\<lambda>emb.
       if gpu \<and> 0 < q_n_layers m then Inl RuntimeError
       else Inr (gru_layers (q_gru m) (q_n_layers m) emb h))"

definition AnswerRNN_forward :: "AnswerRNN \<Rightarrow> bool \<Rightarrow> nat \<Rightarrow> vec \<Rightarrow> ((real \<times> real) \<times> vec) py_result" where
  "AnswerRNN_forward m gpu i h =
     r_bind (embedding_lookup (a_embedding m) i)
       (\<lambda>emb. if gpu \<and> 0 < a_n_layers m then Inl RuntimeError
              else case relu_gru_layers (a_gru m) (a_n_layers m) emb h of
                 (out, h') \<Rightarrow> Inr (log_softmax2 (output2tag m out), h'))"

text \<open>The constructors, with \<open>n_layers=1\<close>. The random initial weights are
  parameters: \<open>emb i k\<close> is entry \<open>k\<close> of embedding row \<open>i\<close>.\<close>

definition QuestionRNN_init :: "nat \<Rightarrow> nat \<Rightarrow> (nat \<Rightarrow> nat \<Rightarrow> real) \<Rightarrow> gru_cell \<Rightarrow> QuestionRNN" where
  "QuestionRNN_init input_size hidden_size emb gru =
     \<lparr>q_n_layers = 1, q_hidden_size = hidden_size,
      q_embedding = map (\<lambda>i. map (emb i) [0..<hidden_size]) [0..<input_size], q_gru = gru\<rparr>"

definition AnswerRNN_init ::
  "nat \<Rightarrow> nat \<Rightarrow> (nat \<Rightarrow> nat \<Rightarrow> real) \<Rightarrow> gru_cell \<Rightarrow> (vec \<Rightarrow> real \<times> real) \<Rightarrow> AnswerRNN" where
  "AnswerRNN_init input_size hidden_size emb gru lin =
     \<lparr>a_n_layers = 1, a_hidden_size = hidden_size, output2tag = lin,
      a_embedding = map (\<lambda>i. map (emb i) [0..<hidden_size]) [0..<input_size], a_gru = gru\<rparr>"

section \<open>The dictionaries of the script\<close>

text \<open>The module-level globals: \<open>use_cuda = torch.cuda.is_available()\<close> (line
  10), which depends on the machine and is a parameter of the model, and the four
  dictionaries (lines 81-87).\<close>

record script_dicts =
  use_cuda :: bool
  train_question_word_to_ix :: "(pykey, nat) pydict"
  test_question_word_to_ix :: "(pykey, nat) pydict"
  train_answer_word_to_ix :: "(pykey, nat) pydict"
  test_answer_word_to_ix :: "(pykey, nat) pydict"

definition dicts_of :: "bool \<Rightarrow> problem list \<Rightarrow> problem list \<Rightarrow> script_dicts" where
  "dicts_of cuda train_data test_data =
     \<lparr>use_cuda = cuda, train_question_word_to_ix = createQuestionDictionary train_data,
      test_question_word_to_ix = createQuestionDictionary test_data,
      train_answer_word_to_ix = createAnswerDictionary train_data,
      test_answer_word_to_ix = createAnswerDictionary test_data\<rparr>"

definition dicts_multiRNN :: "bool \<Rightarrow> script_dicts" where
  "dicts_multiRNN cuda = dicts_of cuda trainingData_multiRNN testData_multiRNN"

section \<open>process_question and process_answer\<close>

text \<open>\<open>QuestionRNN.initHidden\<close> (lines 164-168): the zero vector of the hidden
  size, moved to the GPU when \<open>use_cuda\<close>; the pair of its device and its values.\<close>

definition q_initHidden :: "script_dicts \<Rightarrow> QuestionRNN \<Rightarrow> bool \<times> vec" where
  "q_initHidden D m = (use_cuda D, replicate (q_hidden_size m) 0)"

text \<open>The loop of \<open>process_question\<close> (lines 125-127): one word at a time, the
  output stored in row \<open>word_index\<close> of \<open>question_outputs\<close>, a tensor of
  \<open>MAX_LENGTH\<close> rows, which raises IndexError past its last row.\<close>

fun question_scan ::
  "QuestionRNN \<Rightarrow> bool \<Rightarrow> nat list \<Rightarrow> nat \<Rightarrow> vec list \<Rightarrow> vec \<Rightarrow> (vec list \<times> vec) py_result" where
  "question_scan m gpu [] k outs h = Inr (outs, h)"
| "question_scan m gpu (i # is) k outs h =
     r_bind (QuestionRNN_forward m gpu i h)
       (\<lambda>(out, h'). if k < length outs then question_scan m gpu is (Suc k) (outs[k := out]) h'
                    else Inl IndexError)"

definition process_question ::
  "script_dicts \<Rightarrow> string \<Rightarrow> QuestionRNN \<Rightarrow> bool \<Rightarrow> (vec list \<times> vec) py_result" where
  "process_question D question m is_training =
     (let (gpu, h0) = q_initHidden D m;
          outs = replicate MAX_LENGTH (replicate (q_hidden_size m) 0);
          to_ix = (if is_training then train_question_word_to_ix D else test_question_word_to_ix D)
      in r_bind (prepare_data (split_words question) to_ix) (\<lambda>q_in. question_scan m gpu q_in 0 outs h0))"

text \<open>\<open>answer.split()\<close> on a value that is not a number: only a string has the
  method.\<close>

definition split_method :: "pyval \<Rightarrow> pyval py_result" where
  "split_method v = (case v of PyStr s \<Rightarrow> Inr (split_words s) | _ \<Rightarrow> Inl AttributeError)"

text \<open>The loop of \<open>process_answer\<close> (lines 222-223): \<open>softmax_layer\<close> is
  bound by the first iteration only, so an empty input leaves it unbound and
  \<open>return softmax_layer\<close> raises UnboundLocalError.\<close>

fun answer_scan ::
  "AnswerRNN \<Rightarrow> bool \<Rightarrow> nat list \<Rightarrow> vec \<Rightarrow> (real \<times> real) option \<Rightarrow> (real \<times> real) py_result" where
  "answer_scan m gpu [] h softmax_layer =
     (case softmax_layer of None \<Rightarrow> Inl UnboundLocalError | Some s \<Rightarrow> Inr s)"
| "answer_scan m gpu (i # is) h softmax_layer =
     r_bind (AnswerRNN_forward m gpu i h) (\<lambda>(s, h'). answer_scan m gpu is h' (Some s))"

text \<open>The branches of \<open>process_answer\<close> (lines 210-217): they pick the training
  or the test dictionary by \<open>is_training\<close>, and the answer itself or its words by
  \<open>is_number\<close>.\<close>

definition answer_input :: "script_dicts \<Rightarrow> pyval \<Rightarrow> bool \<Rightarrow> nat list py_result" where
  "answer_input D answer is_training =
     (if is_number answer \<and> is_training then prepare_data answer (train_answer_word_to_ix D)
      else if is_number answer \<and> \<not> is_training then prepare_data answer (test_answer_word_to_ix D)
      else if \<not> is_number answer \<and> \<not> is_training then
        r_bind (split_method answer) (\<lambda>ws. prepare_data ws (test_answer_word_to_ix D))
      else r_bind (split_method answer) (\<lambda>ws. prepare_data ws (train_answer_word_to_ix D)))"

text \<open>\<open>process_answer\<close> (lines 200-225): the answer network starts from the
  question's last hidden state, which is on the device \<open>initHidden\<close> put the
  question's first hidden state on (a GRU returns its hidden state on the device of its
  input): the GPU exactly when \<open>use_cuda\<close>.\<close>

definition process_answer ::
  "script_dicts \<Rightarrow> pyval \<Rightarrow> AnswerRNN \<Rightarrow> vec \<Rightarrow> bool \<Rightarrow> (real \<times> real) py_result" where
  "process_answer D answer m question_final_hidden is_training =
     r_bind (answer_input D answer is_training)
       (\<lambda>answer_in. answer_scan m (use_cuda D) answer_in question_final_hidden None)"

section \<open>is_accurate\<close>

text \<open>The loop of lines 242-245: \<open>max_ones\<close> starts as \<open>-100\<close> in every row,
  and row \<open>i\<close> takes the score of tag 1 when it beats the score of tag 0.\<close>

fun max_ones_loop :: "nat \<Rightarrow> (real \<times> real) list \<Rightarrow> real list \<Rightarrow> real list" where
  "max_ones_loop i [] acc = acc"
| "max_ones_loop i ((s0, s1) # rows) acc =
     max_ones_loop (Suc i) rows (if s1 > s0 then acc[i := s1] else acc)"

definition max_ones :: "(real \<times> real) list \<Rightarrow> real list" where
  "max_ones rows = max_ones_loop 0 rows (replicate (length rows) (-100))"

text \<open>\<open>max(xs)\<close>, ValueError on an empty list, and \<open>xs.index(x)\<close>, the first
  position of \<open>x\<close>, ValueError when it is absent.\<close>

definition py_max :: "real list \<Rightarrow> real py_result" where
  "py_max xs = (case xs of [] \<Rightarrow> Inl ValueError | x # ys \<Rightarrow> Inr (fold max ys x))"

fun py_index :: "real list \<Rightarrow> real \<Rightarrow> nat py_result" where
  "py_index [] x = Inl ValueError"
| "py_index (y # ys) x = (if y = x then Inr 0 else r_bind (py_index ys x) (\<lambda>k. Inr (Suc k)))"

text \<open>\<open>is_accurate(predicted_tags, ans_index)\<close> (lines 228-251), with the rows of
  \<open>predicted_tags\<close> as pairs of the scores of tags 0 and 1.\<close>

definition is_accurate :: "(real \<times> real) list \<Rightarrow> nat \<Rightarrow> (bool \<times> nat) py_result" where
  "is_accurate predicted_tags ans_index =
     (let ms = max_ones predicted_tags in
      r_bind (py_max ms) (\<lambda>mx. r_bind (py_index ms mx) (\<lambda>max_one.
        if max_one = ans_index then Inr (True, max_one) else Inr (False, max_one))))"

section \<open>Creating and training the models\<close>

text \<open>The random initial weights of \<open>create_models\<close>: the embedding and GRU of the
  question network, and those and the linear layer of each answer network.\<close>

record rnn_init =
  init_q_emb :: "nat \<Rightarrow> nat \<Rightarrow> real"
  init_q_gru :: gru_cell
  init_a_emb :: "nat \<Rightarrow> nat \<Rightarrow> nat \<Rightarrow> real"
  init_a_gru :: "nat \<Rightarrow> gru_cell"
  init_a_lin :: "nat \<Rightarrow> vec \<Rightarrow> real \<times> real"

text \<open>\<open>create_models()\<close> (lines 253-271): one question network over the training
  question dictionary and \<open>NUM_ANSWERS\<close> answer networks over the training answer
  dictionary. (The optimisers carry no state of their own: plain SGD.)\<close>

definition create_models :: "script_dicts \<Rightarrow> rnn_init \<Rightarrow> QuestionRNN \<times> AnswerRNN list" where
  "create_models D ini =
     (QuestionRNN_init (length (train_question_word_to_ix D)) HIDDEN_DIM_multiRNN (init_q_emb ini) (init_q_gru ini),
      map (\<lambda>i. AnswerRNN_init (length (train_answer_word_to_ix D)) HIDDEN_DIM_multiRNN
                 (init_a_emb ini i) (init_a_gru ini i) (init_a_lin ini i))
          [0..<NUM_ANSWERS])"

text \<open>The gradient step of one example: the question and answer networks, the
  question, the choice and the target tag, to the updated networks.\<close>

type_synonym sgd_step = "QuestionRNN \<Rightarrow> AnswerRNN \<Rightarrow> string \<Rightarrow> pyval \<Rightarrow> nat \<Rightarrow> QuestionRNN \<times> AnswerRNN"

text \<open>\<open>train_one_AnswerRNN\<close> (lines 274-304): the question is fed through the
  question network, the choice through the answer network from the question's last
  hidden state; \<open>NLLLoss\<close> raises IndexError on a target other than 0 and 1;
  then both optimisers step.\<close>

definition train_one_AnswerRNN ::
  "sgd_step \<Rightarrow> script_dicts \<Rightarrow> AnswerRNN \<Rightarrow> QuestionRNN \<Rightarrow> string \<Rightarrow> pyval \<Rightarrow> nat \<Rightarrow>
   (QuestionRNN \<times> AnswerRNN) py_result" where
  "train_one_AnswerRNN sgd D answer_model question_model question choice true_tag =
     r_bind (process_question D question question_model True) (\<lambda>(question_outputs, last_hidden).
     r_bind (process_answer D choice answer_model last_hidden True) (\<lambda>predicted_tags.
     if true_tag < 2 then Inr (sgd question_model answer_model question choice true_tag)
     else Inl IndexError))"

text \<open>The innermost loop of \<open>train\<close> (lines 324-327): one pass over the data for
  answer network \<open>j\<close>, with target 1 exactly for the problems whose correct choice
  is \<open>j\<close>. The gradient norms collected for plotting are not modelled.\<close>

fun train_pass ::
  "sgd_step \<Rightarrow> script_dicts \<Rightarrow> nat \<Rightarrow> problem list \<Rightarrow> QuestionRNN \<Rightarrow> AnswerRNN \<Rightarrow>
   (QuestionRNN \<times> AnswerRNN) py_result" where
  "train_pass sgd D j [] qm am = Inr (qm, am)"
| "train_pass sgd D j ((question, choices, correct_choice_index) # rest) qm am =
     (let true_tag = (if correct_choice_index = j then 1 else 0) in
      r_bind (py_nth choices j) (\<lambda>choice.
      r_bind (train_one_AnswerRNN sgd D am qm question choice true_tag) (\<lambda>(qm', am').
      train_pass sgd D j rest qm' am')))"

text \<open>\<open>for _ in range(n_epochs)\<close> (line 323).\<close>

fun train_epochs ::
  "sgd_step \<Rightarrow> script_dicts \<Rightarrow> nat \<Rightarrow> nat \<Rightarrow> problem list \<Rightarrow> QuestionRNN \<Rightarrow> AnswerRNN \<Rightarrow>
   (QuestionRNN \<times> AnswerRNN) py_result" where
  "train_epochs sgd D j 0 data qm am = Inr (qm, am)"
| "train_epochs sgd D j (Suc n) data qm am =
     r_bind (train_pass sgd D j data qm am) (\<lambda>(qm', am'). train_epochs sgd D j n data qm' am')"

text \<open>\<open>for j in range(NUM_ANSWERS)\<close> (line 318): answer network \<open>j\<close> is trained
  for all epochs, together with the shared question network, before network
  \<open>j + 1\<close>; the result is stored back into \<open>answer_models[j]\<close>.\<close>

fun train_answers ::
  "sgd_step \<Rightarrow> script_dicts \<Rightarrow> nat list \<Rightarrow> nat \<Rightarrow> problem list \<Rightarrow> QuestionRNN \<Rightarrow> AnswerRNN list \<Rightarrow>
   (QuestionRNN \<times> AnswerRNN list) py_result" where
  "train_answers sgd D [] n data qm ams = Inr (qm, ams)"
| "train_answers sgd D (j # js) n data qm ams =
     r_bind (py_nth ams j) (\<lambda>am.
     r_bind (train_epochs sgd D j n data qm am) (\<lambda>(qm', am').
     train_answers sgd D js n data qm' (ams[j := am'])))"

definition train ::
  "sgd_step \<Rightarrow> script_dicts \<Rightarrow> rnn_init \<Rightarrow> problem list \<Rightarrow> nat \<Rightarrow>
   (QuestionRNN \<times> AnswerRNN list) py_result" where
  "train sgd D ini training_data n_epochs =
     (case create_models D ini of
        (question_model, answer_models) \<Rightarrow>
          train_answers sgd D [0..<NUM_ANSWERS] n_epochs training_data question_model answer_models)"

section \<open>Testing and the top level\<close>

text \<open>The line \<open>test\<close> prints for a problem (lines 362-365): the correct and the
  predicted choice, or, when indexing the choices raises, the correct choice alone;
  indexing it again in the \<open>except\<close> branch raises out of \<open>test\<close>.\<close>

datatype test_line = is_Predicted: Predicted string pyval pyval | NoAnswer string pyval

definition print_line :: "string \<Rightarrow> pyval list \<Rightarrow> nat \<Rightarrow> nat \<Rightarrow> test_line py_result" where
  "print_line question answers ans_index predicted_index =
     (case r_bind (py_nth answers ans_index) (\<lambda>a. r_bind (py_nth answers predicted_index) (\<lambda>p. Inr (a, p))) of
        Inr (a, p) \<Rightarrow> Inr (Predicted question a p)
      | Inl _ \<Rightarrow> r_bind (py_nth answers ans_index) (\<lambda>a. Inr (NoAnswer question a)))"

text \<open>The loop over the choices (lines 357-358): row \<open>i\<close> of
  \<open>predicted_tags\<close> gets the scores of choice \<open>i\<close> from answer network \<open>i\<close>;
  the right-hand side is evaluated first, then the row is written, which raises
  IndexError past the \<open>NUM_ANSWERS\<close> rows. Rows past the choices are left as
  they were.\<close>

fun fill_tags ::
  "script_dicts \<Rightarrow> AnswerRNN list \<Rightarrow> pyval list \<Rightarrow> nat \<Rightarrow> vec \<Rightarrow> bool \<Rightarrow> (real \<times> real) list \<Rightarrow>
   (real \<times> real) list py_result" where
  "fill_tags D ams [] i h is_training tags = Inr tags"
| "fill_tags D ams (answer # answers) i h is_training tags =
     r_bind (py_nth ams i) (\<lambda>am.
     r_bind (process_answer D answer am h is_training) (\<lambda>s.
     if i < length tags then fill_tags D ams answers (Suc i) h is_training (tags[i := s])
     else Inl IndexError))"

text \<open>The loop over the problems (lines 355-365). \<open>predicted_tags\<close> is created
  once, before the loop (line 354), and carried from problem to problem.\<close>

fun test_loop ::
  "script_dicts \<Rightarrow> QuestionRNN \<Rightarrow> AnswerRNN list \<Rightarrow> problem list \<Rightarrow> bool \<Rightarrow> (real \<times> real) list \<Rightarrow>
   nat \<Rightarrow> test_line list \<Rightarrow> (nat \<times> test_line list) py_result" where
  "test_loop D qm ams [] is_training tags acc out = Inr (acc, out)"
| "test_loop D qm ams ((question, answers, ans_index) # rest) is_training tags acc out =
     r_bind (process_question D question qm is_training) (\<lambda>(question_in, last_hidden).
     r_bind (fill_tags D ams answers 0 last_hidden is_training tags) (\<lambda>tags'.
     r_bind (is_accurate tags' ans_index) (\<lambda>(prediction_accuracy, predicted_index).
     r_bind (print_line question answers ans_index predicted_index) (\<lambda>line.
     test_loop D qm ams rest is_training tags'
       (acc + (if prediction_accuracy then 1 else 0)) (out @ [line])))))"

text \<open>\<open>test\<close> (lines 339-368): the number of correct predictions, the number of
  problems (the two numbers of the returned sentence) and the printed lines.\<close>

definition test ::
  "script_dicts \<Rightarrow> QuestionRNN \<Rightarrow> AnswerRNN list \<Rightarrow> problem list \<Rightarrow> bool \<Rightarrow>
   (nat \<times> nat \<times> test_line list) py_result" where
  "test D question_model answer_models data is_training =
     r_bind (test_loop D question_model answer_models data is_training (replicate NUM_ANSWERS (0, 0)) 0 [])
       (\<lambda>(sumAccuracy, out). Inr (sumAccuracy, length data, out))"

text \<open>The top level (lines 377-381): ten epochs of training, then a test on the
  training data and one on the test data.\<close>

definition script_multiRNN ::
  "sgd_step \<Rightarrow> rnn_init \<Rightarrow> bool \<Rightarrow>
   ((nat \<times> nat \<times> test_line list) \<times> (nat \<times> nat \<times> test_line list)) py_result" where
  "script_multiRNN sgd ini cuda =
     r_bind (train sgd (dicts_multiRNN cuda) ini trainingData_multiRNN 10) (\<lambda>(question_model, answer_models).
     r_bind (test (dicts_multiRNN cuda) question_model answer_models trainingData_multiRNN True) (\<lambda>accuracy1.
     r_bind (test (dicts_multiRNN cuda) question_model answer_models testData_multiRNN False) (\<lambda>accuracy2.
     Inr (accuracy1, accuracy2))))"

section \<open>Reference definitions\<close>

text \<open>What \<open>process_question\<close> computes, without the output tensor: the output
  of every word and the last hidden state, the question network run over the
  indices from a hidden state.\<close>

fun question_run :: "QuestionRNN \<Rightarrow> nat list \<Rightarrow> vec \<Rightarrow> vec list \<times> vec" where
  "question_run m [] h = ([], h)"
| "question_run m (i # is) h =
     (case gru_layers (q_gru m) (q_n_layers m) (q_embedding m ! i) h of
        (out, h') \<Rightarrow> (case question_run m is h' of (outs, hf) \<Rightarrow> (out # outs, hf)))"

text \<open>The schedule of \<open>train\<close> as one list of steps: for each answer network
  \<open>j\<close>, \<open>n\<close> passes over the data, a step being the network and the problem.
  A step trains network \<open>j\<close> on choice \<open>j\<close> of the problem with target 1 exactly
  when \<open>j\<close> is the correct choice.\<close>

definition train_schedule :: "nat list \<Rightarrow> nat \<Rightarrow> problem list \<Rightarrow> (nat \<times> problem) list" where
  "train_schedule js n data = concat (map (\<lambda>j. concat (replicate n (map (\<lambda>p. (j, p)) data))) js)"

definition schedule_step ::
  "sgd_step \<Rightarrow> script_dicts \<Rightarrow> QuestionRNN \<times> AnswerRNN list \<Rightarrow> nat \<times> problem \<Rightarrow>
   (QuestionRNN \<times> AnswerRNN list) py_result" where
  "schedule_step sgd D st step =
     (case (st, step) of ((qm, ams), (j, (question, choices, c))) \<Rightarrow>
        r_bind (py_nth choices j) (\<lambda>choice.
        r_bind (train_one_AnswerRNN sgd D (ams ! j) qm question choice (if c = j then 1 else 0))
          (\<lambda>(qm', am'). Inr (qm', ams[j := am']))))"

fun run_schedule ::
  "sgd_step \<Rightarrow> script_dicts \<Rightarrow> (nat \<times> problem) list \<Rightarrow> QuestionRNN \<times> AnswerRNN list \<Rightarrow>
   (QuestionRNN \<times> AnswerRNN list) py_result" where
  "run_schedule sgd D [] st = Inr st"
| "run_schedule sgd D (step # steps) st = r_bind (schedule_step sgd D st step) (run_schedule sgd D steps)"

text \<open>A gradient step changes the values of the parameters, never their shapes:
  the number of embedding rows of both networks is kept.\<close>

definition sgd_keeps_shapes :: "sgd_step \<Rightarrow> bool" where
  "sgd_keeps_shapes sgd \<longleftrightarrow>
     (\<forall>qm am question choice tag.
        length (q_embedding (fst (sgd qm am question choice tag))) = length (q_embedding qm) \<and>
        length (a_embedding (snd (sgd qm am question choice tag))) = length (a_embedding am))"

text \<open>The shapes \<open>create_models\<close> gives the networks: as many embedding rows as
  the training dictionaries have keys, and \<open>NUM_ANSWERS\<close> answer networks.\<close>

definition well_shaped :: "script_dicts \<Rightarrow> QuestionRNN \<times> AnswerRNN list \<Rightarrow> bool" where
  "well_shaped D st =
     (case st of (qm, ams) \<Rightarrow>
        length (q_embedding qm) = length (train_question_word_to_ix D) \<and> length ams = NUM_ANSWERS \<and>
        list_all (\<lambda>am. length (a_embedding am) = length (train_answer_word_to_ix D)) ams)"

text \<open>A problem the networks can process: the question's words are known, with
  indices within the question embedding, and at most \<open>MAX_LENGTH\<close> of them; the
  problem has \<open>NUM_ANSWERS\<close> choices and a correct index among them; every choice
  has at least one known word or number, with indices within the answer embedding.\<close>

definition question_ok :: "script_dicts \<Rightarrow> bool \<Rightarrow> string \<Rightarrow> bool" where
  "question_ok D is_training question =
     (case prepare_data (split_words question)
             (if is_training then train_question_word_to_ix D else test_question_word_to_ix D) of
        Inr q_in \<Rightarrow> list_all (\<lambda>i. i < length (train_question_word_to_ix D)) q_in \<and> length q_in \<le> MAX_LENGTH
      | Inl e \<Rightarrow> False)"

definition choice_ok :: "script_dicts \<Rightarrow> bool \<Rightarrow> pyval \<Rightarrow> bool" where
  "choice_ok D is_training answer =
     (case answer_input D answer is_training of
        Inr a_in \<Rightarrow> a_in \<noteq> [] \<and> list_all (\<lambda>i. i < length (train_answer_word_to_ix D)) a_in
      | Inl e \<Rightarrow> False)"

definition problem_ok :: "script_dicts \<Rightarrow> bool \<Rightarrow> problem \<Rightarrow> bool" where
  "problem_ok D is_training p =
     (case p of (question, answers, ans_index) \<Rightarrow>
        question_ok D is_training question \<and> length answers = NUM_ANSWERS \<and> ans_index < NUM_ANSWERS \<and>
        list_all (choice_ok D is_training) answers)"

section \<open>Lemmas\<close>

lemma NUM_ANSWERS_4: "NUM_ANSWERS = 4"
  by (simp add: NUM_ANSWERS_def trainingData_multiRNN_def)

lemma max_ones_loop_eq:
  "length acc = i + length rows \<Longrightarrow>
   max_ones_loop i rows acc =
     take i acc @ map2 (\<lambda>r a. if fst r < snd r then snd r else a) rows (drop i acc)"
proof (induction i rows acc rule: max_ones_loop.induct)
  case (1 i acc)
  then show ?case by simp
next
  case (2 i s0 s1 rows acc)
  have i: "i < length acc" using "2.prems" by simp
  let ?acc' = "if s1 > s0 then acc[i := s1] else acc"
  have l: "length ?acc' = Suc i + length rows" using "2.prems" by simp
  have "take (Suc i) ?acc' = take i acc @ [if s0 < s1 then s1 else acc ! i]"
    using i by (simp add: take_Suc_conv_app_nth)
  moreover have "drop (Suc i) ?acc' = drop (Suc i) acc" by simp
  moreover have "drop i acc = acc ! i # drop (Suc i) acc" using i by (simp add: Cons_nth_drop_Suc)
  ultimately show ?case using "2.IH" [OF l] by simp
qed

lemma max_ones_map: "max_ones rows = map (\<lambda>r. if fst r < snd r then snd r else -100) rows"
proof -
  have "max_ones rows = map2 (\<lambda>r a. if fst r < snd r then snd r else a) rows (replicate (length rows) (-100))"
    by (simp add: max_ones_def max_ones_loop_eq)
  also have "\<dots> = map (\<lambda>r. if fst r < snd r then snd r else -100) rows"
    by (induction rows) simp_all
  finally show ?thesis .
qed

lemma length_max_ones [simp]: "length (max_ones rows) = length rows"
  by (simp add: max_ones_map)

lemma nth_max_ones:
  "j < length rows \<Longrightarrow> max_ones rows ! j = (if fst (rows ! j) < snd (rows ! j) then snd (rows ! j) else -100)"
  by (simp add: max_ones_map)

lemma py_max_Max: "xs \<noteq> [] \<Longrightarrow> py_max xs = Inr (Max (set xs))"
proof (cases xs)
  case (Cons a list)
  then show ?thesis using Max.set_eq_fold [of a list] by (simp add: py_max_def)
qed simp

lemma py_index_first:
  "x \<in> set xs \<Longrightarrow> \<exists>k. py_index xs x = Inr k \<and> k < length xs \<and> xs ! k = x \<and> (\<forall>j<k. xs ! j \<noteq> x)"
proof (induction xs)
  case Nil
  then show ?case by simp
next
  case (Cons y ys)
  show ?case
  proof (cases "y = x")
    case True
    then show ?thesis by simp
  next
    case False
    with Cons obtain k where "py_index ys x = Inr k" "k < length ys" "ys ! k = x" "\<forall>j<k. ys ! j \<noteq> x"
      by auto
    then show ?thesis using False by (auto simp: less_Suc_eq_0_disj)
  qed
qed

lemma is_accurate_first_max:
  assumes "predicted_tags \<noteq> []"
  shows "\<exists>k. is_accurate predicted_tags ans_index = Inr (k = ans_index, k) \<and> k < length predicted_tags \<and>
           max_ones predicted_tags ! k = Max (set (max_ones predicted_tags)) \<and>
           (\<forall>j<k. max_ones predicted_tags ! j \<noteq> Max (set (max_ones predicted_tags)))"
proof -
  let ?ms = "max_ones predicted_tags"
  have ne: "?ms \<noteq> []" using assms by (simp add: max_ones_map)
  then have "Max (set ?ms) \<in> set ?ms" by simp
  then obtain k where k: "py_index ?ms (Max (set ?ms)) = Inr k" "k < length ?ms" "?ms ! k = Max (set ?ms)"
      "\<forall>j<k. ?ms ! j \<noteq> Max (set ?ms)"
    using py_index_first by blast
  then show ?thesis using ne by (auto simp: is_accurate_def py_max_Max)
qed

lemma is_accurate_empty: "is_accurate [] ans_index = Inl ValueError"
  by (simp add: is_accurate_def max_ones_def py_max_def)

lemma log_softmax2_candidate:
  assumes "log_softmax2 z = (s0, s1)"
  shows "s0 < s1 \<longleftrightarrow> fst z < snd z" and "s0 < s1 \<Longrightarrow> - ln 2 < s1"
proof -
  obtain z0 z1 where z: "z = (z0, z1)" by (cases z)
  define l where "l = ln (exp z0 + exp z1)"
  have s: "s0 = z0 - l" "s1 = z1 - l" using assms by (simp_all add: log_softmax2_def z l_def Let_def)
  show "s0 < s1 \<longleftrightarrow> fst z < snd z" using s z by simp
  show "- ln 2 < s1" if "s0 < s1"
  proof -
    from that s have "exp z0 < exp z1" by simp
    then have "exp z0 + exp z1 < 2 * exp z1" by simp
    then have "l < ln (2 * exp z1)" unfolding l_def by (simp add: add_pos_pos)
    also have "\<dots> = ln 2 + z1" by (simp add: ln_mult)
    finally show ?thesis using s by simp
  qed
qed

lemma ln2_lt_100: "- 100 < - ln (2::real)"
  using ln_2_less_1 by simp

text \<open>C9: On a non-empty tensor of scores, is_accurate returns the first row of largest score, where the score of a row is its tag-1 score when that beats its tag-0 score and the sentinel -100 otherwise (the loop of lines 242-245, then max and index), and reports whether that row is the correct answer.\<close>

theorem is_accurate_spec:
  assumes "predicted_tags \<noteq> []"
  shows "\<exists>k. is_accurate predicted_tags ans_index = Inr (k = ans_index, k) \<and> k < length predicted_tags \<and>
           (\<forall>j<length predicted_tags.
              (if fst (predicted_tags ! j) < snd (predicted_tags ! j) then snd (predicted_tags ! j) else -100) \<le>
              (if fst (predicted_tags ! k) < snd (predicted_tags ! k) then snd (predicted_tags ! k) else -100)) \<and>
           (\<forall>j<k.
              (if fst (predicted_tags ! j) < snd (predicted_tags ! j) then snd (predicted_tags ! j) else -100) <
              (if fst (predicted_tags ! k) < snd (predicted_tags ! k) then snd (predicted_tags ! k) else -100))"
proof -
  obtain k where k: "is_accurate predicted_tags ans_index = Inr (k = ans_index, k)" "k < length predicted_tags"
      "max_ones predicted_tags ! k = Max (set (max_ones predicted_tags))"
      "\<forall>j<k. max_ones predicted_tags ! j \<noteq> Max (set (max_ones predicted_tags))"
    using is_accurate_first_max [OF assms] by blast
  have le: "\<forall>j<length predicted_tags. max_ones predicted_tags ! j \<le> max_ones predicted_tags ! k"
    using k(3) by simp
  have lt: "\<forall>j<k. max_ones predicted_tags ! j < max_ones predicted_tags ! k"
    using k(2,3,4) le by (simp add: order_less_le)
  show ?thesis using k(1,2) le lt by (auto simp: nth_max_ones split: prod.splits)
qed

theorem is_accurate_spec_witness:
  "[(-1, -0.5), (-0.2, -2)] \<noteq> ([] :: (real \<times> real) list) \<and>
   is_accurate [(-1, -0.5), (-0.2, -2)] 0 = Inr (True, 0)"
proof -
  have ne: "[(-1, -0.5), (-0.2, -2)] \<noteq> ([] :: (real \<times> real) list)" by simp
  obtain k where k: "is_accurate [(-1, -0.5), (-0.2, -2)] 0 = Inr (k = 0, k)" "k < 2"
      "\<forall>j<2. (if fst ([(-1::real, -0.5::real), (-0.2, -2)] ! j) < snd ([(-1::real, -0.5::real), (-0.2, -2)] ! j)
                then snd ([(-1::real, -0.5::real), (-0.2, -2)] ! j) else -100) \<le>
             (if fst ([(-1::real, -0.5::real), (-0.2, -2)] ! k) < snd ([(-1::real, -0.5::real), (-0.2, -2)] ! k)
                then snd ([(-1::real, -0.5::real), (-0.2, -2)] ! k) else -100)"
    using is_accurate_spec [OF ne, of 0] by auto
  have "k = 0"
  proof (rule ccontr)
    assume "k \<noteq> 0"
    then have "k = 1" using k(2) by simp
    then show False using k(3) [rule_format, of 0] by simp
  qed
  then show ?thesis using k(1) ne by simp
qed

lemma max_ones_candidate_bound:
  assumes "j < length zs" "fst (zs ! j) < snd (zs ! j)"
  shows "- 100 < max_ones (map log_softmax2 zs) ! j"
proof -
  obtain s0 s1 where s: "log_softmax2 (zs ! j) = (s0, s1)" by (cases "log_softmax2 (zs ! j)")
  with assms(2) have "s0 < s1" using log_softmax2_candidate(1) [OF s] by simp
  then have "- ln 2 < s1" using log_softmax2_candidate(2) [OF s] by simp
  then show ?thesis using assms(1) s \<open>s0 < s1\<close> ln2_lt_100 by (simp add: nth_max_ones)
qed

lemma max_ones_above_sentinel:
  assumes "k < length zs" "- 100 < max_ones (map log_softmax2 zs) ! k"
  shows "fst (zs ! k) < snd (zs ! k)"
proof -
  obtain s0 s1 where s: "log_softmax2 (zs ! k) = (s0, s1)" by (cases "log_softmax2 (zs ! k)")
  with assms have "s0 < s1" by (auto simp: nth_max_ones split: if_splits)
  then show ?thesis using log_softmax2_candidate(1) [OF s] by simp
qed

text \<open>C3: When the rows are log-softmax outputs and at least one answer has a higher score for tag 1 than for tag 0, is_accurate picks such an answer: a candidate's score is above -ln 2, so the sentinel -100 of the other rows never wins.\<close>

theorem is_accurate_candidate:
  assumes "\<exists>i<length zs. fst (zs ! i) < snd (zs ! i)"
  shows "\<exists>k. is_accurate (map log_softmax2 zs) ans_index = Inr (k = ans_index, k) \<and>
             k < length zs \<and> fst (zs ! k) < snd (zs ! k)"
proof -
  let ?ms = "max_ones (map log_softmax2 zs)"
  obtain i where i: "i < length zs" "fst (zs ! i) < snd (zs ! i)" using assms by blast
  then have ne: "map log_softmax2 zs \<noteq> []" by auto
  obtain k where k: "is_accurate (map log_softmax2 zs) ans_index = Inr (k = ans_index, k)"
      "k < length (map log_softmax2 zs)" "?ms ! k = Max (set ?ms)"
    using is_accurate_first_max [OF ne] by blast
  have "- 100 < ?ms ! i" using max_ones_candidate_bound [OF i] .
  also have "?ms ! i \<le> Max (set ?ms)" using i(1) by simp
  finally have "- 100 < ?ms ! k" using k(3) by simp
  then have "fst (zs ! k) < snd (zs ! k)" using max_ones_above_sentinel k(2) by simp
  then show ?thesis using k(1,2) by auto
qed

theorem is_accurate_candidate_witness:
  "(\<exists>i<length [(0::real, 1::real), (1, 0)]. fst ([(0::real, 1::real), (1, 0)] ! i) < snd ([(0::real, 1::real), (1, 0)] ! i)) \<and>
   (\<exists>k. is_accurate (map log_softmax2 [(0, 1), (1, 0)]) 1 = Inr (k = 1, k) \<and>
        k < length [(0::real, 1::real), (1, 0)] \<and> fst ([(0::real, 1::real), (1, 0)] ! k) < snd ([(0::real, 1::real), (1, 0)] ! k))"
proof -
  have h: "\<exists>i<length [(0::real, 1::real), (1, 0)]. fst ([(0::real, 1::real), (1, 0)] ! i) < snd ([(0::real, 1::real), (1, 0)] ! i)"
    by (rule exI [of _ 0]) simp
  show ?thesis using h is_accurate_candidate [OF h, of 1] by blast
qed

text \<open>C14: When no row scores tag 1 above tag 0, is_accurate still picks answer 0 (the first of the equal sentinels), whereas its docstring says that then no answer is chosen.\<close>

theorem is_accurate_no_candidate:
  assumes "predicted_tags \<noteq> []" and "\<forall>r \<in> set predicted_tags. snd r \<le> fst r"
  shows "is_accurate predicted_tags ans_index = Inr (ans_index = 0, 0)"
proof -
  have ms: "max_ones predicted_tags = replicate (length predicted_tags) (-100)"
    using assms(2) by (induction predicted_tags) (auto simp: max_ones_map)
  have n: "0 < length predicted_tags" using assms(1) by simp
  then have "py_max (max_ones predicted_tags) = Inr (-100)"
    using ms py_max_Max [of "max_ones predicted_tags"] by simp
  moreover have "py_index (max_ones predicted_tags) (-100) = Inr 0"
    using ms n by (cases "length predicted_tags") simp_all
  ultimately show ?thesis by (simp add: is_accurate_def)
qed

theorem is_accurate_no_candidate_witness:
  "[(0::real, 0::real), (-1, -3)] \<noteq> [] \<and> is_accurate [(0, 0), (-1, -3)] 2 = Inr (False, 0)"
  using is_accurate_no_candidate [of "[(0, 0), (-1, -3)]" 2] by simp

lemma question_scan_eq:
  "list_all (\<lambda>i. i < length (q_embedding m)) is \<Longrightarrow> k \<le> length outs \<Longrightarrow> \<not> (gpu \<and> 0 < q_n_layers m) \<Longrightarrow>
   question_scan m gpu is k outs h =
     (if k + length is \<le> length outs
      then Inr (take k outs @ fst (question_run m is h) @ drop (k + length is) outs, snd (question_run m is h))
      else Inl IndexError)"
proof (induction "is" arbitrary: k outs h)
  case Nil
  then show ?case by simp
next
  case (Cons i "is")
  obtain out h' where g: "gru_layers (q_gru m) (q_n_layers m) (q_embedding m ! i) h = (out, h')"
    by (cases "gru_layers (q_gru m) (q_n_layers m) (q_embedding m ! i) h")
  obtain outs' hf where r: "question_run m is h' = (outs', hf)" by (cases "question_run m is h'")
  have fwd: "QuestionRNN_forward m gpu i h = Inr (out, h')"
    using Cons.prems g by (simp add: QuestionRNN_forward_def embedding_lookup_def)
  have ih: "question_scan m gpu is (Suc k) (outs[k := out]) h' =
     (if Suc k + length is \<le> length outs
      then Inr (take (Suc k) (outs[k := out]) @ outs' @ drop (Suc k + length is) outs, hf)
      else Inl IndexError)"
    if "k < length outs"
    using Cons.IH [of "Suc k" "outs[k := out]" h'] Cons.prems r that by simp
  show ?case
  proof (cases "k < length outs")
    case True
    note ih = ih [OF True]
    from True have "take (Suc k) (outs[k := out]) = take k outs @ [out]" by (simp add: take_Suc_conv_app_nth)
    then show ?thesis using True fwd ih g r by simp
  next
    case False
    then show ?thesis using fwd by simp
  qed
qed

lemma process_question_eq:
  assumes "prepare_data (split_words question)
             (if is_training then train_question_word_to_ix D else test_question_word_to_ix D) = Inr q_in"
    and "list_all (\<lambda>i. i < length (q_embedding m)) q_in"
  shows "process_question D question m is_training =
           (if use_cuda D \<and> q_in \<noteq> [] \<and> 0 < q_n_layers m then Inl RuntimeError
            else if length q_in \<le> MAX_LENGTH
            then Inr (fst (question_run m q_in (replicate (q_hidden_size m) 0)) @
                        replicate (MAX_LENGTH - length q_in) (replicate (q_hidden_size m) 0),
                      snd (question_run m q_in (replicate (q_hidden_size m) 0)))
            else Inl IndexError)"
proof (cases "use_cuda D \<and> q_in \<noteq> [] \<and> 0 < q_n_layers m")
  case True
  then obtain i "is" where q: "q_in = i # is" by (cases q_in) auto
  then have "i < length (q_embedding m)" using assms(2) by simp
  then show ?thesis using True assms(1) q
    by (simp add: process_question_def q_initHidden_def QuestionRNN_forward_def embedding_lookup_def Let_def)
next
  case False
  show ?thesis
  proof (cases "q_in = []")
    case True
    then show ?thesis using assms(1) by (simp add: process_question_def q_initHidden_def Let_def MAX_LENGTH_def)
  next
    case ne: False
    then have "\<not> (use_cuda D \<and> 0 < q_n_layers m)" using False by blast
    then show ?thesis using False assms
      by (simp add: process_question_def q_initHidden_def question_scan_eq Let_def)
  qed
qed

text \<open>C7: When the words of a question are all in the dictionary and their indices within the embedding, process_question returns the outputs and last hidden state of the question network run over the words from the zero state, the outputs padded with zero rows to MAX_LENGTH, and raises IndexError exactly when the question has more than MAX_LENGTH words. On a machine with CUDA the zero state is a CUDA tensor while the network stays on the CPU, so the first word raises RuntimeError in the GRU.\<close>

theorem process_question_spec:
  assumes "prepare_data (split_words question)
             (if is_training then train_question_word_to_ix D else test_question_word_to_ix D) = Inr q_in"
    and "list_all (\<lambda>i. i < length (q_embedding m)) q_in"
  shows "process_question D question m is_training =
           (if use_cuda D \<and> q_in \<noteq> [] \<and> 0 < q_n_layers m then Inl RuntimeError
            else if length q_in \<le> MAX_LENGTH
            then Inr (fst (question_run m q_in (replicate (q_hidden_size m) 0)) @
                        replicate (MAX_LENGTH - length q_in) (replicate (q_hidden_size m) 0),
                      snd (question_run m q_in (replicate (q_hidden_size m) 0)))
            else Inl IndexError)"
  using assms by (rule process_question_eq)

theorem process_question_spec_witness:
  "prepare_data (split_words ''Add 3'')
     (if True then train_question_word_to_ix
                     \<lparr>use_cuda = False, train_question_word_to_ix = [(KStr ''add'', 0), (KStr ''3'', 1)],
                      test_question_word_to_ix = [], train_answer_word_to_ix = [], test_answer_word_to_ix = []\<rparr>
      else []) = Inr [0, 1] \<and>
   list_all (\<lambda>i. i < length [[1::real], [2]]) [0::nat, 1] \<and>
   process_question
     \<lparr>use_cuda = False, train_question_word_to_ix = [(KStr ''add'', 0), (KStr ''3'', 1)], test_question_word_to_ix = [],
      train_answer_word_to_ix = [], test_answer_word_to_ix = []\<rparr>
     ''Add 3'' \<lparr>q_n_layers = 1, q_hidden_size = 1, q_embedding = [[1], [2]], q_gru = (\<lambda>x h. (x, x))\<rparr> True =
   Inr ([[1], [2]] @ replicate 23 [0], [2])"
proof -
  have p: "prepare_data (split_words ''Add 3'') [(KStr ''add'', 0), (KStr ''3'', 1)] = Inr [0, 1]"
    by code_simp
  have "process_question
     \<lparr>use_cuda = False, train_question_word_to_ix = [(KStr ''add'', 0), (KStr ''3'', 1)], test_question_word_to_ix = [],
      train_answer_word_to_ix = [], test_answer_word_to_ix = []\<rparr>
     ''Add 3'' \<lparr>q_n_layers = 1, q_hidden_size = 1, q_embedding = [[1], [2]], q_gru = (\<lambda>x h. (x, x))\<rparr> True =
     (if length [0::nat, 1] \<le> MAX_LENGTH
      then Inr (fst (question_run \<lparr>q_n_layers = 1, q_hidden_size = 1, q_embedding = [[1], [2]], q_gru = (\<lambda>x h. (x, x))\<rparr>
                       [0, 1] (replicate 1 0)) @ replicate (MAX_LENGTH - length [0::nat, 1]) (replicate 1 0),
                snd (question_run \<lparr>q_n_layers = 1, q_hidden_size = 1, q_embedding = [[1], [2]], q_gru = (\<lambda>x h. (x, x))\<rparr>
                       [0, 1] (replicate 1 0)))
      else Inl IndexError)"
    using process_question_spec [of _ True _ "[0, 1]"] p by simp
  then show ?thesis using p by (simp add: MAX_LENGTH_def numeral_eq_Suc)
qed

text \<open>C15: The collision of C4 can put an index past the embedding. A capitalised word w whose lower-case form is already a key leaves the question dictionary at its size n but maps the lower-case form to n; the question network create_models builds has n embedding rows, so process_question raises IndexError on the question w, with or without CUDA (the embedding lookup comes before the GRU).\<close>

theorem q_add_word_process_question_IndexError:
  assumes "\<not> dict_contains d (KStr w)" and "dict_contains d (KStr (py_str_lower w))"
    and "train_question_word_to_ix D = q_add_word d w"
    and "length (q_embedding m) = length (train_question_word_to_ix D)"
    and "py_split w = [w]" and "re_sub_punct w = w"
  shows "process_question D w m True = Inl IndexError"
proof -
  let ?k = "KStr (py_str_lower w)"
  have d: "train_question_word_to_ix D = dict_set d ?k (length d)" using assms(1,3) by (simp add: q_add_word_def)
  then have l: "length (q_embedding m) = length d" using assms(4) dict_set_in_place [OF assms(2)] by simp
  have "dict_get (train_question_word_to_ix D) ?k = Inr (length d)" using d by (simp add: dict_get_Inr)
  then have "prepare_data (split_words w) (train_question_word_to_ix D) = Inr [length d]"
    using assms(5,6) by (simp add: prepare_data_split_words)
  then show ?thesis using l
    by (simp add: process_question_def q_initHidden_def QuestionRNN_forward_def embedding_lookup_def Let_def)
qed

theorem q_add_word_process_question_IndexError_witness:
  "\<not> dict_contains [(KStr ''add'', 0)] (KStr ''Add'') \<and> dict_contains [(KStr ''add'', 0)] (KStr (py_str_lower ''Add'')) \<and>
   train_question_word_to_ix \<lparr>use_cuda = True, train_question_word_to_ix = q_add_word [(KStr ''add'', 0)] ''Add'',
       test_question_word_to_ix = [], train_answer_word_to_ix = [], test_answer_word_to_ix = []\<rparr> =
     q_add_word [(KStr ''add'', 0)] ''Add'' \<and>
   length (q_embedding \<lparr>q_n_layers = 1, q_hidden_size = 1, q_embedding = [[0]], q_gru = (\<lambda>x h. (x, h))\<rparr>) =
     length (train_question_word_to_ix \<lparr>use_cuda = True, train_question_word_to_ix = q_add_word [(KStr ''add'', 0)] ''Add'',
       test_question_word_to_ix = [], train_answer_word_to_ix = [], test_answer_word_to_ix = []\<rparr>) \<and>
   py_split ''Add'' = [''Add''] \<and> re_sub_punct ''Add'' = ''Add'' \<and>
   process_question \<lparr>use_cuda = True, train_question_word_to_ix = q_add_word [(KStr ''add'', 0)] ''Add'',
       test_question_word_to_ix = [], train_answer_word_to_ix = [], test_answer_word_to_ix = []\<rparr> ''Add''
     \<lparr>q_n_layers = 1, q_hidden_size = 1, q_embedding = [[0]], q_gru = (\<lambda>x h. (x, h))\<rparr> True = Inl IndexError"
proof -
  have l: "py_str_lower ''Add'' = ''add''" by code_simp
  have q: "q_add_word [(KStr ''add'', 0)] ''Add'' = [(KStr ''add'', 1)]" by code_simp
  have s: "py_split ''Add'' = [''Add'']" "re_sub_punct ''Add'' = ''Add''" by code_simp+
  have h1: "\<not> dict_contains [(KStr ''add'', 0)] (KStr ''Add'')" by (simp add: dict_contains_def)
  have h2: "dict_contains [(KStr ''add'', 0)] (KStr (py_str_lower ''Add''))" using l by (simp add: dict_contains_def)
  have pq: "process_question \<lparr>use_cuda = True, train_question_word_to_ix = q_add_word [(KStr ''add'', 0)] ''Add'',
       test_question_word_to_ix = [], train_answer_word_to_ix = [], test_answer_word_to_ix = []\<rparr> ''Add''
     \<lparr>q_n_layers = 1, q_hidden_size = 1, q_embedding = [[0]], q_gru = (\<lambda>x h. (x, h))\<rparr> True = Inl IndexError"
    by (rule q_add_word_process_question_IndexError [OF h1 h2]) (simp_all add: q s)
  show ?thesis using h1 h2 pq q s by simp
qed

lemma py_split_Nil_not_number:
  assumes "py_split s = []"
  shows "\<not> is_number (PyStr s)"
proof -
  have "filter (\<lambda>c. \<not> py_isspace c) s = []" using concat_py_split [of s] assms by simp
  then have "\<forall>c \<in> set s. py_isspace c" by (simp add: filter_empty_conv)
  then have "dropWhile py_isspace s = []" by (induction s) auto
  then have "py_strip s = []" unfolding py_strip_def by (metis dropWhile.simps(1) rev.simps(1))
  then show ?thesis
    by (simp add: is_number_def float_of_str_def py_str_lower_def parse_decimal_def split_digitpart_def)
qed

text \<open>C21: process_answer raises UnboundLocalError on an answer string with no words (softmax_layer is never bound), and AttributeError on a list answer, which is not a number and has no split method.\<close>

theorem process_answer_errors:
  "(py_split s = [] \<longrightarrow> process_answer D (PyStr s) m h is_training = Inl UnboundLocalError) \<and>
   process_answer D (PyList xs) m h is_training = Inl AttributeError"
proof
  show "py_split s = [] \<longrightarrow> process_answer D (PyStr s) m h is_training = Inl UnboundLocalError"
  proof
    assume e: "py_split s = []"
    have "prepare_data (PyList []) d = Inr []" for d by (simp add: prepare_data_def is_number_def)
    then show "process_answer D (PyStr s) m h is_training = Inl UnboundLocalError"
      using py_split_Nil_not_number [OF e] e by (simp add: process_answer_def answer_input_def split_method_def split_words_def)
  qed
  show "process_answer D (PyList xs) m h is_training = Inl AttributeError"
    by (simp add: process_answer_def answer_input_def split_method_def is_number_def)
qed

theorem process_answer_errors_witness:
  "py_split '' '' = [] \<and> process_answer (dicts_multiRNN False) (PyStr '' '') \<lparr>a_n_layers = 1, a_hidden_size = 1, output2tag = (\<lambda>v. (0, 0)), a_embedding = [], a_gru = (\<lambda>x h. (x, h))\<rparr> [] True = Inl UnboundLocalError"
proof -
  have e: "py_split '' '' = []" by code_simp
  then show ?thesis using process_answer_errors [of "'' ''" "dicts_multiRNN False" "\<lparr>a_n_layers = 1, a_hidden_size = 1, output2tag = (\<lambda>v. (0, 0)), a_embedding = [], a_gru = (\<lambda>x h. (x, h))\<rparr>" "[]" True] by simp
qed

lemma run_schedule_append:
  "run_schedule sgd D (xs @ ys) st = r_bind (run_schedule sgd D xs st) (run_schedule sgd D ys)"
  by (induction xs arbitrary: st) (auto simp: r_bind_def split: sum.splits)

lemma run_schedule_pass:
  assumes "j < length ams"
  shows "run_schedule sgd D (map (\<lambda>p. (j, p)) data) (qm, ams[j := am]) =
           r_bind (train_pass sgd D j data qm am) (\<lambda>(qm', am'). Inr (qm', ams[j := am']))"
proof (induction data arbitrary: qm am)
  case Nil
  then show ?case by simp
next
  case (Cons p rest)
  obtain question choices c where p: "p = (question, choices, c)" by (cases p)
  show ?case
  proof (cases "py_nth choices j")
    case (Inl e)
    then show ?thesis by (simp add: p schedule_step_def)
  next
    case (Inr choice)
    show ?thesis
    proof (cases "train_one_AnswerRNN sgd D am qm question choice (if c = j then 1 else 0)")
      case (Inl e)
      then show ?thesis using \<open>py_nth choices j = Inr choice\<close> assms by (simp add: p schedule_step_def)
    next
      case (Inr r)
      obtain qm' am' where r: "r = (qm', am')" by (cases r)
      show ?thesis
        using \<open>py_nth choices j = Inr choice\<close> Inr assms Cons.IH [of qm' am']
        by (simp add: p r schedule_step_def)
    qed
  qed
qed

lemma run_schedule_epochs:
  assumes "j < length ams"
  shows "run_schedule sgd D (concat (replicate n (map (\<lambda>p. (j, p)) data))) (qm, ams[j := am]) =
           r_bind (train_epochs sgd D j n data qm am) (\<lambda>(qm', am'). Inr (qm', ams[j := am']))"
proof (induction n arbitrary: qm am)
  case 0
  then show ?case by simp
next
  case (Suc n)
  have "run_schedule sgd D (concat (replicate (Suc n) (map (\<lambda>p. (j, p)) data))) (qm, ams[j := am]) =
        r_bind (train_pass sgd D j data qm am)
          (\<lambda>r. run_schedule sgd D (concat (replicate n (map (\<lambda>p. (j, p)) data))) (fst r, ams[j := snd r]))"
    using assms by (simp add: run_schedule_append run_schedule_pass r_bind_assoc case_prod_beta)
  also have "\<dots> = r_bind (train_epochs sgd D j (Suc n) data qm am) (\<lambda>r. Inr (fst r, ams[j := snd r]))"
    using Suc.IH by (simp add: r_bind_assoc case_prod_beta)
  finally show ?case by (simp add: case_prod_beta)
qed

lemma train_answers_schedule:
  "\<forall>j \<in> set js. j < length ams \<Longrightarrow>
   train_answers sgd D js n data qm ams = run_schedule sgd D (train_schedule js n data) (qm, ams)"
proof (induction js arbitrary: qm ams)
  case Nil
  then show ?case by (simp add: train_schedule_def)
next
  case (Cons j js)
  have j: "j < length ams" using Cons.prems by simp
  have "run_schedule sgd D (train_schedule (j # js) n data) (qm, ams) =
        r_bind (run_schedule sgd D (concat (replicate n (map (\<lambda>p. (j, p)) data))) (qm, ams[j := ams ! j]))
          (run_schedule sgd D (train_schedule js n data))"
    by (simp add: train_schedule_def run_schedule_append)
  also have "\<dots> = r_bind (train_epochs sgd D j n data qm (ams ! j))
                    (\<lambda>r. run_schedule sgd D (train_schedule js n data) (fst r, ams[j := snd r]))"
    using run_schedule_epochs [OF j, where am = "ams ! j" and qm = qm]
    by (simp add: r_bind_assoc case_prod_beta)
  also have "\<dots> = train_answers sgd D (j # js) n data qm ams"
    using j Cons.IH Cons.prems by (auto simp: r_bind_def case_prod_unfold split: sum.splits)
  finally show ?case by simp
qed

lemma train_run_schedule:
  "train sgd D ini data n = run_schedule sgd D (train_schedule [0..<NUM_ANSWERS] n data) (create_models D ini)"
proof -
  obtain qm ams where c: "create_models D ini = (qm, ams)" by (cases "create_models D ini")
  then have "length ams = NUM_ANSWERS" by (auto simp: create_models_def)
  then show ?thesis using c train_answers_schedule [of "[0..<NUM_ANSWERS]" ams] by (simp add: train_def)
qed

text \<open>C1: train runs exactly the schedule of steps: for each answer network j in order, n_epochs passes over the data, each step training network j and the shared question network on choice j of the problem, with target 1 exactly when j is the correct choice.\<close>

theorem train_schedule_equiv:
  "train sgd D ini training_data n_epochs =
     run_schedule sgd D (train_schedule [0..<NUM_ANSWERS] n_epochs training_data) (create_models D ini)"
  by (rule train_run_schedule)

lemma fill_tags_frame:
  "fill_tags D ams answers i h is_training tags = Inr tags' \<Longrightarrow>
   length tags' = length tags \<and> (\<forall>k. (k < i \<or> i + length answers \<le> k) \<longrightarrow> tags' ! k = tags ! k)"
proof (induction answers arbitrary: i tags)
  case Nil
  then show ?case by simp
next
  case (Cons a answers)
  from Cons.prems obtain am s where am: "py_nth ams i = Inr am" and s: "process_answer D a am h is_training = Inr s"
    and i: "i < length tags" and rest: "fill_tags D ams answers (Suc i) h is_training (tags[i := s]) = Inr tags'"
    by (auto simp: r_bind_eq_Inr split: if_splits)
  from Cons.IH [OF rest] show ?case by auto
qed

lemma fill_tags_length:
  "fill_tags D ams answers 0 h is_training tags = Inr tags' \<Longrightarrow> length tags' = length tags"
  using fill_tags_frame by blast

lemma is_accurate_index:
  "is_accurate tags ans_index = Inr (b, k) \<Longrightarrow> k < length tags \<and> b = (k = ans_index)"
proof (cases "tags = []")
  case True
  then show "is_accurate tags ans_index = Inr (b, k) \<Longrightarrow> k < length tags \<and> b = (k = ans_index)"
    by (simp add: is_accurate_empty)
next
  case False
  then show "is_accurate tags ans_index = Inr (b, k) \<Longrightarrow> k < length tags \<and> b = (k = ans_index)"
    using is_accurate_first_max [OF False, of ans_index] by auto
qed

lemma test_loop_predicted:
  "test_loop D qm ams data is_training tags acc out = Inr (s, out') \<Longrightarrow> length tags = NUM_ANSWERS \<Longrightarrow>
   list_all (\<lambda>(q, answers, a). length answers = NUM_ANSWERS \<and> a < NUM_ANSWERS) data \<Longrightarrow>
   list_all is_Predicted out \<Longrightarrow>
   list_all is_Predicted out' \<and> length out' = length out + length data \<and> s \<le> acc + length data"
proof (induction data arbitrary: tags acc out)
  case Nil
  then show ?case by simp
next
  case (Cons p rest)
  obtain question answers ans_index where p: "p = (question, answers, ans_index)" by (cases p)
  from Cons.prems(1) obtain q_in h tags' ok k line where
      ft: "fill_tags D ams answers 0 h is_training tags = Inr tags'"
      and ia: "is_accurate tags' ans_index = Inr (ok, k)"
      and pl: "print_line question answers ans_index k = Inr line"
      and tl: "test_loop D qm ams rest is_training tags' (acc + (if ok then 1 else 0)) (out @ [line]) = Inr (s, out')"
    by (auto simp: p r_bind_eq_Inr)
  have lt: "length tags' = NUM_ANSWERS" using fill_tags_length [OF ft] Cons.prems(2) by simp
  have k: "k < NUM_ANSWERS" using is_accurate_index [OF ia] lt by simp
  have a: "length answers = NUM_ANSWERS" "ans_index < NUM_ANSWERS" using Cons.prems(3) by (simp_all add: p)
  have "line = Predicted question (answers ! ans_index) (answers ! k)"
    using pl k a by (simp add: print_line_def)
  then have "list_all is_Predicted (out @ [line])" using Cons.prems(4) by simp
  then show ?case using Cons.IH [OF tl lt] Cons.prems(3) by (auto simp: p split: if_splits)
qed

text \<open>C10: When every problem has NUM_ANSWERS choices and a correct index below NUM_ANSWERS, every line test prints names a predicted choice (the except branch is never taken), one line per problem, and the count of correct predictions is at most the number of problems.\<close>

theorem test_all_predicted:
  assumes "test D question_model answer_models data is_training = Inr (sumAccuracy, n, out)"
    and "list_all (\<lambda>(q, answers, a). length answers = NUM_ANSWERS \<and> a < NUM_ANSWERS) data"
  shows "list_all is_Predicted out \<and> length out = length data \<and> n = length data \<and> sumAccuracy \<le> n"
proof -
  obtain s out' where tl: "test_loop D question_model answer_models data is_training
      (replicate NUM_ANSWERS (0, 0)) 0 [] = Inr (s, out')" and e: "sumAccuracy = s" "n = length data" "out = out'"
    using assms(1) by (auto simp: test_def r_bind_eq_Inr)
  show ?thesis using test_loop_predicted [OF tl _ assms(2)] e by simp
qed

theorem test_all_predicted_witness:
  "test \<lparr>use_cuda = False, train_question_word_to_ix = [], test_question_word_to_ix = [(KStr ''add'', 0)],
         train_answer_word_to_ix = [], test_answer_word_to_ix = [(KStr ''yes'', 0)]\<rparr>
     \<lparr>q_n_layers = 1, q_hidden_size = 1, q_embedding = [[0]], q_gru = (\<lambda>x h. (x, h))\<rparr>
     (replicate 4 \<lparr>a_n_layers = 1, a_hidden_size = 1, output2tag = (\<lambda>v. (0, 0)), a_embedding = [[0]], a_gru = (\<lambda>x h. (x, h))\<rparr>)
     [(''add'', [PyStr ''yes'', PyStr ''yes'', PyStr ''yes'', PyStr ''yes''], 0)] False =
     Inr (1, 1, [Predicted ''add'' (PyStr ''yes'') (PyStr ''yes'')]) \<and>
   list_all (\<lambda>(q, answers, a). length answers = NUM_ANSWERS \<and> a < NUM_ANSWERS)
     [(''add'', [PyStr ''yes'', PyStr ''yes'', PyStr ''yes'', PyStr ''yes''], 0::nat)] \<and>
   list_all is_Predicted [Predicted ''add'' (PyStr ''yes'') (PyStr ''yes'')]"
proof -
  have q: "prepare_data (split_words ''add'') [(KStr ''add'', 0)] = Inr [0]" by code_simp
  have a: "answer_input \<lparr>use_cuda = False, train_question_word_to_ix = [], test_question_word_to_ix = [(KStr ''add'', 0)],
         train_answer_word_to_ix = [], test_answer_word_to_ix = [(KStr ''yes'', 0)]\<rparr> (PyStr ''yes'') False = Inr [0]"
    by code_simp
  have l: "log_softmax2 (0, 0) = (- ln 2, - ln 2)" by (simp add: log_softmax2_def Let_def)
  have t: "test \<lparr>use_cuda = False, train_question_word_to_ix = [], test_question_word_to_ix = [(KStr ''add'', 0)],
         train_answer_word_to_ix = [], test_answer_word_to_ix = [(KStr ''yes'', 0)]\<rparr>
     \<lparr>q_n_layers = 1, q_hidden_size = 1, q_embedding = [[0]], q_gru = (\<lambda>x h. (x, h))\<rparr>
     (replicate 4 \<lparr>a_n_layers = 1, a_hidden_size = 1, output2tag = (\<lambda>v. (0, 0)), a_embedding = [[0]], a_gru = (\<lambda>x h. (x, h))\<rparr>)
     [(''add'', [PyStr ''yes'', PyStr ''yes'', PyStr ''yes'', PyStr ''yes''], 0)] False =
     Inr (1, 1, [Predicted ''add'' (PyStr ''yes'') (PyStr ''yes'')])"
    using q a l
    by (simp add: test_def process_question_def q_initHidden_def QuestionRNN_forward_def embedding_lookup_def
        process_answer_def AnswerRNN_forward_def relu_def is_accurate_def max_ones_def py_max_def print_line_def
        NUM_ANSWERS_4 MAX_LENGTH_def numeral_eq_Suc Let_def)
  have d: "list_all (\<lambda>(q, answers, a). length answers = NUM_ANSWERS \<and> a < NUM_ANSWERS)
     [(''add'', [PyStr ''yes'', PyStr ''yes'', PyStr ''yes'', PyStr ''yes''], 0::nat)]"
    by (simp add: NUM_ANSWERS_4)
  show ?thesis using test_all_predicted [OF t d] t d by simp
qed

lemma answer_scan_ok:
  "list_all (\<lambda>i. i < length (a_embedding m)) a_in \<Longrightarrow> a_in \<noteq> [] \<or> softmax_layer \<noteq> None \<Longrightarrow>
   \<not> (gpu \<and> 0 < a_n_layers m) \<Longrightarrow> \<exists>s. answer_scan m gpu a_in h softmax_layer = Inr s"
proof (induction a_in arbitrary: h softmax_layer)
  case Nil
  then show ?case by auto
next
  case (Cons i a_in)
  obtain out h' where g: "relu_gru_layers (a_gru m) (a_n_layers m) (a_embedding m ! i) h = (out, h')"
    by (cases "relu_gru_layers (a_gru m) (a_n_layers m) (a_embedding m ! i) h")
  have "AnswerRNN_forward m gpu i h = Inr (log_softmax2 (output2tag m out), h')"
    using Cons.prems(1,3) g by (simp add: AnswerRNN_forward_def embedding_lookup_def)
  then show ?case
    using Cons.IH [where h = h' and softmax_layer = "Some (log_softmax2 (output2tag m out))"] Cons.prems(1,3) by simp
qed

lemma process_answer_ok:
  "choice_ok D is_training answer \<Longrightarrow> length (a_embedding m) = length (train_answer_word_to_ix D) \<Longrightarrow>
   \<not> use_cuda D \<Longrightarrow> \<exists>s. process_answer D answer m h is_training = Inr s"
proof -
  assume c: "choice_ok D is_training answer" and l: "length (a_embedding m) = length (train_answer_word_to_ix D)"
    and g: "\<not> use_cuda D"
  then obtain a_in where a: "answer_input D answer is_training = Inr a_in" "a_in \<noteq> []"
      "list_all (\<lambda>i. i < length (a_embedding m)) a_in"
    by (auto simp: choice_ok_def split: sum.splits)
  obtain s where "answer_scan m (use_cuda D) a_in h None = Inr s" using answer_scan_ok [OF a(3)] a(2) g by blast
  then show ?thesis using a(1) by (simp add: process_answer_def)
qed

lemma process_question_ok:
  "question_ok D is_training question \<Longrightarrow> length (q_embedding m) = length (train_question_word_to_ix D) \<Longrightarrow>
   \<not> use_cuda D \<Longrightarrow> \<exists>r. process_question D question m is_training = Inr r"
  by (auto simp: question_ok_def process_question_def q_initHidden_def question_scan_eq Let_def split: sum.splits)

lemma create_models_well_shaped: "well_shaped D (create_models D ini)"
  by (simp add: well_shaped_def create_models_def QuestionRNN_init_def AnswerRNN_init_def list_all_iff)

lemma well_shaped_update:
  "well_shaped D (qm, ams) \<Longrightarrow> j < length ams \<Longrightarrow> length (q_embedding qm') = length (q_embedding qm) \<Longrightarrow>
   length (a_embedding am') = length (a_embedding (ams ! j)) \<Longrightarrow> well_shaped D (qm', ams[j := am'])"
  by (auto simp: well_shaped_def list_all_length nth_list_update)

lemma train_one_sgd:
  "train_one_AnswerRNN sgd D am qm question choice tag = Inr st \<Longrightarrow> st = sgd qm am question choice tag"
  by (auto simp: train_one_AnswerRNN_def r_bind_eq_Inr split: if_splits)

lemma schedule_step_shape:
  assumes "sgd_keeps_shapes sgd" "well_shaped D st" "schedule_step sgd D st step = Inr st'"
  shows "well_shaped D st'"
proof -
  obtain qm ams where st: "st = (qm, ams)" by (cases st)
  obtain j question choices c where step: "step = (j, question, choices, c)" by (cases step) auto
  from assms(3) obtain choice qm' am' where
      t: "train_one_AnswerRNN sgd D (ams ! j) qm question choice (if c = j then 1 else 0) = Inr (qm', am')"
      and j: "j < length choices" and st': "st' = (qm', ams[j := am'])"
    by (auto simp: schedule_step_def st step r_bind_eq_Inr py_nth_def split: if_splits)
  have "(qm', am') = sgd qm (ams ! j) question choice (if c = j then 1 else 0)" using train_one_sgd [OF t] .
  then have "length (q_embedding qm') = length (q_embedding qm)" "length (a_embedding am') = length (a_embedding (ams ! j))"
    using assms(1) unfolding sgd_keeps_shapes_def by (metis fst_conv snd_conv)+
  show ?thesis
  proof (cases "j < length ams")
    case True
    then show ?thesis using well_shaped_update assms(2) st st' \<open>length (q_embedding qm') = _\<close> \<open>length (a_embedding am') = _\<close>
      by blast
  next
    case False
    then have "ams[j := am'] = ams" by (simp add: list_update_beyond not_less)
    then show ?thesis
      using assms(2) st st' \<open>length (q_embedding qm') = _\<close> by (simp add: well_shaped_def)
  qed
qed

lemma run_schedule_shape:
  "sgd_keeps_shapes sgd \<Longrightarrow> well_shaped D st \<Longrightarrow> run_schedule sgd D steps st = Inr st' \<Longrightarrow> well_shaped D st'"
proof (induction steps arbitrary: st)
  case Nil
  then show ?case by simp
next
  case (Cons step steps)
  from Cons.prems(3) obtain st1 where s1: "schedule_step sgd D st step = Inr st1"
      and r: "run_schedule sgd D steps st1 = Inr st'"
    by (auto simp: r_bind_eq_Inr)
  show ?case using Cons.IH [OF Cons.prems(1) schedule_step_shape [OF Cons.prems(1,2) s1] r] .
qed

lemma schedule_step_ok:
  assumes "sgd_keeps_shapes sgd" "well_shaped D st" "problem_ok D True p" "j < NUM_ANSWERS" "\<not> use_cuda D"
  shows "\<exists>st'. schedule_step sgd D st (j, p) = Inr st'"
proof -
  obtain qm ams where st: "st = (qm, ams)" by (cases st)
  obtain question choices c where p: "p = (question, choices, c)" by (cases p)
  have ws: "length (q_embedding qm) = length (train_question_word_to_ix D)" "length ams = NUM_ANSWERS"
      "length (a_embedding (ams ! j)) = length (train_answer_word_to_ix D)"
    using assms(2,4) by (auto simp: well_shaped_def st list_all_length)
  have pc: "question_ok D True question" "length choices = NUM_ANSWERS" "choice_ok D True (choices ! j)"
    using assms(3,4) by (auto simp: problem_ok_def p list_all_length)
  obtain r where q: "process_question D question qm True = Inr r" using process_question_ok [OF pc(1) ws(1) assms(5)] by blast
  obtain s where "process_answer D (choices ! j) (ams ! j) (snd r) True = Inr s"
    using process_answer_ok [OF pc(3) ws(3) assms(5)] by blast
  then have "\<exists>st1. train_one_AnswerRNN sgd D (ams ! j) qm question (choices ! j) (if c = j then 1 else 0) = Inr st1"
    using q by (auto simp: train_one_AnswerRNN_def case_prod_beta)
  then show ?thesis using pc(2) assms(4) by (auto simp: schedule_step_def st p case_prod_beta)
qed

lemma run_schedule_ok:
  "sgd_keeps_shapes sgd \<Longrightarrow> well_shaped D st \<Longrightarrow>
   list_all (\<lambda>(j, p). j < NUM_ANSWERS \<and> problem_ok D True p) steps \<Longrightarrow> \<not> use_cuda D \<Longrightarrow>
   \<exists>st'. run_schedule sgd D steps st = Inr st'"
proof (induction steps arbitrary: st)
  case Nil
  then show ?case by simp
next
  case (Cons step steps)
  obtain j p where step: "step = (j, p)" by (cases step)
  have "j < NUM_ANSWERS" "problem_ok D True p" using Cons.prems(3) by (simp_all add: step)
  then obtain st1 where s1: "schedule_step sgd D st (j, p) = Inr st1"
    using schedule_step_ok [OF Cons.prems(1,2) _ _ Cons.prems(4)] by blast
  have "well_shaped D st1" using schedule_step_shape [OF Cons.prems(1,2) s1] .
  then show ?case using Cons.IH [OF Cons.prems(1)] Cons.prems(3,4) s1 by (auto simp: step)
qed

lemma train_schedule_ok:
  "list_all (problem_ok D True) data \<Longrightarrow>
   list_all (\<lambda>(j, p). j < NUM_ANSWERS \<and> problem_ok D True p) (train_schedule [0..<NUM_ANSWERS] n data)"
  by (auto simp: train_schedule_def list_all_iff)

lemma train_ok:
  "sgd_keeps_shapes sgd \<Longrightarrow> list_all (problem_ok D True) data \<Longrightarrow> \<not> use_cuda D \<Longrightarrow>
   \<exists>st. train sgd D ini data n = Inr st"
  unfolding train_run_schedule by (rule run_schedule_ok [OF _ create_models_well_shaped train_schedule_ok])

lemma fill_tags_ok:
  "list_all (choice_ok D is_training) answers \<Longrightarrow> i + length answers \<le> length tags \<Longrightarrow>
   i + length answers \<le> length ams \<Longrightarrow>
   list_all (\<lambda>am. length (a_embedding am) = length (train_answer_word_to_ix D)) ams \<Longrightarrow> \<not> use_cuda D \<Longrightarrow>
   \<exists>tags'. fill_tags D ams answers i h is_training tags = Inr tags'"
proof (induction answers arbitrary: i tags)
  case Nil
  then show ?case by simp
next
  case (Cons a answers)
  have i: "i < length ams" "i < length tags" using Cons.prems(2,3) by simp_all
  have "length (a_embedding (ams ! i)) = length (train_answer_word_to_ix D)"
    using Cons.prems(4) i(1) by (simp add: list_all_length)
  then obtain s where s: "process_answer D a (ams ! i) h is_training = Inr s"
    using process_answer_ok Cons.prems(1,5) by fastforce
  obtain tags' where "fill_tags D ams answers (Suc i) h is_training (tags[i := s]) = Inr tags'"
    using Cons.IH [of "Suc i" "tags[i := s]"] Cons.prems by auto
  then show ?case using s i by simp
qed

lemma is_accurate_ok: "tags \<noteq> [] \<Longrightarrow> \<exists>k. is_accurate tags ans_index = Inr (k = ans_index, k) \<and> k < length tags"
  using is_accurate_first_max by blast

lemma test_loop_ok:
  "well_shaped D (qm, ams) \<Longrightarrow> length tags = NUM_ANSWERS \<Longrightarrow> list_all (problem_ok D is_training) data \<Longrightarrow>
   \<not> use_cuda D \<Longrightarrow> \<exists>r. test_loop D qm ams data is_training tags acc out = Inr r"
proof (induction data arbitrary: tags acc out)
  case Nil
  then show ?case by simp
next
  case (Cons p rest)
  obtain question answers ans_index where p: "p = (question, answers, ans_index)" by (cases p)
  have ws: "length (q_embedding qm) = length (train_question_word_to_ix D)" "length ams = NUM_ANSWERS"
      "list_all (\<lambda>am. length (a_embedding am) = length (train_answer_word_to_ix D)) ams"
    using Cons.prems(1) by (simp_all add: well_shaped_def)
  have pc: "question_ok D is_training question" "length answers = NUM_ANSWERS" "ans_index < NUM_ANSWERS"
      "list_all (choice_ok D is_training) answers"
    using Cons.prems(3) by (simp_all add: p problem_ok_def)
  obtain q_in h where q: "process_question D question qm is_training = Inr (q_in, h)"
    using process_question_ok [OF pc(1) ws(1) Cons.prems(4)] by auto
  obtain tags' where f: "fill_tags D ams answers 0 h is_training tags = Inr tags'"
    using fill_tags_ok [OF pc(4)] pc(2) ws(2,3) Cons.prems(2,4) by fastforce
  have lt: "length tags' = NUM_ANSWERS" using fill_tags_length [OF f] Cons.prems(2) by simp
  have "tags' \<noteq> []" using lt by (auto simp: NUM_ANSWERS_4)
  then obtain k where k: "is_accurate tags' ans_index = Inr (k = ans_index, k)" "k < NUM_ANSWERS"
    using is_accurate_ok [of tags' ans_index] lt by auto
  have l: "print_line question answers ans_index k = Inr (Predicted question (answers ! ans_index) (answers ! k))"
    using k(2) pc(2,3) by (simp add: print_line_def)
  have "list_all (problem_ok D is_training) rest" using Cons.prems(3) by (simp add: p)
  then obtain r where "test_loop D qm ams rest is_training tags' (acc + (if k = ans_index then 1 else 0))
      (out @ [Predicted question (answers ! ans_index) (answers ! k)]) = Inr r"
    using Cons.IH [OF Cons.prems(1) lt] Cons.prems(4) by blast
  then show ?case using q f k(1) l by (simp add: p)
qed

lemma test_ok:
  "well_shaped D (qm, ams) \<Longrightarrow> list_all (problem_ok D is_training) data \<Longrightarrow> \<not> use_cuda D \<Longrightarrow>
   \<exists>r. test D qm ams data is_training = Inr r"
  using test_loop_ok [of D qm ams "replicate NUM_ANSWERS (0, 0)" is_training data 0 "[]"]
  by (auto simp: test_def)

lemma script_liveness_from_data:
  assumes "sgd_keeps_shapes sgd"
    and "list_all (problem_ok (dicts_multiRNN False) True) trainingData_multiRNN"
    and "list_all (problem_ok (dicts_multiRNN False) False) testData_multiRNN"
  shows "\<exists>r. script_multiRNN sgd ini False = Inr r"
proof -
  have g: "\<not> use_cuda (dicts_multiRNN False)" by (simp add: dicts_multiRNN_def dicts_of_def)
  obtain st where t: "train sgd (dicts_multiRNN False) ini trainingData_multiRNN 10 = Inr st"
    using train_ok [OF assms(1,2) g] by blast
  obtain qm ams where st: "st = (qm, ams)" by (cases st)
  have w: "well_shaped (dicts_multiRNN False) (qm, ams)"
    using run_schedule_shape [OF assms(1) create_models_well_shaped] t by (simp add: train_run_schedule st)
  obtain r1 where r1: "test (dicts_multiRNN False) qm ams trainingData_multiRNN True = Inr r1"
    using test_ok [OF w assms(2) g] by blast
  obtain r2 where r2: "test (dicts_multiRNN False) qm ams testData_multiRNN False = Inr r2"
    using test_ok [OF w assms(3) g] by blast
  show ?thesis using t st r1 r2 by (simp add: script_multiRNN_def) (metis prod_cases3)
qed

lemma script_data_ok:
  "list_all (problem_ok (dicts_multiRNN cuda) True) trainingData_multiRNN \<and>
   list_all (problem_ok (dicts_multiRNN cuda) False) testData_multiRNN"
  by (simp only: dicts_multiRNN_def dicts_of_def trainingData_question_dict testData_question_dict
      trainingData_answer_dict testData_answer_dict) code_simp

lemma process_question_cuda:
  assumes "use_cuda D" and "question_ok D is_training question" and "py_split question \<noteq> []"
    and "0 < q_n_layers m" and "length (q_embedding m) = length (train_question_word_to_ix D)"
  shows "process_question D question m is_training = Inl RuntimeError"
proof -
  obtain q_in where q: "prepare_data (split_words question)
      (if is_training then train_question_word_to_ix D else test_question_word_to_ix D) = Inr q_in"
      and b: "list_all (\<lambda>i. i < length (train_question_word_to_ix D)) q_in"
    using assms(2) by (auto simp: question_ok_def split: sum.splits)
  have "length q_in = length (py_split question)"
    using q r_mapM_length by (simp add: prepare_data_split_words)
  then have "q_in \<noteq> []" using assms(3) by auto
  then show ?thesis using process_question_eq [OF q] b assms(1,4,5) by simp
qed

lemma script_cuda_RuntimeError: "script_multiRNN sgd ini True = Inl RuntimeError"
proof -
  let ?D = "dicts_multiRNN True"
  obtain p1 ps where d: "trainingData_multiRNN = p1 # ps" by (simp add: trainingData_multiRNN_def)
  obtain q1 cs1 c1 where p1: "p1 = (q1, cs1, c1)" by (cases p1)
  have pok: "problem_ok ?D True p1" using script_data_ok [of True] unfolding d by simp
  then have qok: "question_ok ?D True q1" and cs: "length cs1 = NUM_ANSWERS" by (simp_all add: problem_ok_def p1)
  have "q1 = ''Add 3 and 5''" using d p1 by (simp add: trainingData_multiRNN_def)
  moreover have "py_split ''Add 3 and 5'' \<noteq> []" by code_simp
  ultimately have sp: "py_split q1 \<noteq> []" by simp
  obtain qm ams where cm: "create_models ?D ini = (qm, ams)" by (cases "create_models ?D ini")
  have "well_shaped ?D (qm, ams)" using create_models_well_shaped [of ?D ini] cm by simp
  then have ws: "length (q_embedding qm) = length (train_question_word_to_ix ?D)" by (simp add: well_shaped_def)
  have "q_n_layers qm = 1" using cm by (auto simp: create_models_def QuestionRNN_init_def)
  then have pq: "process_question ?D q1 qm True = Inl RuntimeError"
    using process_question_cuda [OF _ qok sp _ ws] by (simp add: dicts_multiRNN_def dicts_of_def)
  have "train_schedule [0..<NUM_ANSWERS] 10 trainingData_multiRNN = (0, p1) # drop 1 (train_schedule [0..<NUM_ANSWERS] 10 trainingData_multiRNN)"
    by (simp add: train_schedule_def d NUM_ANSWERS_4 upt_rec numeral_eq_Suc)
  moreover have "schedule_step sgd ?D (qm, ams) (0, p1) = Inl RuntimeError"
    using pq cs by (simp add: schedule_step_def p1 train_one_AnswerRNN_def NUM_ANSWERS_4)
  ultimately have "train sgd ?D ini trainingData_multiRNN 10 = Inl RuntimeError"
    using cm by (metis run_schedule.simps(2) r_bind_Inl train_run_schedule)
  then show ?thesis by (simp add: script_multiRNN_def)
qed

text \<open>C2: Without CUDA the script runs to completion: for any initial weights and any gradient step that keeps the shapes of the parameters, training on the training data for ten epochs and the two tests return without an exception; every question and choice of the data is encoded, with indices within the embeddings, and the embeddings keep their sizes through training. With CUDA (use_cuda true) it raises RuntimeError at the first training step: initHidden moves the question network's hidden state to the GPU, but the networks stay on the CPU.\<close>

theorem script_multiRNN_returns:
  assumes "sgd_keeps_shapes sgd"
  shows "(\<exists>r. script_multiRNN sgd ini False = Inr r) \<and> script_multiRNN sgd ini True = Inl RuntimeError"
  using script_liveness_from_data [OF assms] script_data_ok script_cuda_RuntimeError by blast

theorem script_multiRNN_returns_witness:
  "sgd_keeps_shapes (\<lambda>qm am question choice tag. (qm, am)) \<and>
   (\<exists>r. script_multiRNN (\<lambda>qm am question choice tag. (qm, am)) \<lparr>init_q_emb = (\<lambda>i k. 0), init_q_gru = (\<lambda>x h. (x, h)), init_a_emb = (\<lambda>j i k. 0), init_a_gru = (\<lambda>j x h. (x, h)), init_a_lin = (\<lambda>j v. (0, 0))\<rparr> False = Inr r) \<and>
   script_multiRNN (\<lambda>qm am question choice tag. (qm, am)) \<lparr>init_q_emb = (\<lambda>i k. 0), init_q_gru = (\<lambda>x h. (x, h)), init_a_emb = (\<lambda>j i k. 0), init_a_gru = (\<lambda>j x h. (x, h)), init_a_lin = (\<lambda>j v. (0, 0))\<rparr> True = Inl RuntimeError"
proof -
  have s: "sgd_keeps_shapes (\<lambda>qm am question choice tag. (qm, am))" by (simp add: sgd_keeps_shapes_def)
  show ?thesis using script_multiRNN_returns [OF s] s by blast
qed

end
