(* ===== verification/Spec2Isabelle.thy ===== *)
theory Spec2Isabelle
  imports OneHot MultiRNN_Model
begin

text \<open>
  \<^bold>\<open>A verification development for math-questions-with-deep-learning.\<close>

  The repository holds two Python scripts that train toy recurrent networks on a
  dozen hard-coded arithmetic word problems. Everything numeric is done by
  PyTorch; what the scripts themselves compute is the text processing around the
  networks (dictionaries from words to indices, tokenisation, number recognition),
  the way the recurrent state is threaded through the networks, the selection of
  an answer from the scores, and the order of the training and evaluation loops.
  That is what this development models, in shallow embedding, with the PyTorch
  layers as parameters of the definitions.

  \<^bold>\<open>Theories.\<close>
  \<^item> \<open>Prelude\<close>: Python exceptions as values (\<open>py_error + 'a\<close>, \<open>r_bind\<close>,
    \<open>r_mapM\<close> for a list comprehension that may raise, \<open>py_nth\<close> for indexing)
    and insertion-ordered Python dicts as association lists (\<open>dict_contains\<close>,
    \<open>dict_set\<close>, \<open>dict_get\<close>); the enumeration of keys \<open>add_word\<close> and its
    abstract counterpart \<open>first_occurrences\<close>.
  \<^item> \<open>PyStr\<close>: the CPython string operations the scripts call, on Latin-1
    strings: \<open>str.split()\<close> (\<open>py_split\<close>), \<open>re.findall(r"[\w']+", s)\<close>
    (\<open>re_findall_words\<close>), \<open>re.sub(r'[^\w\s]', '', w)\<close> (\<open>re_sub_punct\<close>),
    \<open>str.lower()\<close> (\<open>py_str_lower\<close>), with CPython's character classes.
  \<^item> \<open>PyFloat\<close>: Python's \<open>float()\<close> on ints, floats and strings, with exact
    IEEE binary64 rounding (ties to even, subnormals, OverflowError); the rounding the
    conversions use is proved equal to the reference one (\<open>round_double_pos_equiv\<close>)
    and \<open>float(n)\<close> exact for \<open>|n| \<le> 2^53\<close> (\<open>float_of_int_exact\<close>).
  \<^item> \<open>OneHot\<close>: \<open>src/algebraicReasoning_oneHot.py\<close>. The data,
    \<open>createWordDictionary\<close>, \<open>tag_to_ix\<close>, \<open>prepare_question\<close>; the module
    \<open>LSTMmath\<close> as a record of its state, its constructor, \<open>init_hidden\<close>, the
    one-hot rows fed to an abstract cell that holds the (trained) embedding weight,
    the recurrence \<open>lstm_scan\<close>, \<open>forward\<close>; the training step (whose update
    sees the hidden state the forward pass started from), epoch and loop, the
    evaluation loop, and the top level \<open>script_oneHot\<close> with the import of
    \<open>generateQuestionsInt\<close> at line 6.
  \<^item> \<open>MultiRNN\<close>: the text side of \<open>src/mathQA_multiRNN.py\<close>: the data,
    \<open>is_number\<close>, the question and answer dictionaries (\<open>q_add_word\<close>,
    \<open>createQuestionDictionary\<close>, \<open>a_add_choice\<close>, \<open>createAnswerDictionary\<close>),
    keyed by strings and floats (\<open>pykey\<close>), and \<open>prepare_data\<close>.
  \<^item> \<open>MultiRNN_Model\<close>: the network side of the same script: the module globals
    (\<open>use_cuda\<close> and the four dictionaries, \<open>script_dicts\<close>), \<open>QuestionRNN\<close>
    and \<open>AnswerRNN\<close> as records (embedding weight rows, abstract GRU cell and linear
    layer), their forward passes (which raise RuntimeError when the hidden state is
    a CUDA tensor, as \<open>initHidden\<close> makes it when \<open>use_cuda\<close>),
    \<open>process_question\<close> (\<open>question_scan\<close>),
    \<open>process_answer\<close> (\<open>answer_scan\<close>), \<open>is_accurate\<close>, \<open>create_models\<close>,
    \<open>train_one_AnswerRNN\<close>, \<open>train\<close> (\<open>train_pass\<close>, \<open>train_epochs\<close>,
    \<open>train_answers\<close>), \<open>test\<close> (\<open>fill_tags\<close>, \<open>test_loop\<close>,
    \<open>print_line\<close>) and the top level \<open>script_multiRNN\<close>; and the reference
    definitions the refinements are stated against (\<open>question_run\<close>,
    \<open>train_schedule\<close>, \<open>run_schedule\<close>), with the predicates the end-to-end
    claims assume or establish (\<open>sgd_keeps_shapes\<close>, \<open>well_shaped\<close>,
    \<open>problem_ok\<close>).

  \<^bold>\<open>What is proved.\<close>
  For the one-hot script: \<open>createWordDictionary\<close> refines the enumeration of the
  distinct words by first occurrence and is a bijection onto \<open>0 ..< n\<close>; the
  questions it was built from encode and decode back; \<open>prepare_question\<close> and
  \<open>forward\<close> raise exactly on unknown words, out-of-range indices and empty
  questions; a training step, which resets the hidden state before the forward pass,
  is independent of the previous hidden state, whereas the evaluation loop threads it
  through all questions as one long sentence.

  For the multiRNN script: without CUDA the script runs to completion, for any
  initial weights and any gradient step that keeps the shapes of the parameters, and
  with CUDA it raises RuntimeError at the first training step
  (\<open>script_multiRNN_returns\<close>); \<open>train\<close> runs exactly the schedule of its three
  nested loops (answer network by answer network, epoch by epoch, problem by problem,
  target 1 exactly for the correct choice); \<open>is_accurate\<close> picks the first row of
  largest score (the tag-1 score of a row whose tag-1 score wins, the sentinel
  \<open>-100\<close> otherwise), on log-softmax rows with a candidate it picks a candidate (a
  candidate's score is above \<open>-ln 2\<close>), and without a candidate it picks answer 0
  against its docstring; \<open>process_question\<close> equals the reference run of the
  question network, with IndexError exactly past \<open>MAX_LENGTH\<close> words and
  RuntimeError under CUDA; \<open>test\<close> never reaches its \<open>except\<close> branch on data
  with \<open>NUM_ANSWERS\<close> choices per problem; on lower-case words the question
  dictionary is the first-occurrence enumeration, but the membership test before
  lowering makes a capitalised repeat and the next new word share an index
  (\<open>q_add_word_collision\<close>; add, multiply and 25 share index 44 in the training
  dictionary), and leaves an index equal to the size of the dictionary, which the
  embedding rejects with IndexError (\<open>q_add_word_process_question_IndexError\<close>);
  \<open>prepare_data\<close> raises KeyError on punctuation-only tokens (the reason the
  example of line 26 was removed) and on numeric-string choices, and finds an int
  choice under its float key exactly up to \<open>2^53\<close>; \<open>process_answer\<close> raises
  UnboundLocalError on an answer without words and AttributeError on a list.

  \<^bold>\<open>What is not modelled, and why.\<close>
  The numeric layers (LSTM and GRU cells, \<open>nn.Linear\<close>, the loss,
  back-propagation and SGD) are library code that the scripts only call: they are
  parameters of the model (\<open>cell\<close>, \<open>q_gru\<close>, \<open>a_gru\<close>, \<open>output2tag\<close>,
  \<open>sgd\<close>, the random initial weights of \<open>rnn_init\<close>), and every theorem holds
  for all of them; the log-softmax over two scores is written out over the reals,
  without float32 rounding. Tensor shapes are modelled only where an index can fall
  outside them (embedding rows, the \<open>MAX_LENGTH\<close> output rows, the
  \<open>NUM_ANSWERS\<close> rows of \<open>predicted_tags\<close>). Devices are modelled only as far as
  \<open>use_cuda\<close> decides them: the hidden state is a CUDA tensor exactly when
  \<open>use_cuda\<close>, nothing else is moved, and \<open>question_outputs.cuda()\<close> (line 117)
  does not change a value. Printing, plotting (\<open>plot_gradient\<close>, whose calls are
  commented out) and the gradient norms collected for it (lines 328-329) are not
  modelled. \<open>AnswerRNN.initHidden\<close> is never called.
  Strings are sequences of Latin-1 code points (Isabelle's \<open>char\<close>), which covers
  the data of the scripts.

  \<^bold>\<open>Termination and evaluation.\<close>
  No loop of the scripts can fail to terminate: every loop runs over a finite list or
  a \<open>range\<close>, so every definition is total by structural recursion (\<open>nbits\<close>
  of PyFloat, which halves its argument, by a measure) and no fuel is needed. The
  facts on the script's own data (the encoding of all questions and choices that the
  liveness of the script rests on) are proved by evaluation
  with \<open>code_simp\<close>, from the four dictionaries computed once as values through the
  \<open>foldl\<close> form of their builders; the overflow test of the rounding decides from the exponent so that
  this evaluation does not compute \<open>2^1024\<close>.
\<close>

end
